theory Spec2Isabelle
  imports Complex_Main
begin

section \<open>The host calendar: JavaScript \<open>Date\<close>\<close>

text \<open>
  A JavaScript \<open>Date\<close> holds a time value: the milliseconds since 1970-01-01T00:00Z.
  The model is that integer. The accessors follow the abstract operations of ECMAScript
  (\<open>Day\<close>, \<open>TimeWithinDay\<close>, \<open>DayFromYear\<close>, \<open>MakeDay\<close>, \<open>MakeDate\<close>),
  with the local time zone taken to be UTC, so that \<open>setHours\<close>, \<open>setDate\<close> and
  \<open>setMonth\<close> (local-time methods) and \<open>toISOString\<close> (UTC) see the same calendar
  day. Comparing two dates with \<open><\<close> or \<open><=\<close> compares the time values.
\<close>

type_synonym Date = int

definition msPerDay :: int where
  "msPerDay = 86400000"

definition Day :: "Date \<Rightarrow> int" where
  "Day t = t div msPerDay"

definition TimeWithinDay :: "Date \<Rightarrow> int" where
  "TimeWithinDay t = t mod msPerDay"

definition InLeapYear :: "int \<Rightarrow> bool" where
  "InLeapYear y = (y mod 4 = 0 \<and> (y mod 100 \<noteq> 0 \<or> y mod 400 = 0))"

definition DayFromYear :: "int \<Rightarrow> int" where
  "DayFromYear y =
     365 * (y - 1970) + (y - 1969) div 4 - (y - 1901) div 100 + (y - 1601) div 400"

text \<open>Days of the year before month \<open>m\<close> (0 is January).\<close>

definition DaysBeforeMonth :: "bool \<Rightarrow> int \<Rightarrow> int" where
  "DaysBeforeMonth leap m =
     (if m = 0 then 0
      else if m = 1 then 31
      else (if leap then 1 else 0) +
        (if m = 2 then 59 else if m = 3 then 90 else if m = 4 then 120
         else if m = 5 then 151 else if m = 6 then 181 else if m = 7 then 212
         else if m = 8 then 243 else if m = 9 then 273 else if m = 10 then 304
         else 334))"

text \<open>
  A month is counted by its index \<open>12 * year + month\<close>; \<open>MakeDay\<close> carries a month
  outside \<open>0..11\<close> into the year this way, and a date outside the month into the days
  before or after it.
\<close>

definition DaysInMonth :: "int \<Rightarrow> int" where
  "DaysInMonth mi =
     (let m = mi mod 12 in
      if m = 1 then (if InLeapYear (mi div 12) then 29 else 28)
      else if m = 3 \<or> m = 5 \<or> m = 8 \<or> m = 10 then 30
      else 31)"

definition FirstOfMonth :: "int \<Rightarrow> int" where
  "FirstOfMonth mi =
     DayFromYear (mi div 12) + DaysBeforeMonth (InLeapYear (mi div 12)) (mi mod 12)"

definition MakeDay :: "int \<Rightarrow> int \<Rightarrow> int \<Rightarrow> int" where
  "MakeDay year month date = FirstOfMonth (12 * year + month) + date - 1"

definition MakeDate :: "int \<Rightarrow> int \<Rightarrow> Date" where
  "MakeDate day time = day * msPerDay + time"

lemma DaysInMonth_bounds: "28 \<le> DaysInMonth mi \<and> DaysInMonth mi \<le> 31"
  by (simp add: DaysInMonth_def Let_def)

text \<open>
  The month and the date of a day number: the day \<open>d\<close> of month \<open>mi\<close>, with \<open>d\<close>
  possibly outside the month, is moved month by month until it lies inside one.
\<close>

function MonthDateFrom :: "int \<Rightarrow> int \<Rightarrow> int \<times> int" where
  "MonthDateFrom mi d =
     (if d < 1 then MonthDateFrom (mi - 1) (d + DaysInMonth (mi - 1))
      else if DaysInMonth mi < d then MonthDateFrom (mi + 1) (d - DaysInMonth mi)
      else (mi, d))"
  by pat_completeness auto
termination
proof (relation "measure (\<lambda>(mi, d). if d < 1 then nat (33 - d) else nat d)")
  show "wf (measure (\<lambda>(mi, d). if d < 1 then nat (33 - d) else nat d))" by simp
next
  fix mi d :: int
  assume "d < 1"
  then show "((mi - 1, d + DaysInMonth (mi - 1)), (mi, d))
      \<in> measure (\<lambda>(mi, d). if d < 1 then nat (33 - d) else nat d)"
    using DaysInMonth_bounds [of "mi - 1"] by auto
next
  fix mi d :: int
  assume "\<not> d < 1" "DaysInMonth mi < d"
  then show "((mi + 1, d - DaysInMonth mi), (mi, d))
      \<in> measure (\<lambda>(mi, d). if d < 1 then nat (33 - d) else nat d)"
    using DaysInMonth_bounds [of mi] by auto
qed

declare MonthDateFrom.simps [simp del]

text \<open>The search starts at the month the mean month length suggests.\<close>

definition MonthDateFromDay :: "int \<Rightarrow> int \<times> int" where
  "MonthDateFromDay n =
     (let mi = 12 * 1970 + (n * 4800) div 146097
      in MonthDateFrom mi (n - FirstOfMonth mi + 1))"

definition YearFromTime :: "Date \<Rightarrow> int" where
  "YearFromTime t = fst (MonthDateFromDay (Day t)) div 12"

definition MonthFromTime :: "Date \<Rightarrow> int" where
  "MonthFromTime t = fst (MonthDateFromDay (Day t)) mod 12"

definition DateFromTime :: "Date \<Rightarrow> int" where
  "DateFromTime t = snd (MonthDateFromDay (Day t))"

subsection \<open>The methods of \<open>Date\<close> the program calls\<close>

definition getFullYear :: "Date \<Rightarrow> int" where
  "getFullYear t = YearFromTime t"

definition getMonth :: "Date \<Rightarrow> int" where
  "getMonth t = MonthFromTime t"

definition getDate :: "Date \<Rightarrow> int" where
  "getDate t = DateFromTime t"

definition setDate :: "Date \<Rightarrow> int \<Rightarrow> Date" where
  "setDate t dt = MakeDate (MakeDay (YearFromTime t) (MonthFromTime t) dt) (TimeWithinDay t)"

definition setMonth :: "Date \<Rightarrow> int \<Rightarrow> Date" where
  "setMonth t m = MakeDate (MakeDay (YearFromTime t) m (DateFromTime t)) (TimeWithinDay t)"

definition setFullYear :: "Date \<Rightarrow> int \<Rightarrow> Date" where
  "setFullYear t y = MakeDate (MakeDay y (MonthFromTime t) (DateFromTime t)) (TimeWithinDay t)"

text \<open>\<open>setHours(0, 0, 0, 0)\<close>: the start of the day.\<close>

definition setHours0 :: "Date \<Rightarrow> Date" where
  "setHours0 t = MakeDate (Day t) 0"

text \<open>
  \<open>toISOString().split('T')[0]\<close> is the text \<open>YYYY-MM-DD\<close> of the day; the model keeps
  the three numbers the text is printed from (the month counted from 1), which the text
  determines and is determined by.
\<close>

type_synonym DateKey = "int \<times> int \<times> int"

definition toISODate :: "Date \<Rightarrow> DateKey" where
  "toISODate t = (YearFromTime t, MonthFromTime t + 1, DateFromTime t)"

text \<open>
  A time value lies within 8.64e15 ms of the epoch: past it \<open>TimeClip\<close> gives NaN and
  the Date is an Invalid Date, which \<open>z.date()\<close> refuses. The integers of the model
  have no such end; a theorem whose dates could reach it says with \<open>Date_isValid\<close>
  that they do not.
\<close>

definition Date_isValid :: "Date \<Rightarrow> bool" where
  "Date_isValid t = (\<bar>t\<bar> \<le> 8640000000000000)"

subsection \<open>Facts of the calendar\<close>

lemma div_step:
  assumes "0 < k"
  shows "(y::int) div k - (y - 1) div k = (if y mod k = 0 then 1 else 0)"
proof (cases "y mod k = 0")
  case True
  have "y = k * (y div k)" using True by (metis add.right_neutral mult_div_mod_eq)
  then have "y - 1 = k * (y div k - 1) + (k - 1)"
    by (simp add: algebra_simps)
  moreover have "0 \<le> k - 1" "k - 1 < k" using assms by auto
  ultimately have "(y - 1) div k = y div k - 1"
    by (rule int_div_pos_eq)
  with True show ?thesis by simp
next
  case False
  have "0 \<le> y mod k" "y mod k < k" using assms by simp_all
  with False have r: "0 \<le> y mod k - 1" "y mod k - 1 < k" by auto
  have "y - 1 = k * (y div k) + (y mod k - 1)"
    by (simp add: algebra_simps)
  then have "(y - 1) div k = y div k"
    using r by (rule int_div_pos_eq)
  with False show ?thesis by simp
qed

lemma div_shift: "(k::int) \<noteq> 0 \<Longrightarrow> (y - c * k) div k = y div k - c"
  using div_mult_self1 [of k y "- c"] by simp

lemma DayFromYear_Suc:
  "DayFromYear (y + 1) = DayFromYear y + (if InLeapYear y then 366 else 365)"
proof -
  have a1: "(y + 1 - 1969) div 4 = y div 4 - 492"
    using div_shift [of 4 y 492] by simp
  have a2: "(y - 1969) div 4 = (y - 1) div 4 - 492"
    using div_shift [of 4 "y - 1" 492] by simp
  have b1: "(y + 1 - 1901) div 100 = y div 100 - 19"
    using div_shift [of 100 y 19] by simp
  have b2: "(y - 1901) div 100 = (y - 1) div 100 - 19"
    using div_shift [of 100 "y - 1" 19] by simp
  have c1: "(y + 1 - 1601) div 400 = y div 400 - 4"
    using div_shift [of 400 y 4] by simp
  have c2: "(y - 1601) div 400 = (y - 1) div 400 - 4"
    using div_shift [of 400 "y - 1" 4] by simp
  have d1: "y mod 100 = 0" if "y mod 400 = 0"
  proof -
    have "(400::int) dvd y" using that by (simp add: dvd_eq_mod_eq_0)
    moreover have "(100::int) dvd 400" by simp
    ultimately have "(100::int) dvd y" by (rule dvd_trans [rotated])
    then show ?thesis by (simp add: dvd_eq_mod_eq_0)
  qed
  have d2: "y mod 4 = 0" if "y mod 100 = 0"
  proof -
    have "(100::int) dvd y" using that by (simp add: dvd_eq_mod_eq_0)
    moreover have "(4::int) dvd 100" by simp
    ultimately have "(4::int) dvd y" by (rule dvd_trans [rotated])
    then show ?thesis by (simp add: dvd_eq_mod_eq_0)
  qed
  have e: "DayFromYear (y + 1) - DayFromYear y =
      365 + (y div 4 - (y - 1) div 4) - (y div 100 - (y - 1) div 100)
          + (y div 400 - (y - 1) div 400)"
    unfolding DayFromYear_def a1 a2 b1 b2 c1 c2 by (simp add: algebra_simps)
  have s4: "y div 4 - (y - 1) div 4 = (if y mod 4 = 0 then 1 else 0)"
    by (rule div_step) simp
  have s100: "y div 100 - (y - 1) div 100 = (if y mod 100 = 0 then 1 else 0)"
    by (rule div_step) simp
  have s400: "y div 400 - (y - 1) div 400 = (if y mod 400 = 0 then 1 else 0)"
    by (rule div_step) simp
  have "DayFromYear (y + 1) - DayFromYear y = (if InLeapYear y then 366 else 365)"
  proof (cases "y mod 400 = 0")
    case True
    note h100 = d1 [OF True]
    note h4 = d2 [OF h100]
    from True h100 h4 show ?thesis
      by (simp only: e s4 s100 s400 InLeapYear_def if_True simp_thms) simp?
  next
    case n400: False
    show ?thesis
    proof (cases "y mod 100 = 0")
      case True
      note h4 = d2 [OF True]
      from True h4 n400 show ?thesis
        by (simp only: e s4 s100 s400 InLeapYear_def if_True if_False simp_thms) simp?
    next
      case n100: False
      show ?thesis
      proof (cases "y mod 4 = 0")
        case True
        with n100 n400 show ?thesis
          by (simp only: e s4 s100 s400 InLeapYear_def if_True if_False simp_thms) simp?
      next
        case False
        with n100 n400 show ?thesis
          by (simp only: e s4 s100 s400 InLeapYear_def if_True if_False simp_thms) simp?
      qed
    qed
  qed
  then show ?thesis by linarith
qed

lemma FirstOfMonth_Suc: "FirstOfMonth (mi + 1) = FirstOfMonth mi + DaysInMonth mi"
proof -
  define y where "y = mi div 12"
  define m where "m = mi mod 12"
  have mi: "mi = 12 * y + m" by (simp add: y_def m_def)
  have m: "0 \<le> m" "m < 12" by (simp_all add: m_def)
  show ?thesis
  proof (cases "m = 11")
    case True
    have "mi + 1 = 12 * (y + 1) + 0" using mi True by simp
    then have dm: "(mi + 1) div 12 = y + 1" "(mi + 1) mod 12 = 0"
      by (rule int_div_pos_eq int_mod_pos_eq; simp)+
    show ?thesis
      unfolding FirstOfMonth_def DaysInMonth_def Let_def dm
      unfolding y_def [symmetric] m_def [symmetric] DayFromYear_Suc True
      by (simp add: DaysBeforeMonth_def)
  next
    case False
    with m have m1: "0 \<le> m + 1" "m + 1 < 12" by auto
    have "mi + 1 = 12 * y + (m + 1)" using mi by simp
    then have dm: "(mi + 1) div 12 = y" "(mi + 1) mod 12 = m + 1"
      by (rule int_div_pos_eq int_mod_pos_eq; simp add: m1)+
    from m False have "m = 0 \<or> m = 1 \<or> m = 2 \<or> m = 3 \<or> m = 4 \<or> m = 5 \<or> m = 6
        \<or> m = 7 \<or> m = 8 \<or> m = 9 \<or> m = 10" by arith
    then show ?thesis
      unfolding FirstOfMonth_def DaysInMonth_def Let_def dm
      unfolding y_def [symmetric] m_def [symmetric]
      by (elim disjE) (simp_all add: DaysBeforeMonth_def)
  qed
qed

lemma FirstOfMonth_pred: "FirstOfMonth (mi - 1) = FirstOfMonth mi - DaysInMonth (mi - 1)"
  using FirstOfMonth_Suc [of "mi - 1"] by simp

lemma MonthDateFrom_inv:
  "MonthDateFrom mi d = (mi', d') \<Longrightarrow>
     FirstOfMonth mi' + d' = FirstOfMonth mi + d \<and> 1 \<le> d' \<and> d' \<le> DaysInMonth mi'"
proof (induction mi d rule: MonthDateFrom.induct)
  case (1 mi d)
  show ?case
  proof (cases "d < 1")
    case True
    with "1.prems" have "MonthDateFrom (mi - 1) (d + DaysInMonth (mi - 1)) = (mi', d')"
      by (simp add: MonthDateFrom.simps [of mi d])
    from "1.IH"(1) [OF True this] show ?thesis
      by (simp add: FirstOfMonth_pred)
  next
    case False
    show ?thesis
    proof (cases "DaysInMonth mi < d")
      case True
      with False "1.prems" have "MonthDateFrom (mi + 1) (d - DaysInMonth mi) = (mi', d')"
        by (simp add: MonthDateFrom.simps [of mi d])
      from "1.IH"(2) [OF False True this] show ?thesis
        by (simp add: FirstOfMonth_Suc)
    next
      case inside: False
      with False "1.prems" have "mi' = mi" "d' = d"
        by (simp_all add: MonthDateFrom.simps [of mi d])
      with False inside show ?thesis by simp
    qed
  qed
qed

lemma MonthDateFromDay_inv:
  "MonthDateFromDay n = (mi, d) \<Longrightarrow>
     FirstOfMonth mi + d - 1 = n \<and> 1 \<le> d \<and> d \<le> DaysInMonth mi"
  unfolding MonthDateFromDay_def Let_def
  by (drule MonthDateFrom_inv) simp

text \<open>The year, month and date of a time value are those of its day.\<close>

lemma MakeDay_FromTime:
  "MakeDay (YearFromTime t) (MonthFromTime t) (DateFromTime t) = Day t"
proof -
  obtain mi d where md: "MonthDateFromDay (Day t) = (mi, d)"
    by (cases "MonthDateFromDay (Day t)")
  from MonthDateFromDay_inv [OF md] show ?thesis
    by (simp add: MakeDay_def YearFromTime_def MonthFromTime_def DateFromTime_def md)
qed

lemma FirstOfMonth_add: "FirstOfMonth mi + 28 * int k \<le> FirstOfMonth (mi + int k)"
proof (induction k)
  case 0
  show ?case by simp
next
  case (Suc k)
  have "mi + int (Suc k) = (mi + int k) + 1" by simp
  then have "FirstOfMonth (mi + int (Suc k)) =
      FirstOfMonth (mi + int k) + DaysInMonth (mi + int k)"
    by (simp only: FirstOfMonth_Suc)
  with Suc DaysInMonth_bounds [of "mi + int k"] show ?case by simp
qed

lemma FirstOfMonth_mono: "1 \<le> k \<Longrightarrow> FirstOfMonth mi + 28 \<le> FirstOfMonth (mi + k)"
  using FirstOfMonth_add [of mi "nat k"] by simp

lemma MakeDate_Day: "MakeDate (Day t) (TimeWithinDay t) = t"
  by (simp add: MakeDate_def Day_def TimeWithinDay_def)

text \<open>\<open>d.setDate(d.getDate() + k)\<close> moves a date by \<open>k\<close> whole days.\<close>

lemma setDate_getDate: "setDate t (getDate t + k) = t + k * msPerDay"
proof -
  have "MakeDay (YearFromTime t) (MonthFromTime t) (DateFromTime t + k) = Day t + k"
    using MakeDay_FromTime [of t] by (simp add: MakeDay_def)
  then have "setDate t (getDate t + k) = MakeDate (Day t + k) (TimeWithinDay t)"
    by (simp add: setDate_def getDate_def)
  also have "\<dots> = MakeDate (Day t) (TimeWithinDay t) + k * msPerDay"
    by (simp add: MakeDate_def algebra_simps)
  finally show ?thesis by (simp add: MakeDate_Day)
qed

text \<open>\<open>d.setMonth(d.getMonth() + k)\<close> and \<open>d.setFullYear(d.getFullYear() + k)\<close>
  with \<open>k \<ge> 1\<close> move a date at least 28 days forward.\<close>

lemma setMonth_getMonth: "1 \<le> k \<Longrightarrow> t + 28 * msPerDay \<le> setMonth t (getMonth t + k)"
proof -
  assume k: "1 \<le> k"
  have "Day t + 28 \<le> MakeDay (YearFromTime t) (MonthFromTime t + k) (DateFromTime t)"
    using MakeDay_FromTime [of t]
      FirstOfMonth_mono [OF k, of "12 * YearFromTime t + MonthFromTime t"]
    by (simp add: MakeDay_def add.assoc)
  then have "(Day t + 28) * msPerDay + TimeWithinDay t \<le> setMonth t (getMonth t + k)"
    by (simp add: setMonth_def getMonth_def MakeDate_def msPerDay_def)
  moreover have "(Day t + 28) * msPerDay + TimeWithinDay t = t + 28 * msPerDay"
    using MakeDate_Day [of t] by (simp add: MakeDate_def algebra_simps)
  ultimately show ?thesis by simp
qed

lemma setFullYear_getFullYear:
  "1 \<le> k \<Longrightarrow> t + 28 * msPerDay \<le> setFullYear t (getFullYear t + k)"
proof -
  assume k: "1 \<le> k"
  then have k12: "1 \<le> 12 * k" by simp
  have "Day t + 28 \<le> MakeDay (YearFromTime t + k) (MonthFromTime t) (DateFromTime t)"
    using MakeDay_FromTime [of t]
      FirstOfMonth_mono [OF k12, of "12 * YearFromTime t + MonthFromTime t"]
    by (simp add: MakeDay_def algebra_simps)
  then have "(Day t + 28) * msPerDay + TimeWithinDay t \<le> setFullYear t (getFullYear t + k)"
    by (simp add: setFullYear_def getFullYear_def MakeDate_def msPerDay_def)
  moreover have "(Day t + 28) * msPerDay + TimeWithinDay t = t + 28 * msPerDay"
    using MakeDate_Day [of t] by (simp add: MakeDate_def algebra_simps)
  ultimately show ?thesis by simp
qed



section \<open>Values shared by the entities\<close>

datatype OccurrenceStatus = PENDING | PAID | SKIPPED

datatype TransactionType = INCOME | EXPENSE | ADJUSTMENT

datatype TransactionVisibility = SHARED | PRIVATE

datatype RecurrenceFrequency = DAILY | WEEKLY | MONTHLY | YEARLY

text \<open>
  What the program throws: \<open>new Error(message)\<close> with its message, the error of a
  failed \<open>schema.parse\<close>, \<open>AccountNotFoundException\<close>, the error of a
  Prisma \<open>update\<close> that finds no record, and the error of a recurrence rule that is
  not valid.
\<close>

datatype error =
    Error string
  | ZodError
  | AccountNotFoundException string
  | RecordNotFound
  | InvalidRuleError

subsection \<open>Numbers\<close>

text \<open>
  Amounts are JavaScript Numbers: binary64 floating-point values. A finite Number is
  the rational it denotes. The result of \<open>/\<close>, \<open>*\<close> and \<open>-\<close> is the exact result
  rounded to the nearest Number, a tie going to the one with the even significand
  (53 bits; below \<open>2 ^ -1022\<close> the Numbers are \<open>2 ^ -1074\<close> apart). The infinities
  and NaN are not modelled: the theorems on amounts keep the totals below \<open>2 ^ 1000\<close>,
  where no operation of the program overflows.
\<close>

text \<open>\<open>binade x\<close> is the integer \<open>e\<close> with \<open>2 ^ e \<le> x < 2 ^ (e + 1)\<close>, for \<open>x > 0\<close>.\<close>

function binade :: "rat \<Rightarrow> int" where
  "binade x =
     (if x \<le> 0 then 0
      else if 2 \<le> x then binade (x / 2) + 1
      else if x < 1 then binade (x * 2) - 1
      else 0)"
  by pat_completeness auto

lemma binade_down:
  assumes "(2::rat) \<le> x"
  shows "\<lfloor>x / 2\<rfloor> < \<lfloor>x\<rfloor>" "1 \<le> \<lfloor>x / 2\<rfloor>"
proof -
  from assms have "x / 2 \<le> x - 1" by simp
  then have "\<lfloor>x / 2\<rfloor> \<le> \<lfloor>x - 1\<rfloor>" by (rule floor_mono)
  then show "\<lfloor>x / 2\<rfloor> < \<lfloor>x\<rfloor>" by simp
  from assms have "1 \<le> x / 2" by simp
  then show "1 \<le> \<lfloor>x / 2\<rfloor>" by (simp add: le_floor_iff)
qed

lemma binade_up:
  assumes "(0::rat) < x" "x < 1"
  shows "1 \<le> x * 2 \<Longrightarrow> \<lfloor>x * 2\<rfloor> = 1"
    and "2 \<le> \<lceil>1 / x\<rceil>"
    and "\<not> 1 \<le> x * 2 \<Longrightarrow> \<lceil>1 / (x * 2)\<rceil> < \<lceil>1 / x\<rceil>"
proof -
  show "\<lfloor>x * 2\<rfloor> = 1" if "1 \<le> x * 2"
    using that assms by (simp add: floor_eq_iff)
  from assms have y: "1 < 1 / x" by simp
  then show "2 \<le> \<lceil>1 / x\<rceil>" by (simp add: le_ceiling_iff)
  show "\<lceil>1 / (x * 2)\<rceil> < \<lceil>1 / x\<rceil>" if "\<not> 1 \<le> x * 2"
  proof -
    from that assms have "2 < 1 / x" by (simp add: field_simps)
    then have "1 / x / 2 \<le> 1 / x - 1" by simp
    then have "\<lceil>1 / x / 2\<rceil> \<le> \<lceil>1 / x - 1\<rceil>" by (rule ceiling_mono)
    then have "\<lceil>1 / x / 2\<rceil> < \<lceil>1 / x\<rceil>" by simp
    moreover have "1 / (x * 2) = 1 / x / 2" by simp
    ultimately show ?thesis by (simp only:)
  qed
qed

termination binade
proof (relation "measure (\<lambda>x. if 1 \<le> x then nat \<lfloor>x\<rfloor> else nat \<lceil>1 / x\<rceil> + 1)", goal_cases)
  case 1
  show ?case by simp
next
  case (2 x)
  then have "2 \<le> x" by simp
  from binade_down [OF this] this show ?case by simp
next
  case (3 x)
  then have x: "0 < x" "x < 1" by simp_all
  show ?case
  proof (cases "1 \<le> x * 2")
    case True
    with binade_up(1,2) [OF x] x show ?thesis by simp
  next
    case False
    with binade_up(3) [OF x] x have "\<lceil>1 / (x * 2)\<rceil> < \<lceil>1 / x\<rceil>" by simp
    moreover from x have "0 < \<lceil>1 / (x * 2)\<rceil>" by (simp add: less_ceiling_iff)
    ultimately show ?thesis using False x by simp
  qed
qed

declare binade.simps [simp del]

text \<open>The nearest integer, a half going to the even one.\<close>

definition roundTiesToEven :: "rat \<Rightarrow> int" where
  "roundTiesToEven x =
     (if x - of_int \<lfloor>x\<rfloor> < 1 / 2 then \<lfloor>x\<rfloor>
      else if 1 / 2 < x - of_int \<lfloor>x\<rfloor> then \<lfloor>x\<rfloor> + 1
      else if even \<lfloor>x\<rfloor> then \<lfloor>x\<rfloor> else \<lfloor>x\<rfloor> + 1)"

text \<open>
  The Number value of a rational: the nearest multiple of \<open>2 ^ (e - 52)\<close>, where \<open>e\<close>
  is the binade of the rational, and at least -1022.
\<close>

definition NumberValue :: "rat \<Rightarrow> rat" where
  "NumberValue x =
     (if x = 0 then 0
      else of_int (roundTiesToEven (x / power_int 2 (max (binade \<bar>x\<bar>) (- 1022) - 52)))
             * power_int 2 (max (binade \<bar>x\<bar>) (- 1022) - 52))"

definition Number_divide :: "rat \<Rightarrow> rat \<Rightarrow> rat" where
  "Number_divide x y = NumberValue (x / y)"

definition Number_multiply :: "rat \<Rightarrow> rat \<Rightarrow> rat" where
  "Number_multiply x y = NumberValue (x * y)"

definition Number_subtract :: "rat \<Rightarrow> rat \<Rightarrow> rat" where
  "Number_subtract x y = NumberValue (x - y)"

text \<open>
  \<open>Math.round\<close> gives the nearest integer, a half going towards \<open>+\<infinity>\<close>; it is exact.
\<close>

definition Math_round :: "rat \<Rightarrow> int" where
  "Math_round x = \<lfloor>x + 1 / 2\<rfloor>"

text \<open>
  \<open>z.string().uuid()\<close>: the text has the shape 8-4-4-4-12 of hexadecimal digits.
  No proof below looks inside this check, except on the concrete identifiers of the
  examples.
\<close>

definition is_hex :: "char \<Rightarrow> bool" where
  "is_hex c = (c \<in> set ''0123456789abcdefABCDEF'')"

definition uuid :: "string \<Rightarrow> bool" where
  "uuid s =
     (length s = 36 \<and>
      list_all is_hex (take 8 s) \<and> s ! 8 = CHR ''-'' \<and>
      list_all is_hex (take 4 (drop 9 s)) \<and> s ! 13 = CHR ''-'' \<and>
      list_all is_hex (take 4 (drop 14 s)) \<and> s ! 18 = CHR ''-'' \<and>
      list_all is_hex (take 4 (drop 19 s)) \<and> s ! 23 = CHR ''-'' \<and>
      list_all is_hex (drop 24 s))"

definition optional :: "('a \<Rightarrow> bool) \<Rightarrow> 'a option \<Rightarrow> bool" where
  "optional check v = (case v of None \<Rightarrow> True | Some x \<Rightarrow> check x)"

section \<open>The schedule entries\<close>

subsection \<open>\<open>Installment\<close> (installment.entity.ts)\<close>

text \<open>
  An optional property that is \<open>undefined\<close> or \<open>null\<close> is \<open>None\<close>. The constructor
  draws a fresh identifier (\<open>crypto.randomUUID()\<close>) and reads the clock
  (\<open>new Date()\<close>) when the properties give none; both are arguments of the model.
\<close>

record InstallmentProps =
  id :: "string option"
  template_id :: string
  installment_number :: int
  amount :: rat
  due_date :: Date
  status :: "OccurrenceStatus option"
  transaction_id :: "string option"
  created_at :: "Date option"
  updated_at :: "Date option"

record Installment =
  id :: string
  template_id :: string
  installment_number :: int
  amount :: rat
  due_date :: Date
  status :: OccurrenceStatus
  transaction_id :: "string option"
  created_at :: Date
  updated_at :: Date

definition Installment_validate :: "InstallmentProps \<Rightarrow> error + InstallmentProps" where
  "Installment_validate props =
     (if optional uuid (InstallmentProps.id props)
         \<and> uuid (InstallmentProps.template_id props)
         \<and> 0 < InstallmentProps.installment_number props
         \<and> 0 < InstallmentProps.amount props
         \<and> optional uuid (InstallmentProps.transaction_id props)
      then Inr props else Inl ZodError)"

definition Installment_new ::
    "string \<Rightarrow> Date \<Rightarrow> InstallmentProps \<Rightarrow> error + Installment" where
  "Installment_new randomUUID now props =
     (case Installment_validate props of
        Inl e \<Rightarrow> Inl e
      | Inr validated \<Rightarrow> Inr
          \<lparr>Installment.id =
             (case InstallmentProps.id validated of Some i \<Rightarrow> i | None \<Rightarrow> randomUUID),
           template_id = InstallmentProps.template_id validated,
           installment_number = InstallmentProps.installment_number validated,
           amount = InstallmentProps.amount validated,
           due_date = InstallmentProps.due_date validated,
           status =
             (case InstallmentProps.status validated of Some s \<Rightarrow> s | None \<Rightarrow> PENDING),
           transaction_id = InstallmentProps.transaction_id validated,
           created_at =
             (case InstallmentProps.created_at validated of Some d \<Rightarrow> d | None \<Rightarrow> now),
           updated_at =
             (case InstallmentProps.updated_at validated of Some d \<Rightarrow> d | None \<Rightarrow> now)\<rparr>)"

text \<open>The factory \<open>Installment.create\<close> is \<open>new Installment(props)\<close>: leaving out \<open>id\<close>,
  \<open>created_at\<close> and \<open>updated_at\<close> is asked of the caller by the type alone.\<close>

definition Installment_create ::
    "string \<Rightarrow> Date \<Rightarrow> InstallmentProps \<Rightarrow> error + Installment" where
  "Installment_create randomUUID now props = Installment_new randomUUID now props"

definition Installment_isPending :: "Installment \<Rightarrow> bool" where
  "Installment_isPending i = (Installment.status i = PENDING)"

definition Installment_isPaid :: "Installment \<Rightarrow> bool" where
  "Installment_isPaid i = (Installment.status i = PAID)"

definition Installment_isSkipped :: "Installment \<Rightarrow> bool" where
  "Installment_isSkipped i = (Installment.status i = SKIPPED)"

definition Installment_isOverdue :: "Date \<Rightarrow> Installment \<Rightarrow> bool" where
  "Installment_isOverdue now i =
     (let today = setHours0 now;
          dueDate = setHours0 (Installment.due_date i);
          thirtyDaysAgo = setDate today (getDate today - 30)
      in dueDate < thirtyDaysAgo)"

definition Installment_canBePaid :: "Date \<Rightarrow> Installment \<Rightarrow> bool" where
  "Installment_canBePaid now i = (Installment_isPending i \<and> \<not> Installment_isOverdue now i)"

definition Installment_canBeSkipped :: "Installment \<Rightarrow> bool" where
  "Installment_canBeSkipped i = Installment_isPending i"

definition Installment_isDue :: "Date \<Rightarrow> Installment \<Rightarrow> bool" where
  "Installment_isDue now i =
     (let today = setHours0 now;
          dueDate = setHours0 (Installment.due_date i)
      in dueDate \<le> today \<and> Installment_isPending i)"

definition Installment_markAsPaid :: "Installment \<Rightarrow> string \<Rightarrow> error + Installment" where
  "Installment_markAsPaid i transactionId =
     (if \<not> Installment_isPending i
        then Inl (Error ''Only pending installments can be marked as paid'')
      else if transactionId = []
        then Inl (Error ''Transaction ID is required to mark as paid'')
      else Inr (i\<lparr>Installment.status := PAID,
                   Installment.transaction_id := Some transactionId\<rparr>))"

definition Installment_markAsSkipped :: "Installment \<Rightarrow> error + Installment" where
  "Installment_markAsSkipped i =
     (if \<not> Installment_isPending i
        then Inl (Error ''Only pending installments can be skipped'')
      else Inr (i\<lparr>Installment.status := SKIPPED\<rparr>))"

subsection \<open>\<open>RecurringOccurrence\<close> (recurring-occurrence.entity.ts)\<close>

record RecurringOccurrenceProps =
  id :: "string option"
  template_id :: string
  due_date :: Date
  status :: "OccurrenceStatus option"
  transaction_id :: "string option"
  created_at :: "Date option"
  updated_at :: "Date option"

record RecurringOccurrence =
  id :: string
  template_id :: string
  due_date :: Date
  status :: OccurrenceStatus
  transaction_id :: "string option"
  created_at :: Date
  updated_at :: Date

definition RecurringOccurrence_validate ::
    "RecurringOccurrenceProps \<Rightarrow> error + RecurringOccurrenceProps" where
  "RecurringOccurrence_validate props =
     (if optional uuid (RecurringOccurrenceProps.id props)
         \<and> uuid (RecurringOccurrenceProps.template_id props)
         \<and> optional uuid (RecurringOccurrenceProps.transaction_id props)
      then Inr props else Inl ZodError)"

definition RecurringOccurrence_new ::
    "string \<Rightarrow> Date \<Rightarrow> RecurringOccurrenceProps \<Rightarrow> error + RecurringOccurrence" where
  "RecurringOccurrence_new randomUUID now props =
     (case RecurringOccurrence_validate props of
        Inl e \<Rightarrow> Inl e
      | Inr validated \<Rightarrow> Inr
          \<lparr>RecurringOccurrence.id =
             (case RecurringOccurrenceProps.id validated of
                Some i \<Rightarrow> i | None \<Rightarrow> randomUUID),
           template_id = RecurringOccurrenceProps.template_id validated,
           due_date = RecurringOccurrenceProps.due_date validated,
           status =
             (case RecurringOccurrenceProps.status validated of
                Some s \<Rightarrow> s | None \<Rightarrow> PENDING),
           transaction_id = RecurringOccurrenceProps.transaction_id validated,
           created_at =
             (case RecurringOccurrenceProps.created_at validated of
                Some d \<Rightarrow> d | None \<Rightarrow> now),
           updated_at =
             (case RecurringOccurrenceProps.updated_at validated of
                Some d \<Rightarrow> d | None \<Rightarrow> now)\<rparr>)"

definition RecurringOccurrence_create ::
    "string \<Rightarrow> Date \<Rightarrow> RecurringOccurrenceProps \<Rightarrow> error + RecurringOccurrence" where
  "RecurringOccurrence_create randomUUID now props =
     RecurringOccurrence_new randomUUID now props"

definition RecurringOccurrence_isPending :: "RecurringOccurrence \<Rightarrow> bool" where
  "RecurringOccurrence_isPending oc = (RecurringOccurrence.status oc = PENDING)"

definition RecurringOccurrence_isPaid :: "RecurringOccurrence \<Rightarrow> bool" where
  "RecurringOccurrence_isPaid oc = (RecurringOccurrence.status oc = PAID)"

definition RecurringOccurrence_isSkipped :: "RecurringOccurrence \<Rightarrow> bool" where
  "RecurringOccurrence_isSkipped oc = (RecurringOccurrence.status oc = SKIPPED)"

definition RecurringOccurrence_isOverdue :: "Date \<Rightarrow> RecurringOccurrence \<Rightarrow> bool" where
  "RecurringOccurrence_isOverdue now oc =
     (let today = setHours0 now;
          dueDate = setHours0 (RecurringOccurrence.due_date oc);
          thirtyDaysAgo = setDate today (getDate today - 30)
      in dueDate < thirtyDaysAgo)"

definition RecurringOccurrence_canBePaid :: "Date \<Rightarrow> RecurringOccurrence \<Rightarrow> bool" where
  "RecurringOccurrence_canBePaid now oc =
     (RecurringOccurrence_isPending oc \<and> \<not> RecurringOccurrence_isOverdue now oc)"

definition RecurringOccurrence_canBeSkipped :: "RecurringOccurrence \<Rightarrow> bool" where
  "RecurringOccurrence_canBeSkipped oc = RecurringOccurrence_isPending oc"

definition RecurringOccurrence_markAsPaid ::
    "RecurringOccurrence \<Rightarrow> string \<Rightarrow> error + RecurringOccurrence" where
  "RecurringOccurrence_markAsPaid oc transactionId =
     (if \<not> RecurringOccurrence_isPending oc
        then Inl (Error ''Only pending occurrences can be marked as paid'')
      else if transactionId = []
        then Inl (Error ''Transaction ID is required to mark as paid'')
      else Inr (oc\<lparr>RecurringOccurrence.status := PAID,
                    RecurringOccurrence.transaction_id := Some transactionId\<rparr>))"

definition RecurringOccurrence_markAsSkipped ::
    "RecurringOccurrence \<Rightarrow> error + RecurringOccurrence" where
  "RecurringOccurrence_markAsSkipped oc =
     (if \<not> RecurringOccurrence_isPending oc
        then Inl (Error ''Only pending occurrences can be skipped'')
      else Inr (oc\<lparr>RecurringOccurrence.status := SKIPPED\<rparr>))"

section \<open>Installment templates and the installments they generate\<close>

subsection \<open>\<open>InstallmentTemplate\<close> (installment-template.entity.ts)\<close>

record InstallmentTemplateProps =
  id :: "string option"
  couple_id :: string
  description :: "string option"
  total_amount :: rat
  total_installments :: int
  paid_by_id :: string
  account_id :: string
  category_id :: "string option"
  is_couple_expense :: "bool option"
  is_free_spending :: "bool option"
  visibility :: TransactionVisibility
  first_due_date :: Date
  is_active :: "bool option"
  created_at :: "Date option"
  updated_at :: "Date option"

record InstallmentTemplate =
  id :: string
  couple_id :: string
  description :: "string option"
  total_amount :: rat
  total_installments :: int
  paid_by_id :: string
  account_id :: string
  category_id :: "string option"
  is_couple_expense :: bool
  is_free_spending :: bool
  visibility :: TransactionVisibility
  first_due_date :: Date
  is_active :: bool
  created_at :: Date
  updated_at :: Date

definition InstallmentTemplate_validate ::
    "InstallmentTemplateProps \<Rightarrow> error + InstallmentTemplateProps" where
  "InstallmentTemplate_validate props =
     (if optional uuid (InstallmentTemplateProps.id props)
         \<and> uuid (InstallmentTemplateProps.couple_id props)
         \<and> 0 < InstallmentTemplateProps.total_amount props
         \<and> 2 \<le> InstallmentTemplateProps.total_installments props
         \<and> InstallmentTemplateProps.total_installments props \<le> 120
         \<and> uuid (InstallmentTemplateProps.paid_by_id props)
         \<and> uuid (InstallmentTemplateProps.account_id props)
         \<and> optional uuid (InstallmentTemplateProps.category_id props)
      then Inr props else Inl ZodError)"

definition InstallmentTemplate_new ::
    "string \<Rightarrow> Date \<Rightarrow> InstallmentTemplateProps \<Rightarrow> error + InstallmentTemplate" where
  "InstallmentTemplate_new randomUUID now props =
     (case InstallmentTemplate_validate props of
        Inl e \<Rightarrow> Inl e
      | Inr validated \<Rightarrow> Inr
          \<lparr>InstallmentTemplate.id =
             (case InstallmentTemplateProps.id validated of
                Some i \<Rightarrow> i | None \<Rightarrow> randomUUID),
           couple_id = InstallmentTemplateProps.couple_id validated,
           description = InstallmentTemplateProps.description validated,
           total_amount = InstallmentTemplateProps.total_amount validated,
           total_installments = InstallmentTemplateProps.total_installments validated,
           paid_by_id = InstallmentTemplateProps.paid_by_id validated,
           account_id = InstallmentTemplateProps.account_id validated,
           category_id = InstallmentTemplateProps.category_id validated,
           is_couple_expense =
             (case InstallmentTemplateProps.is_couple_expense validated of
                Some b \<Rightarrow> b | None \<Rightarrow> False),
           is_free_spending =
             (case InstallmentTemplateProps.is_free_spending validated of
                Some b \<Rightarrow> b | None \<Rightarrow> False),
           visibility = InstallmentTemplateProps.visibility validated,
           first_due_date = InstallmentTemplateProps.first_due_date validated,
           is_active =
             (case InstallmentTemplateProps.is_active validated of
                Some b \<Rightarrow> b | None \<Rightarrow> True),
           created_at =
             (case InstallmentTemplateProps.created_at validated of
                Some d \<Rightarrow> d | None \<Rightarrow> now),
           updated_at =
             (case InstallmentTemplateProps.updated_at validated of
                Some d \<Rightarrow> d | None \<Rightarrow> now)\<rparr>)"

definition InstallmentTemplate_create ::
    "string \<Rightarrow> Date \<Rightarrow> InstallmentTemplateProps \<Rightarrow> error + InstallmentTemplate" where
  "InstallmentTemplate_create randomUUID now props =
     InstallmentTemplate_new randomUUID now
       (props\<lparr>InstallmentTemplateProps.id := None,
              InstallmentTemplateProps.created_at := None,
              InstallmentTemplateProps.updated_at := None\<rparr>)"

definition getInstallmentAmount :: "InstallmentTemplate \<Rightarrow> rat" where
  "getInstallmentAmount t =
     Number_divide (InstallmentTemplate.total_amount t)
       (of_int (InstallmentTemplate.total_installments t))"

definition calculateDueDate :: "InstallmentTemplate \<Rightarrow> int \<Rightarrow> error + Date" where
  "calculateDueDate t installmentNumber =
     (if installmentNumber < 1 \<or> InstallmentTemplate.total_installments t < installmentNumber
        then Inl (Error ''Invalid installment number'')
      else Inr (setMonth (InstallmentTemplate.first_due_date t)
                  (getMonth (InstallmentTemplate.first_due_date t) + (installmentNumber - 1))))"

subsection \<open>\<open>generateInstallments\<close>\<close>

text \<open>
  \<open>CreateInstallmentTransactionUseCase.generateInstallments\<close>; the method of the same
  name in \<open>CreateInstallmentTemplateUseCase\<close> has the same body, under the comment
  ``Handle rounding: last installment gets any remainder''. The loop runs \<open>i\<close> from 1 to
  \<open>total_installments\<close>; \<open>randomUUID k\<close> is the identifier drawn for the entity
  created after \<open>k\<close> others.
\<close>

function generateInstallments_loop ::
    "InstallmentTemplate \<Rightarrow> (nat \<Rightarrow> string) \<Rightarrow> Date \<Rightarrow> int \<Rightarrow> Installment list
       \<Rightarrow> error + Installment list" where
  "generateInstallments_loop template randomUUID now i installments =
     (if i \<le> InstallmentTemplate.total_installments template then
        (case calculateDueDate template i of
           Inl e \<Rightarrow> Inl e
         | Inr dueDate \<Rightarrow>
            (case Installment_create (randomUUID (length installments)) now
                    \<lparr>InstallmentProps.id = None,
                     template_id = InstallmentTemplate.id template,
                     installment_number = i,
                     amount =
                       Number_divide
                         (of_int (Math_round
                            (Number_multiply
                               (if i = InstallmentTemplate.total_installments template
                                then Number_subtract
                                  (InstallmentTemplate.total_amount template)
                                  (Number_multiply (getInstallmentAmount template)
                                     (of_int
                                        (InstallmentTemplate.total_installments template - 1)))
                                else getInstallmentAmount template)
                               100)))
                         100,
                     due_date = dueDate,
                     status = None, transaction_id = None,
                     created_at = None, updated_at = None\<rparr> of
               Inl e \<Rightarrow> Inl e
             | Inr installment \<Rightarrow>
                 generateInstallments_loop template randomUUID now (i + 1)
                   (installments @ [installment])))
      else Inr installments)"
  by pat_completeness auto
termination
  by (relation "measure (\<lambda>(template, randomUUID, now, i, installments).
        nat (InstallmentTemplate.total_installments template + 1 - i))") auto

declare generateInstallments_loop.simps [simp del]

definition generateInstallments ::
    "InstallmentTemplate \<Rightarrow> (nat \<Rightarrow> string) \<Rightarrow> Date \<Rightarrow> error + Installment list" where
  "generateInstallments template randomUUID now =
     generateInstallments_loop template randomUUID now 1 []"


section \<open>Recurring templates and the occurrences they generate\<close>

text \<open>
  The class \<open>RecurringTransactionTemplate\<close> is used, not declared, in the files at hand;
  the record holds the properties the use cases give its constructor and read back.
\<close>

record RecurringTransactionTemplate =
  id :: string
  couple_id :: string
  type :: TransactionType
  amount :: rat
  description :: "string option"
  paid_by_id :: string
  account_id :: string
  is_couple_expense :: bool
  is_free_spending :: bool
  visibility :: TransactionVisibility
  category :: "string option"
  frequency :: RecurrenceFrequency
  interval :: int
  start_date :: Date
  end_date :: "Date option"
  next_occurrence :: Date
  is_active :: bool

subsection \<open>\<open>GenerateRecurringOccurrencesUseCase\<close>: the dates\<close>

text \<open>\<open>calculateEndDate\<close>; \<open>now\<close> is the clock read by \<open>new Date()\<close>.\<close>

definition calculateEndDate :: "Date \<Rightarrow> RecurringTransactionTemplate \<Rightarrow> int \<Rightarrow> Date" where
  "calculateEndDate now template monthsAhead =
     (case RecurringTransactionTemplate.end_date template of
        Some e \<Rightarrow>
          if e < setMonth now (getMonth now + monthsAhead) then e
          else setMonth now (getMonth now + monthsAhead)
      | None \<Rightarrow> setMonth now (getMonth now + monthsAhead))"

definition calculateNextDate :: "Date \<Rightarrow> RecurrenceFrequency \<Rightarrow> int \<Rightarrow> Date" where
  "calculateNextDate currentDate freq intv =
     (case freq of
        DAILY \<Rightarrow> setDate currentDate (getDate currentDate + intv)
      | WEEKLY \<Rightarrow> setDate currentDate (getDate currentDate + intv * 7)
      | MONTHLY \<Rightarrow> setMonth currentDate (getMonth currentDate + intv)
      | YEARLY \<Rightarrow> setFullYear currentDate (getFullYear currentDate + intv))"

text \<open>\<open>template.end_date && currentDate > template.end_date\<close>.\<close>

definition pastTemplateEnd :: "RecurringTransactionTemplate \<Rightarrow> Date \<Rightarrow> bool" where
  "pastTemplateEnd template currentDate =
     (case RecurringTransactionTemplate.end_date template of
        None \<Rightarrow> False
      | Some e \<Rightarrow> e < currentDate)"

text \<open>
  The \<open>while\<close> loop of \<open>execute\<close>. Nothing in the loop bounds the number of its
  rounds (an interval below 1 never moves the cursor past the end date), so the model is
  a partial function: \<open>None\<close> is a loop that does not end. \<open>existingDates\<close> are the
  members of the set built from the stored occurrences.
\<close>

partial_function (option) generateOccurrences_loop ::
    "RecurringTransactionTemplate \<Rightarrow> DateKey list \<Rightarrow> Date \<Rightarrow> (nat \<Rightarrow> string) \<Rightarrow> Date
       \<Rightarrow> Date \<Rightarrow> RecurringOccurrence list \<Rightarrow> (error + RecurringOccurrence list) option"
where
  "generateOccurrences_loop template existingDates endDate randomUUID now
       currentDate occurrences =
     (if currentDate \<le> endDate then
        (case
           (if toISODate currentDate \<in> set existingDates then Inr occurrences
            else
              (case RecurringOccurrence_create (randomUUID (length occurrences)) now
                      \<lparr>RecurringOccurrenceProps.id = None,
                       template_id = RecurringTransactionTemplate.id template,
                       due_date = currentDate,
                       status = None, transaction_id = None,
                       created_at = None, updated_at = None\<rparr> of
                 Inl e \<Rightarrow> Inl e
               | Inr occurrence \<Rightarrow> Inr (occurrences @ [occurrence])))
         of
           Inl e \<Rightarrow> Some (Inl e)
         | Inr occurrences' \<Rightarrow>
             if pastTemplateEnd template
                  (calculateNextDate currentDate
                     (RecurringTransactionTemplate.frequency template)
                     (RecurringTransactionTemplate.interval template))
             then Some (Inr occurrences')
             else generateOccurrences_loop template existingDates endDate randomUUID now
                    (calculateNextDate currentDate
                       (RecurringTransactionTemplate.frequency template)
                       (RecurringTransactionTemplate.interval template))
                    occurrences')
      else Some (Inr occurrences))"

text \<open>
  Lines 56 to 88 of \<open>execute\<close>: from the stored occurrences of the template to the new
  ones, before anything is saved.
\<close>

definition generateNewOccurrences ::
    "RecurringTransactionTemplate \<Rightarrow> RecurringOccurrence list \<Rightarrow> int \<Rightarrow> (nat \<Rightarrow> string)
       \<Rightarrow> Date \<Rightarrow> (error + RecurringOccurrence list) option" where
  "generateNewOccurrences template existingOccurrences monthsAhead randomUUID now =
     generateOccurrences_loop template
       (map (\<lambda>oc. toISODate (RecurringOccurrence.due_date oc)) existingOccurrences)
       (calculateEndDate now template monthsAhead)
       randomUUID now
       (RecurringTransactionTemplate.next_occurrence template) []"

text \<open>The step the loop applies to its cursor (line 82), as a function of the cursor.\<close>

definition recurrenceStep :: "RecurringTransactionTemplate \<Rightarrow> Date \<Rightarrow> Date" where
  "recurrenceStep template currentDate =
     calculateNextDate currentDate
       (RecurringTransactionTemplate.frequency template)
       (RecurringTransactionTemplate.interval template)"


section \<open>The stores\<close>

text \<open>
  The repositories read and write the tables of one database through Prisma. A table is
  the list of its rows; a row of a schedule entry holds what the entity holds (the
  mappers copy field by field, and build the entity of a row with the constructor, which
  changes nothing of a row that an entity was stored from). A use case that throws
  returns the error alone: what it wrote before is not followed further.
\<close>

text \<open>
  The classes \<open>Transaction\<close> and \<open>Account\<close> are used, not declared, in the files at
  hand; the records hold the properties the use cases write and read.
\<close>

record Transaction =
  id :: string
  couple_id :: string
  type :: TransactionType
  amount :: rat
  description :: string
  paid_by_id :: string
  account_id :: string
  is_couple_expense :: bool
  is_free_spending :: bool
  visibility :: TransactionVisibility
  category :: "string option"
  transaction_date :: Date
  installment_group_id :: "string option"
  installment_number :: "int option"
  total_installments :: "int option"
  recurring_template_id :: "string option"

record Account =
  id :: string
  owner_id :: "string option"

record Database =
  tenantCoupleId :: string
  account_rows :: "Account list"
  installmentTemplate_rows :: "InstallmentTemplate list"
  installment_rows :: "Installment list"
  recurringTemplate_rows :: "RecurringTransactionTemplate list"
  recurringOccurrence_rows :: "RecurringOccurrence list"
  transaction_rows :: "Transaction list"

subsection \<open>\<open>PrismaInstallmentRepository\<close>\<close>

definition installmentRepository_findById :: "Database \<Rightarrow> string \<Rightarrow> Installment option" where
  "installmentRepository_findById db i =
     find (\<lambda>row. Installment.id row = i) (installment_rows db)"

text \<open>A Prisma \<open>update\<close> of a row that does not exist throws.\<close>

definition installmentRepository_markAsPaid ::
    "Database \<Rightarrow> string \<Rightarrow> string \<Rightarrow> error + Database" where
  "installmentRepository_markAsPaid db i transactionId =
     (if i \<in> set (map Installment.id (installment_rows db)) then
        Inr (db\<lparr>installment_rows :=
          map (\<lambda>row. if Installment.id row = i
                 then row\<lparr>Installment.status := PAID,
                          Installment.transaction_id := Some transactionId\<rparr>
                 else row)
            (installment_rows db)\<rparr>)
      else Inl RecordNotFound)"

definition installmentRepository_markAsSkipped :: "Database \<Rightarrow> string \<Rightarrow> error + Database" where
  "installmentRepository_markAsSkipped db i =
     (if i \<in> set (map Installment.id (installment_rows db)) then
        Inr (db\<lparr>installment_rows :=
          map (\<lambda>row. if Installment.id row = i
                 then row\<lparr>Installment.status := SKIPPED\<rparr>
                 else row)
            (installment_rows db)\<rparr>)
      else Inl RecordNotFound)"

subsection \<open>\<open>PrismaInstallmentTemplateRepository\<close>\<close>

text \<open>
  \<open>findById\<close> looks among the templates of the couple of the request. The mapper
  builds the entity of the row found with the constructor; the rows here are rows the
  constructor accepts, which have a description and a category (it refuses a row where
  one of them is NULL).
\<close>

definition installmentTemplateRepository_findById ::
    "Database \<Rightarrow> string \<Rightarrow> InstallmentTemplate option" where
  "installmentTemplateRepository_findById db i =
     find (\<lambda>row. InstallmentTemplate.id row = i
              \<and> InstallmentTemplate.couple_id row = tenantCoupleId db)
       (installmentTemplate_rows db)"

subsection \<open>\<open>PrismaRecurringOccurrenceRepository\<close>\<close>

definition occurrenceRepository_findById ::
    "Database \<Rightarrow> string \<Rightarrow> RecurringOccurrence option" where
  "occurrenceRepository_findById db i =
     find (\<lambda>row. RecurringOccurrence.id row = i) (recurringOccurrence_rows db)"

definition occurrenceRepository_findByTemplateId ::
    "Database \<Rightarrow> string \<Rightarrow> RecurringOccurrence list" where
  "occurrenceRepository_findByTemplateId db templateId =
     sort_key RecurringOccurrence.due_date
       (filter (\<lambda>row. RecurringOccurrence.template_id row = templateId)
          (recurringOccurrence_rows db))"

text \<open>
  \<open>createMany\<close> inserts the rows, then reads back, of the rows of the templates
  concerned, as many as it inserted, the latest created first (rows created at the same
  instant in the order the sort leaves them).
\<close>

definition occurrenceRepository_createMany ::
    "Database \<Rightarrow> RecurringOccurrence list \<Rightarrow> RecurringOccurrence list \<times> Database" where
  "occurrenceRepository_createMany db new =
     (take (length new)
        (sort_key (\<lambda>row. - RecurringOccurrence.created_at row)
           (filter (\<lambda>row. RecurringOccurrence.template_id row
                       \<in> set (map RecurringOccurrence.template_id new))
              (recurringOccurrence_rows db @ new))),
      db\<lparr>recurringOccurrence_rows := recurringOccurrence_rows db @ new\<rparr>)"

definition occurrenceRepository_markAsPaid ::
    "Database \<Rightarrow> string \<Rightarrow> string \<Rightarrow> error + Database" where
  "occurrenceRepository_markAsPaid db i transactionId =
     (if i \<in> set (map RecurringOccurrence.id (recurringOccurrence_rows db)) then
        Inr (db\<lparr>recurringOccurrence_rows :=
          map (\<lambda>row. if RecurringOccurrence.id row = i
                 then row\<lparr>RecurringOccurrence.status := PAID,
                          RecurringOccurrence.transaction_id := Some transactionId\<rparr>
                 else row)
            (recurringOccurrence_rows db)\<rparr>)
      else Inl RecordNotFound)"

definition occurrenceRepository_markAsSkipped :: "Database \<Rightarrow> string \<Rightarrow> error + Database" where
  "occurrenceRepository_markAsSkipped db i =
     (if i \<in> set (map RecurringOccurrence.id (recurringOccurrence_rows db)) then
        Inr (db\<lparr>recurringOccurrence_rows :=
          map (\<lambda>row. if RecurringOccurrence.id row = i
                 then row\<lparr>RecurringOccurrence.status := SKIPPED\<rparr>
                 else row)
            (recurringOccurrence_rows db)\<rparr>)
      else Inl RecordNotFound)"

subsection \<open>The stores whose implementation is not in the files at hand\<close>

text \<open>
  Modelled from the spec: the template store of recurring templates (\<open>findById\<close>,
  \<open>create\<close>) is missing; it finds a template by its identifier and adds one.
\<close>

definition templateRepository_findById ::
    "Database \<Rightarrow> string \<Rightarrow> RecurringTransactionTemplate option" where
  "templateRepository_findById db i =
     find (\<lambda>row. RecurringTransactionTemplate.id row = i) (recurringTemplate_rows db)"

definition templateRepository_create ::
    "Database \<Rightarrow> RecurringTransactionTemplate
       \<Rightarrow> RecurringTransactionTemplate \<times> Database" where
  "templateRepository_create db template =
     (template, db\<lparr>recurringTemplate_rows := recurringTemplate_rows db @ [template]\<rparr>)"

text \<open>
  Modelled from the spec: the ledger store (\<open>create(transaction)\<close>, which gives the
  transaction its identifier) is missing; the identifier is the one the record was
  built with.
\<close>

definition transactionRepository_create ::
    "Database \<Rightarrow> Transaction \<Rightarrow> Transaction \<times> Database" where
  "transactionRepository_create db tx =
     (tx, db\<lparr>transaction_rows := transaction_rows db @ [tx]\<rparr>)"

text \<open>
  Modelled from the spec: the account store (\<open>findById(id)\<close>, giving the owner) is
  missing.
\<close>

definition accountRepository_findById :: "Database \<Rightarrow> string \<Rightarrow> Account option" where
  "accountRepository_findById db i =
     find (\<lambda>row. Account.id row = i) (account_rows db)"


section \<open>Settlement\<close>

text \<open>A number inside a template literal: its decimal digits.\<close>

function decimal :: "nat \<Rightarrow> string" where
  "decimal n =
     (if n < 10 then [char_of (48 + n)]
      else decimal (n div 10) @ [char_of (48 + n mod 10)])"
  by pat_completeness auto
termination
  by (relation "measure (\<lambda>n. n)") auto

declare decimal.simps [simp del]

definition numberToString :: "int \<Rightarrow> string" where
  "numberToString i = (if i < 0 then ''-'' @ decimal (nat (- i)) else decimal (nat i))"

subsection \<open>\<open>PayInstallmentUseCase\<close>\<close>

record PayInstallmentInput =
  installment_id :: string
  transaction_date :: "Date option"

record PayInstallmentOutput =
  installment :: Installment
  transaction :: Transaction

definition PayInstallment_buildDescription :: "string option \<Rightarrow> int \<Rightarrow> int \<Rightarrow> string" where
  "PayInstallment_buildDescription baseDescription installmentNumber totalInstallments =
     (case baseDescription of
        None \<Rightarrow>
          ''Parcela '' @ numberToString installmentNumber @ ''/''
            @ numberToString totalInstallments
      | Some b \<Rightarrow>
          if b = [] then
            ''Parcela '' @ numberToString installmentNumber @ ''/''
              @ numberToString totalInstallments
          else b @ '' - Parcela '' @ numberToString installmentNumber @ ''/''
              @ numberToString totalInstallments)"

text \<open>\<open>transactionUUID\<close> is the identifier the ledger gives the new transaction.\<close>

definition createTransactionFromInstallment ::
    "Database \<Rightarrow> string \<Rightarrow> InstallmentTemplate \<Rightarrow> Installment \<Rightarrow> Date
       \<Rightarrow> Transaction \<times> Database" where
  "createTransactionFromInstallment db transactionUUID template inst transactionDate =
     transactionRepository_create db
       \<lparr>Transaction.id = transactionUUID,
        couple_id = InstallmentTemplate.couple_id template,
        type = EXPENSE,
        amount = Installment.amount inst,
        description =
          PayInstallment_buildDescription (InstallmentTemplate.description template)
            (Installment.installment_number inst)
            (InstallmentTemplate.total_installments template),
        paid_by_id = InstallmentTemplate.paid_by_id template,
        account_id = InstallmentTemplate.account_id template,
        is_couple_expense = InstallmentTemplate.is_couple_expense template,
        is_free_spending = InstallmentTemplate.is_free_spending template,
        visibility = InstallmentTemplate.visibility template,
        category = InstallmentTemplate.category_id template,
        transaction_date = transactionDate,
        installment_group_id = Some (InstallmentTemplate.id template),
        installment_number = Some (Installment.installment_number inst),
        total_installments = Some (InstallmentTemplate.total_installments template),
        recurring_template_id = None\<rparr>"

definition PayInstallmentUseCase_execute ::
    "Database \<Rightarrow> string \<Rightarrow> Date \<Rightarrow> PayInstallmentInput
       \<Rightarrow> error + PayInstallmentOutput \<times> Database" where
  "PayInstallmentUseCase_execute db transactionUUID now input =
     (case installmentRepository_findById db (installment_id input) of
        None \<Rightarrow> Inl (Error ''Installment not found'')
      | Some inst \<Rightarrow>
          if \<not> Installment_canBePaid now inst then
            (if Installment_isPaid inst then Inl (Error ''Installment is already paid'')
             else if Installment_isSkipped inst
               then Inl (Error ''Cannot pay skipped installment'')
             else if Installment_isOverdue now inst
               then Inl (Error ''Cannot pay overdue installment (>30 days past due)'')
             else Inl (Error ''Installment cannot be paid''))
          else
            (case installmentTemplateRepository_findById db (Installment.template_id inst) of
               None \<Rightarrow> Inl (Error ''Template not found'')
             | Some template \<Rightarrow>
                 (case createTransactionFromInstallment db transactionUUID template inst
                         (case PayInstallmentInput.transaction_date input of
                            Some d \<Rightarrow> d
                          | None \<Rightarrow> Installment.due_date inst) of
                    (tx, db1) \<Rightarrow>
                      (case Installment_markAsPaid inst (Transaction.id tx) of
                         Inl e \<Rightarrow> Inl e
                       | Inr paid \<Rightarrow>
                           (case installmentRepository_markAsPaid db1 (Installment.id paid)
                                   (Transaction.id tx) of
                              Inl e \<Rightarrow> Inl e
                            | Inr db2 \<Rightarrow>
                                Inr (\<lparr>installment = paid, transaction = tx\<rparr>, db2))))))"

subsection \<open>\<open>PayRecurringOccurrenceUseCase\<close>\<close>

record PayRecurringOccurrenceInput =
  occurrence_id :: string
  transaction_date :: "Date option"

record PayRecurringOccurrenceOutput =
  occurrence :: RecurringOccurrence
  transaction :: Transaction

text \<open>
  \<open>toLocaleDateString\<close> stands for the host's
  \<open>toLocaleDateString('pt-BR', { month: 'long', year: 'numeric' })\<close>.
\<close>

definition PayRecurringOccurrence_buildDescription ::
    "(Date \<Rightarrow> string) \<Rightarrow> string option \<Rightarrow> Date \<Rightarrow> string" where
  "PayRecurringOccurrence_buildDescription toLocaleDateString baseDescription dueDate =
     (case baseDescription of
        None \<Rightarrow> ''Recorrente - '' @ toLocaleDateString dueDate
      | Some b \<Rightarrow>
          if b = [] then ''Recorrente - '' @ toLocaleDateString dueDate
          else b @ '' - '' @ toLocaleDateString dueDate)"

definition createTransactionFromTemplate ::
    "(Date \<Rightarrow> string) \<Rightarrow> Database \<Rightarrow> string \<Rightarrow> RecurringTransactionTemplate
       \<Rightarrow> RecurringOccurrence \<Rightarrow> Date \<Rightarrow> Transaction \<times> Database" where
  "createTransactionFromTemplate toLocaleDateString db transactionUUID template oc
       transactionDate =
     transactionRepository_create db
       \<lparr>Transaction.id = transactionUUID,
        couple_id = RecurringTransactionTemplate.couple_id template,
        type = RecurringTransactionTemplate.type template,
        amount = RecurringTransactionTemplate.amount template,
        description =
          PayRecurringOccurrence_buildDescription toLocaleDateString
            (RecurringTransactionTemplate.description template)
            (RecurringOccurrence.due_date oc),
        paid_by_id = RecurringTransactionTemplate.paid_by_id template,
        account_id = RecurringTransactionTemplate.account_id template,
        is_couple_expense = RecurringTransactionTemplate.is_couple_expense template,
        is_free_spending = RecurringTransactionTemplate.is_free_spending template,
        visibility = RecurringTransactionTemplate.visibility template,
        category = RecurringTransactionTemplate.category template,
        transaction_date = transactionDate,
        installment_group_id = None,
        installment_number = None,
        total_installments = None,
        recurring_template_id = Some (RecurringTransactionTemplate.id template)\<rparr>"

definition PayRecurringOccurrenceUseCase_execute ::
    "(Date \<Rightarrow> string) \<Rightarrow> Database \<Rightarrow> string \<Rightarrow> Date \<Rightarrow> PayRecurringOccurrenceInput
       \<Rightarrow> error + PayRecurringOccurrenceOutput \<times> Database" where
  "PayRecurringOccurrenceUseCase_execute toLocaleDateString db transactionUUID now input =
     (case occurrenceRepository_findById db (occurrence_id input) of
        None \<Rightarrow> Inl (Error ''Occurrence not found'')
      | Some oc \<Rightarrow>
          if \<not> RecurringOccurrence_canBePaid now oc then
            (if RecurringOccurrence_isPaid oc then Inl (Error ''Occurrence is already paid'')
             else if RecurringOccurrence_isSkipped oc
               then Inl (Error ''Cannot pay skipped occurrence'')
             else if RecurringOccurrence_isOverdue now oc
               then Inl (Error ''Cannot pay overdue occurrence (>30 days past due)'')
             else Inl (Error ''Occurrence cannot be paid''))
          else
            (case templateRepository_findById db (RecurringOccurrence.template_id oc) of
               None \<Rightarrow> Inl (Error ''Template not found'')
             | Some template \<Rightarrow>
                 (case createTransactionFromTemplate toLocaleDateString db transactionUUID
                         template oc
                         (case PayRecurringOccurrenceInput.transaction_date input of
                            Some d \<Rightarrow> d
                          | None \<Rightarrow> RecurringOccurrence.due_date oc) of
                    (tx, db1) \<Rightarrow>
                      (case RecurringOccurrence_markAsPaid oc (Transaction.id tx) of
                         Inl e \<Rightarrow> Inl e
                       | Inr paid \<Rightarrow>
                           (case occurrenceRepository_markAsPaid db1
                                   (RecurringOccurrence.id paid) (Transaction.id tx) of
                              Inl e \<Rightarrow> Inl e
                            | Inr db2 \<Rightarrow>
                                Inr (\<lparr>occurrence = paid, transaction = tx\<rparr>, db2))))))"

section \<open>The skip operations of the controllers\<close>

text \<open>
  \<open>InstallmentController.skipInstallment\<close> and
  \<open>RecurringOccurrenceController.skipOccurrence\<close>: the HTTP operations
  \<open>POST :id/skip\<close>. Each calls \<open>markAsSkipped\<close> of its repository and answers with a
  message.
\<close>

definition InstallmentController_skipInstallment ::
    "Database \<Rightarrow> string \<Rightarrow> error + string \<times> Database" where
  "InstallmentController_skipInstallment db installmentId =
     (case installmentRepository_markAsSkipped db installmentId of
        Inl e \<Rightarrow> Inl e
      | Inr db' \<Rightarrow> Inr (''Installment skipped successfully'', db'))"

definition RecurringOccurrenceController_skipOccurrence ::
    "Database \<Rightarrow> string \<Rightarrow> error + string \<times> Database" where
  "RecurringOccurrenceController_skipOccurrence db occurrenceId =
     (case occurrenceRepository_markAsSkipped db occurrenceId of
        Inl e \<Rightarrow> Inl e
      | Inr db' \<Rightarrow> Inr (''Occurrence skipped successfully'', db'))"


section \<open>Generation of occurrences, with the stores\<close>

subsection \<open>\<open>GenerateRecurringOccurrencesUseCase.execute\<close>\<close>

record GenerateRecurringOccurrencesInput =
  template_id :: string
  months_ahead :: "int option"

record GenerateRecurringOccurrencesOutput =
  template :: RecurringTransactionTemplate
  occurrences :: "RecurringOccurrence list"

text \<open>\<open>months_ahead || 3\<close>: a number that is missing or is 0 gives 3.\<close>

definition orThree :: "int option \<Rightarrow> int" where
  "orThree months = (case months of None \<Rightarrow> 3 | Some n \<Rightarrow> if n = 0 then 3 else n)"

definition GenerateRecurringOccurrencesUseCase_execute ::
    "Database \<Rightarrow> (nat \<Rightarrow> string) \<Rightarrow> Date \<Rightarrow> GenerateRecurringOccurrencesInput
       \<Rightarrow> (error + GenerateRecurringOccurrencesOutput \<times> Database) option" where
  "GenerateRecurringOccurrencesUseCase_execute db randomUUID now input =
     (case templateRepository_findById db
             (GenerateRecurringOccurrencesInput.template_id input) of
        None \<Rightarrow> Some (Inl (Error ''Template not found''))
      | Some t \<Rightarrow>
          if \<not> RecurringTransactionTemplate.is_active t
            then Some (Inl (Error ''Cannot generate occurrences for inactive template''))
          else
            (case generateNewOccurrences t
                    (occurrenceRepository_findByTemplateId db
                       (RecurringTransactionTemplate.id t))
                    (orThree (GenerateRecurringOccurrencesInput.months_ahead input))
                    randomUUID now of
               None \<Rightarrow> None
             | Some (Inl e) \<Rightarrow> Some (Inl e)
             | Some (Inr new) \<Rightarrow>
                 if 0 < length new then
                   (case occurrenceRepository_createMany db new of
                      (created, db') \<Rightarrow>
                        Some (Inr (\<lparr>template = t, occurrences = created\<rparr>, db')))
                 else Some (Inr (\<lparr>template = t, occurrences = []\<rparr>, db))))"

subsection \<open>\<open>CreateRecurringTransactionUseCase\<close>\<close>

record CreateRecurringTransactionInput =
  couple_id :: string
  type :: TransactionType
  amount :: rat
  description :: "string option"
  paid_by_id :: string
  account_id :: string
  is_couple_expense :: bool
  is_free_spending :: bool
  visibility :: "TransactionVisibility option"
  category :: "string option"
  frequency :: RecurrenceFrequency
  interval :: int
  start_date :: Date
  end_date :: "Date option"
  create_first_transaction :: bool
  months_ahead :: "int option"

record CreateRecurringTransactionOutput =
  template :: RecurringTransactionTemplate
  occurrences :: "RecurringOccurrence list"
  first_transaction :: "Transaction option"

definition CreateRecurring_validateInput ::
    "CreateRecurringTransactionInput \<Rightarrow> error + unit" where
  "CreateRecurring_validateInput input =
     (if CreateRecurringTransactionInput.amount input \<le> 0
        then Inl (Error ''Amount must be positive'')
      else if CreateRecurringTransactionInput.interval input < 1
        then Inl (Error ''Interval must be at least 1'')
      else if (case CreateRecurringTransactionInput.end_date input of
                 None \<Rightarrow> False
               | Some e \<Rightarrow> e \<le> CreateRecurringTransactionInput.start_date input)
        then Inl (Error ''End date must be after start date'')
      else Inr ())"

text \<open>The \<open>while\<close> loop of \<open>generateOccurrences\<close>: no stored occurrence is looked at.\<close>

partial_function (option) CreateRecurring_generateOccurrences_loop ::
    "RecurringTransactionTemplate \<Rightarrow> Date \<Rightarrow> (nat \<Rightarrow> string) \<Rightarrow> Date
       \<Rightarrow> Date \<Rightarrow> RecurringOccurrence list \<Rightarrow> (error + RecurringOccurrence list) option"
where
  "CreateRecurring_generateOccurrences_loop t endDate randomUUID now currentDate acc =
     (if currentDate \<le> endDate then
        (case RecurringOccurrence_create (randomUUID (length acc)) now
                \<lparr>RecurringOccurrenceProps.id = None,
                 template_id = RecurringTransactionTemplate.id t,
                 due_date = currentDate,
                 status = None, transaction_id = None,
                 created_at = None, updated_at = None\<rparr> of
           Inl e \<Rightarrow> Some (Inl e)
         | Inr created \<Rightarrow>
             if pastTemplateEnd t
                  (calculateNextDate currentDate
                     (RecurringTransactionTemplate.frequency t)
                     (RecurringTransactionTemplate.interval t))
             then Some (Inr (acc @ [created]))
             else CreateRecurring_generateOccurrences_loop t endDate randomUUID now
                    (calculateNextDate currentDate
                       (RecurringTransactionTemplate.frequency t)
                       (RecurringTransactionTemplate.interval t))
                    (acc @ [created]))
      else Some (Inr acc))"

definition CreateRecurring_generateOccurrences ::
    "Database \<Rightarrow> (nat \<Rightarrow> string) \<Rightarrow> Date \<Rightarrow> RecurringTransactionTemplate \<Rightarrow> int
       \<Rightarrow> (error + RecurringOccurrence list \<times> Database) option" where
  "CreateRecurring_generateOccurrences db randomUUID now t monthsAhead =
     (case CreateRecurring_generateOccurrences_loop t (calculateEndDate now t monthsAhead)
             randomUUID now (RecurringTransactionTemplate.next_occurrence t) [] of
        None \<Rightarrow> None
      | Some (Inl e) \<Rightarrow> Some (Inl e)
      | Some (Inr new) \<Rightarrow>
          if 0 < length new then Some (Inr (occurrenceRepository_createMany db new))
          else Some (Inr ([], db)))"

record RecurrenceConfig =
  frequency :: RecurrenceFrequency
  interval :: int
  startDate :: Date
  endDate :: "Date option"

text \<open>
  Modelled from the spec: the value object \<open>RecurrenceConfig\<close> is missing.
  It is built from the frequency, the interval, the start date and the optional end
  date, and fails with \<open>InvalidRuleError\<close> if the interval is below 1 or the end date is
  not after the start date.
\<close>

definition RecurrenceConfig_create ::
    "RecurrenceFrequency \<Rightarrow> int \<Rightarrow> Date \<Rightarrow> Date option \<Rightarrow> error + RecurrenceConfig" where
  "RecurrenceConfig_create freq intv start finish =
     (if intv < 1 then Inl InvalidRuleError
      else if (case finish of None \<Rightarrow> False | Some e \<Rightarrow> e \<le> start)
        then Inl InvalidRuleError
      else Inr \<lparr>RecurrenceConfig.frequency = freq, interval = intv,
                startDate = start, endDate = finish\<rparr>)"

text \<open>
  \<open>createTemplate\<close>. Modelled from the spec: the constructor of
  \<open>RecurringTransactionTemplate\<close> is missing; it keeps the properties it is given and
  gives the template a fresh identifier.
\<close>

definition CreateRecurring_createTemplate ::
    "string \<Rightarrow> CreateRecurringTransactionInput \<Rightarrow> RecurrenceConfig
       \<Rightarrow> TransactionVisibility \<Rightarrow> RecurringTransactionTemplate" where
  "CreateRecurring_createTemplate templateUUID input recurrenceConfig vis =
     \<lparr>RecurringTransactionTemplate.id = templateUUID,
      couple_id = CreateRecurringTransactionInput.couple_id input,
      type = CreateRecurringTransactionInput.type input,
      amount = CreateRecurringTransactionInput.amount input,
      description = CreateRecurringTransactionInput.description input,
      paid_by_id = CreateRecurringTransactionInput.paid_by_id input,
      account_id = CreateRecurringTransactionInput.account_id input,
      is_couple_expense = CreateRecurringTransactionInput.is_couple_expense input,
      is_free_spending = CreateRecurringTransactionInput.is_free_spending input,
      visibility = vis,
      category = CreateRecurringTransactionInput.category input,
      frequency = RecurrenceConfig.frequency recurrenceConfig,
      interval = RecurrenceConfig.interval recurrenceConfig,
      start_date = RecurrenceConfig.startDate recurrenceConfig,
      end_date = RecurrenceConfig.endDate recurrenceConfig,
      next_occurrence = RecurrenceConfig.startDate recurrenceConfig,
      is_active = True\<rparr>"

definition CreateRecurring_createFirstTransaction ::
    "(Date \<Rightarrow> string) \<Rightarrow> Database \<Rightarrow> string \<Rightarrow> RecurringTransactionTemplate
       \<Rightarrow> RecurringOccurrence \<Rightarrow> Transaction \<times> Database" where
  "CreateRecurring_createFirstTransaction toLocaleDateString db transactionUUID t oc =
     transactionRepository_create db
       \<lparr>Transaction.id = transactionUUID,
        couple_id = RecurringTransactionTemplate.couple_id t,
        type = RecurringTransactionTemplate.type t,
        amount = RecurringTransactionTemplate.amount t,
        description =
          PayRecurringOccurrence_buildDescription toLocaleDateString
            (RecurringTransactionTemplate.description t)
            (RecurringOccurrence.due_date oc),
        paid_by_id = RecurringTransactionTemplate.paid_by_id t,
        account_id = RecurringTransactionTemplate.account_id t,
        is_couple_expense = RecurringTransactionTemplate.is_couple_expense t,
        is_free_spending = RecurringTransactionTemplate.is_free_spending t,
        visibility = RecurringTransactionTemplate.visibility t,
        category = RecurringTransactionTemplate.category t,
        transaction_date = RecurringOccurrence.due_date oc,
        installment_group_id = None,
        installment_number = None,
        total_installments = None,
        recurring_template_id = Some (RecurringTransactionTemplate.id t)\<rparr>"

text \<open>
  The first transaction, when asked for: the first of the occurrences read back is
  paid, in the list returned and in the store.
\<close>

definition CreateRecurring_payFirst ::
    "(Date \<Rightarrow> string) \<Rightarrow> string \<Rightarrow> RecurringTransactionTemplate
       \<Rightarrow> RecurringOccurrence list \<times> Database
       \<Rightarrow> error + CreateRecurringTransactionOutput \<times> Database" where
  "CreateRecurring_payFirst toLocaleDateString transactionUUID t generated =
     (case generated of
        ([], db) \<Rightarrow>
          Inr (\<lparr>template = t, occurrences = [], first_transaction = None\<rparr>, db)
      | (firstOccurrence # others, db) \<Rightarrow>
          (case CreateRecurring_createFirstTransaction toLocaleDateString db
                  transactionUUID t firstOccurrence of
             (tx, db1) \<Rightarrow>
               (case RecurringOccurrence_markAsPaid firstOccurrence (Transaction.id tx) of
                  Inl e \<Rightarrow> Inl e
                | Inr paid \<Rightarrow>
                    (case occurrenceRepository_markAsPaid db1
                            (RecurringOccurrence.id paid) (Transaction.id tx) of
                       Inl e \<Rightarrow> Inl e
                     | Inr db2 \<Rightarrow>
                         Inr (\<lparr>template = t, occurrences = paid # others,
                               first_transaction = Some tx\<rparr>, db2)))))"

text \<open>
  \<open>execute\<close>. \<open>randomUUID 0\<close> is the identifier of the template, \<open>randomUUID (k + 1)\<close>
  the one of the occurrence created after \<open>k\<close> others.
\<close>

definition CreateRecurringTransactionUseCase_execute ::
    "(Date \<Rightarrow> string) \<Rightarrow> Database \<Rightarrow> (nat \<Rightarrow> string) \<Rightarrow> string \<Rightarrow> Date
       \<Rightarrow> CreateRecurringTransactionInput
       \<Rightarrow> (error + CreateRecurringTransactionOutput \<times> Database) option" where
  "CreateRecurringTransactionUseCase_execute toLocaleDateString db randomUUID
       transactionUUID now input =
     (case CreateRecurring_validateInput input of
        Inl e \<Rightarrow> Some (Inl e)
      | Inr _ \<Rightarrow>
     (case accountRepository_findById db
             (CreateRecurringTransactionInput.account_id input) of
        None \<Rightarrow>
          Some (Inl (AccountNotFoundException
            (CreateRecurringTransactionInput.account_id input)))
      | Some account \<Rightarrow>
     (case RecurrenceConfig_create
             (CreateRecurringTransactionInput.frequency input)
             (CreateRecurringTransactionInput.interval input)
             (CreateRecurringTransactionInput.start_date input)
             (CreateRecurringTransactionInput.end_date input) of
        Inl e \<Rightarrow> Some (Inl e)
      | Inr recurrenceConfig \<Rightarrow>
     (case templateRepository_create db
             (CreateRecurring_createTemplate (randomUUID 0) input recurrenceConfig
                (case CreateRecurringTransactionInput.visibility input of
                   Some v \<Rightarrow> v
                 | None \<Rightarrow>
                     (case Account.owner_id account of
                        None \<Rightarrow> SHARED
                      | Some owner \<Rightarrow> if owner = [] then SHARED else PRIVATE))) of
        (createdTemplate, db1) \<Rightarrow>
     (case CreateRecurring_generateOccurrences db1 (\<lambda>k. randomUUID (Suc k)) now
             createdTemplate
             (orThree (CreateRecurringTransactionInput.months_ahead input)) of
        None \<Rightarrow> None
      | Some (Inl e) \<Rightarrow> Some (Inl e)
      | Some (Inr generated) \<Rightarrow>
          if CreateRecurringTransactionInput.create_first_transaction input
          then Some (CreateRecurring_payFirst toLocaleDateString transactionUUID
                 createdTemplate generated)
          else Some (Inr (\<lparr>template = createdTemplate, occurrences = fst generated,
                 first_transaction = None\<rparr>, snd generated)))))))"

declare generateOccurrences_loop.simps [code]

declare CreateRecurring_generateOccurrences_loop.simps [code]


section \<open>Callers and examples\<close>

text \<open>
  A caller of an entry's methods, one call after another: a call that throws leaves the
  entry as it was.
\<close>

datatype EntryCall = CallMarkAsPaid string | CallMarkAsSkipped

definition Installment_call :: "Installment \<Rightarrow> EntryCall \<Rightarrow> Installment" where
  "Installment_call i c =
     (case c of
        CallMarkAsPaid transactionId \<Rightarrow>
          (case Installment_markAsPaid i transactionId of Inl e \<Rightarrow> i | Inr i' \<Rightarrow> i')
      | CallMarkAsSkipped \<Rightarrow>
          (case Installment_markAsSkipped i of Inl e \<Rightarrow> i | Inr i' \<Rightarrow> i'))"

definition RecurringOccurrence_call ::
    "RecurringOccurrence \<Rightarrow> EntryCall \<Rightarrow> RecurringOccurrence" where
  "RecurringOccurrence_call oc c =
     (case c of
        CallMarkAsPaid transactionId \<Rightarrow>
          (case RecurringOccurrence_markAsPaid oc transactionId of
             Inl e \<Rightarrow> oc | Inr oc' \<Rightarrow> oc')
      | CallMarkAsSkipped \<Rightarrow>
          (case RecurringOccurrence_markAsSkipped oc of Inl e \<Rightarrow> oc | Inr oc' \<Rightarrow> oc'))"

text \<open>The values of the examples: the identifiers are those of the repository's tests.\<close>

definition example_now :: Date where
  "example_now = 1709294400000"

definition example_template_id :: string where
  "example_template_id = ''123e4567-e89b-12d3-a456-426614174000''"

definition example_transaction_id :: string where
  "example_transaction_id = ''123e4567-e89b-12d3-a456-426614174001''"

definition example_entry_id :: string where
  "example_entry_id = ''123e4567-e89b-12d3-a456-426614174010''"

definition example_installment ::
    "Date \<Rightarrow> OccurrenceStatus \<Rightarrow> string option \<Rightarrow> Installment" where
  "example_installment due st tx =
     \<lparr>Installment.id = example_entry_id,
      template_id = example_template_id,
      installment_number = 1, amount = 201 / 2, due_date = due, status = st,
      transaction_id = tx, created_at = 1704067200000, updated_at = 1704067200000\<rparr>"

definition example_occurrence ::
    "Date \<Rightarrow> OccurrenceStatus \<Rightarrow> string option \<Rightarrow> RecurringOccurrence" where
  "example_occurrence due st tx =
     \<lparr>RecurringOccurrence.id = example_entry_id,
      template_id = example_template_id,
      due_date = due, status = st,
      transaction_id = tx, created_at = 1704067200000, updated_at = 1704067200000\<rparr>"

text \<open>Fresh identifiers, one for each number.\<close>

definition example_uuids :: "nat \<Rightarrow> string" where
  "example_uuids k = ''123e4567-e89b-12d3-a456-4266141'' @ decimal (10000 + k)"

definition example_installment_template :: "rat \<Rightarrow> int \<Rightarrow> Date \<Rightarrow> InstallmentTemplate" where
  "example_installment_template totalAmount n firstDue =
     \<lparr>InstallmentTemplate.id = example_template_id,
      couple_id = ''123e4567-e89b-12d3-a456-426614174020'',
      description = Some ''Test Purchase'',
      total_amount = totalAmount,
      total_installments = n,
      paid_by_id = ''123e4567-e89b-12d3-a456-426614174021'',
      account_id = ''123e4567-e89b-12d3-a456-426614174002'',
      category_id = Some ''123e4567-e89b-12d3-a456-426614174003'',
      is_couple_expense = True,
      is_free_spending = False,
      visibility = SHARED,
      first_due_date = firstDue,
      is_active = True,
      created_at = 1704067200000,
      updated_at = 1704067200000\<rparr>"

text \<open>The amount the loop of \<open>generateInstallments\<close> gives the installment number \<open>i\<close>:
  \<open>Math.round(amount * 100) / 100\<close>.\<close>

definition roundedAmount :: "InstallmentTemplate \<Rightarrow> int \<Rightarrow> rat" where
  "roundedAmount t i =
     Number_divide
       (of_int (Math_round
          (Number_multiply
             (if i = InstallmentTemplate.total_installments t
              then Number_subtract (InstallmentTemplate.total_amount t)
                (Number_multiply (getInstallmentAmount t)
                   (of_int (InstallmentTemplate.total_installments t - 1)))
              else getInstallmentAmount t)
             100)))
       100"

text \<open>The installment the loop of \<open>generateInstallments\<close> builds after \<open>k\<close> others, when its
  amount passes the validation.\<close>

definition nthInstallment ::
    "InstallmentTemplate \<Rightarrow> (nat \<Rightarrow> string) \<Rightarrow> Date \<Rightarrow> nat \<Rightarrow> Installment" where
  "nthInstallment t gen now k =
     \<lparr>Installment.id = gen k,
      template_id = InstallmentTemplate.id t,
      installment_number = int k + 1,
      amount = roundedAmount t (int k + 1),
      due_date = setMonth (InstallmentTemplate.first_due_date t)
        (getMonth (InstallmentTemplate.first_due_date t) + int k),
      status = PENDING, transaction_id = None, created_at = now, updated_at = now\<rparr>"

text \<open>
  Following the words of the spec: the generation horizon is
  \<open>min(today + monthsAhead months, template.end_date or +\<infinity>)\<close>.
\<close>

definition generationHorizon :: "Date \<Rightarrow> RecurringTransactionTemplate \<Rightarrow> int \<Rightarrow> Date" where
  "generationHorizon today t monthsAhead =
     (case RecurringTransactionTemplate.end_date t of
        None \<Rightarrow> setMonth today (getMonth today + monthsAhead)
      | Some e \<Rightarrow> min (setMonth today (getMonth today + monthsAhead)) e)"

text \<open>The cursor after \<open>k\<close> steps from \<open>next_occurrence\<close>.\<close>

definition cursorAt :: "RecurringTransactionTemplate \<Rightarrow> nat \<Rightarrow> Date" where
  "cursorAt t k = (recurrenceStep t ^^ k) (RecurringTransactionTemplate.next_occurrence t)"

text \<open>The day keys of the stored occurrences of a template.\<close>

definition storedDates :: "Database \<Rightarrow> RecurringTransactionTemplate \<Rightarrow> DateKey set" where
  "storedDates db t =
     (\<lambda>oc. toISODate (RecurringOccurrence.due_date oc)) `
       set (filter (\<lambda>oc. RecurringOccurrence.template_id oc = RecurringTransactionTemplate.id t)
              (recurringOccurrence_rows db))"

definition example_recurring_template ::
    "RecurrenceFrequency \<Rightarrow> int \<Rightarrow> Date \<Rightarrow> Date option \<Rightarrow> RecurringTransactionTemplate" where
  "example_recurring_template freq intv start finish =
     \<lparr>RecurringTransactionTemplate.id = example_template_id,
      couple_id = ''123e4567-e89b-12d3-a456-426614174020'',
      type = EXPENSE,
      amount = 1500,
      description = Some ''Rent'',
      paid_by_id = ''123e4567-e89b-12d3-a456-426614174021'',
      account_id = ''123e4567-e89b-12d3-a456-426614174002'',
      is_couple_expense = True,
      is_free_spending = False,
      visibility = SHARED,
      category = None,
      frequency = freq,
      interval = intv,
      start_date = start,
      end_date = finish,
      next_occurrence = start,
      is_active = True\<rparr>"

definition example_database ::
    "RecurringTransactionTemplate list \<Rightarrow> RecurringOccurrence list \<Rightarrow> Database" where
  "example_database ts ocs =
     \<lparr>tenantCoupleId = ''123e4567-e89b-12d3-a456-426614174020'',
      account_rows =
        [\<lparr>Account.id = ''123e4567-e89b-12d3-a456-426614174002'', owner_id = None\<rparr>],
      installmentTemplate_rows = [],
      installment_rows = [],
      recurringTemplate_rows = ts,
      recurringOccurrence_rows = ocs,
      transaction_rows = []\<rparr>"

text \<open>Scenario C of the spec: a monthly template from 2024-01-15, and the occurrence
  the generation run of 2024-01-01 creates for a due date.\<close>

definition scenario_C_template :: RecurringTransactionTemplate where
  "scenario_C_template = example_recurring_template MONTHLY 1 1705276800000 None"

definition scenario_C_occurrence :: "(nat \<Rightarrow> string) \<Rightarrow> nat \<Rightarrow> Date \<Rightarrow> RecurringOccurrence" where
  "scenario_C_occurrence gen k due =
     \<lparr>RecurringOccurrence.id = gen k, template_id = example_template_id, due_date = due,
      status = PENDING, transaction_id = None,
      created_at = 1704067200000, updated_at = 1704067200000\<rparr>"


text \<open>Scenario D of the spec: a store with a pending installment of 100.50 due on
  2024-03-02 and its template, and a pending occurrence due on 2024-03-15 of the
  template of scenario C.\<close>

definition scenario_D_database :: Database where
  "scenario_D_database =
     (example_database [scenario_C_template]
        [example_occurrence 1710460800000 PENDING None])
       \<lparr>installmentTemplate_rows := [example_installment_template 1206 12 1709337600000],
        installment_rows := [example_installment 1709337600000 PENDING None]\<rparr>"


text \<open>The request that creates the template of scenario C, and the template created
  from it when the first fresh identifier is \<open>example_uuids 0\<close>.\<close>

definition scenario_C_input :: CreateRecurringTransactionInput where
  "scenario_C_input =
     \<lparr>CreateRecurringTransactionInput.couple_id = ''123e4567-e89b-12d3-a456-426614174020'',
      type = EXPENSE,
      amount = 1500,
      description = Some ''Rent'',
      paid_by_id = ''123e4567-e89b-12d3-a456-426614174021'',
      account_id = ''123e4567-e89b-12d3-a456-426614174002'',
      is_couple_expense = True,
      is_free_spending = False,
      visibility = None,
      category = None,
      frequency = MONTHLY,
      interval = 1,
      start_date = 1705276800000,
      end_date = None,
      create_first_transaction = False,
      months_ahead = Some 3\<rparr>"

definition scenario_C_created :: RecurringTransactionTemplate where
  "scenario_C_created =
     scenario_C_template\<lparr>RecurringTransactionTemplate.id := example_uuids 0\<rparr>"


section \<open>Lemmas\<close>

subsection \<open>The overdue rule\<close>

lemma Day_add: "Day (t + k * msPerDay) = Day t + k"
  by (simp add: Day_def msPerDay_def)

lemma setHours0_add: "setHours0 (t + k * msPerDay) = setHours0 t + k * msPerDay"
  unfolding setHours0_def Day_add MakeDate_def by (simp add: algebra_simps)

lemma thirtyDaysAgo: "setDate (setHours0 now) (getDate (setHours0 now) - 30)
    = setHours0 now - 30 * msPerDay"
  using setDate_getDate [of "setHours0 now" "- 30"] by simp

lemma Installment_isOverdue_iff:
  "Installment_isOverdue now i
     \<longleftrightarrow> 30 * msPerDay < setHours0 now - setHours0 (Installment.due_date i)"
  by (auto simp add: Installment_isOverdue_def Let_def thirtyDaysAgo)


lemma RecurringOccurrence_isOverdue_iff:
  "RecurringOccurrence_isOverdue now oc
     \<longleftrightarrow> 30 * msPerDay < setHours0 now - setHours0 (RecurringOccurrence.due_date oc)"
  by (auto simp add: RecurringOccurrence_isOverdue_def Let_def thirtyDaysAgo)

lemma daysAgo: "setHours0 now - setHours0 (setDate now (getDate now - k)) = k * msPerDay"
  using setDate_getDate [of now "- k"] setHours0_add [of now "- k"] by simp

subsection \<open>The generation loop\<close>

lemma calculateNextDate_later:
  assumes "1 \<le> i"
  shows "d + msPerDay \<le> calculateNextDate d f i"
proof (cases f)
  case DAILY
  have "msPerDay \<le> i * msPerDay" using assms by (simp add: msPerDay_def)
  then show ?thesis by (simp add: DAILY calculateNextDate_def setDate_getDate)
next
  case WEEKLY
  have "msPerDay \<le> i * 7 * msPerDay" using assms by (simp add: msPerDay_def)
  then show ?thesis by (simp add: WEEKLY calculateNextDate_def setDate_getDate)
next
  case MONTHLY
  then show ?thesis
    using setMonth_getMonth [OF assms, of d] by (simp add: calculateNextDate_def msPerDay_def)
next
  case YEARLY
  then show ?thesis
    using setFullYear_getFullYear [OF assms, of d]
    by (simp add: calculateNextDate_def msPerDay_def)
qed

lemma RecurringOccurrence_create_ok:
  assumes "uuid tid"
  shows "RecurringOccurrence_create u now
      \<lparr>RecurringOccurrenceProps.id = None, template_id = tid, due_date = d,
       status = None, transaction_id = None, created_at = None, updated_at = None\<rparr>
    = Inr \<lparr>RecurringOccurrence.id = u, template_id = tid, due_date = d, status = PENDING,
          transaction_id = None, created_at = now, updated_at = now\<rparr>"
  using assms
  by (simp add: RecurringOccurrence_create_def RecurringOccurrence_new_def
      RecurringOccurrence_validate_def optional_def)


lemma map_funpow_upt_Suc:
  "map (\<lambda>k. (f ^^ k) x) [0..<Suc n] = x # map (\<lambda>k. (f ^^ k) (f x)) [0..<n]"
proof -
  have "map (\<lambda>k. (f ^^ k) x) [0..<Suc n] = map (\<lambda>k. (f ^^ k) x) (0 # map Suc [0..<n])"
    by (simp only: upt_conv_Cons [of 0 "Suc n"] map_Suc_upt [symmetric]) simp?
  also have "\<dots> = x # map (\<lambda>k. (f ^^ k) (f x)) [0..<n]"
    by (simp add: funpow_swap1 del: upt_Suc)
  finally show ?thesis .
qed

lemma generateOccurrences_loop_total:
  assumes i: "1 \<le> RecurringTransactionTemplate.interval t"
    and u: "uuid (RecurringTransactionTemplate.id t)"
    and e: "\<And>e. RecurringTransactionTemplate.end_date t = Some e \<Longrightarrow> E \<le> e"
  shows "\<exists>n r. generateOccurrences_loop t ex E gen now cur acc = Some (Inr r)
      \<and> map RecurringOccurrence.due_date r =
          map RecurringOccurrence.due_date acc
          @ filter (\<lambda>d. toISODate d \<notin> set ex)
              (map (\<lambda>k. (recurrenceStep t ^^ k) cur) [0..<n])
      \<and> (\<forall>k<n. (recurrenceStep t ^^ k) cur \<le> E)
      \<and> E < (recurrenceStep t ^^ n) cur"
    (is "\<exists>n r. ?run cur acc = Some (Inr r) \<and> ?dates cur acc n r \<and> ?below cur n \<and> ?stop cur n")
proof (induction "nat (E + 1 - cur)" arbitrary: cur acc rule: less_induct)
  case less
  let ?step = "recurrenceStep t"
  show ?case
  proof (cases "cur \<le> E")
    case False
    then have "?run cur acc = Some (Inr acc)"
      by (subst generateOccurrences_loop.simps) simp
    moreover from False have "?dates cur acc 0 acc \<and> ?below cur 0 \<and> ?stop cur 0" by simp
    ultimately show ?thesis by blast
  next
    case True
    define nxt where "nxt = ?step cur"
    have later: "cur < nxt"
      using calculateNextDate_later [OF i, of cur "RecurringTransactionTemplate.frequency t"]
      by (simp add: nxt_def recurrenceStep_def msPerDay_def)
    define acc' where "acc' = (if toISODate cur \<in> set ex then acc
      else acc @ [\<lparr>RecurringOccurrence.id = gen (length acc),
          template_id = RecurringTransactionTemplate.id t, due_date = cur, status = PENDING,
          transaction_id = None, created_at = now, updated_at = now\<rparr>])"
    have unfold: "?run cur acc =
        (if pastTemplateEnd t nxt then Some (Inr acc') else ?run nxt acc')"
      using True
      by (subst generateOccurrences_loop.simps)
        (simp add: RecurringOccurrence_create_ok [OF u] nxt_def recurrenceStep_def acc'_def)
    have dates': "map RecurringOccurrence.due_date acc' =
        map RecurringOccurrence.due_date acc @ filter (\<lambda>d. toISODate d \<notin> set ex) [cur]"
      by (simp add: acc'_def)
    show ?thesis
    proof (cases "pastTemplateEnd t nxt")
      case True
      then obtain e' where "RecurringTransactionTemplate.end_date t = Some e'" "e' < nxt"
        by (auto simp add: pastTemplateEnd_def split: option.splits)
      with e have "E < nxt" by fastforce
      with \<open>cur \<le> E\<close> have "?below cur 1 \<and> ?stop cur 1" by (simp add: nxt_def)
      moreover have "?dates cur acc 1 acc'" using dates' by simp
      moreover have "?run cur acc = Some (Inr acc')" using unfold True by simp
      ultimately show ?thesis by blast
    next
      case False
      from later \<open>cur \<le> E\<close> have "nat (E + 1 - nxt) < nat (E + 1 - cur)" by simp
      from less [OF this, of acc'] obtain n r where
        run: "?run nxt acc' = Some (Inr r)" and dates: "?dates nxt acc' n r"
        and below: "?below nxt n" and stop: "?stop nxt n"
        by blast
      have "?run cur acc = Some (Inr r)" using unfold False run by simp
      moreover have "?dates cur acc (Suc n) r"
        unfolding map_funpow_upt_Suc using dates dates' by (simp add: nxt_def)
      moreover have "?below cur (Suc n)"
      proof (intro allI impI)
        fix k assume "k < Suc n"
        show "(?step ^^ k) cur \<le> E"
        proof (cases k)
          case 0
          with \<open>cur \<le> E\<close> show ?thesis by simp
        next
          case (Suc j)
          with \<open>k < Suc n\<close> below have "(?step ^^ j) nxt \<le> E" by simp
          then show ?thesis by (simp add: Suc funpow_swap1 nxt_def)
        qed
      qed
      moreover have "?stop cur (Suc n)" using stop by (simp add: funpow_swap1 nxt_def)
      ultimately show ?thesis by blast
    qed
  qed
qed


lemma RecurringOccurrence_create_due_date:
  "RecurringOccurrence_create u now
      \<lparr>RecurringOccurrenceProps.id = None, template_id = tid, due_date = d,
       status = None, transaction_id = None, created_at = None, updated_at = None\<rparr>
    = Inr oc \<Longrightarrow> RecurringOccurrence.due_date oc = d"
  by (auto simp add: RecurringOccurrence_create_def RecurringOccurrence_new_def
      RecurringOccurrence_validate_def split: if_splits)

lemma generateOccurrences_loop_rerun:
  assumes run: "generateOccurrences_loop t ex E gen now cur acc = Some y"
  shows "\<forall>r. y = Inr r \<longrightarrow> (\<exists>rest. r = acc @ rest \<and>
        (ex = [] \<longrightarrow> (\<forall>ex2 gen2 now2 acc2.
           (\<lambda>oc. toISODate (RecurringOccurrence.due_date oc)) ` set rest \<subseteq> set ex2 \<longrightarrow>
           generateOccurrences_loop t ex2 E gen2 now2 cur acc2 = Some (Inr acc2))))"
proof (rule generateOccurrences_loop.raw_induct
    [where P = "\<lambda>t ex E gen now cur acc y.
      \<forall>r. y = Inr r \<longrightarrow> (\<exists>rest. r = acc @ rest \<and>
        (ex = [] \<longrightarrow> (\<forall>ex2 gen2 now2 acc2.
           (\<lambda>oc. toISODate (RecurringOccurrence.due_date oc)) ` set rest \<subseteq> set ex2 \<longrightarrow>
           generateOccurrences_loop t ex2 E gen2 now2 cur acc2 = Some (Inr acc2))))",
     OF _ run], goal_cases)
  case (1 f t ex E gen now cur acc y)
  note IH = "1"(1) and hyps = "1"(2)
  show ?case
  proof (intro allI impI)
    fix r assume y: "y = Inr r"
    show "\<exists>rest. r = acc @ rest \<and>
        (ex = [] \<longrightarrow> (\<forall>ex2 gen2 now2 acc2.
           (\<lambda>oc. toISODate (RecurringOccurrence.due_date oc)) ` set rest \<subseteq> set ex2 \<longrightarrow>
           generateOccurrences_loop t ex2 E gen2 now2 cur acc2 = Some (Inr acc2)))"
    proof (cases "cur \<le> E")
      case False
      with hyps y have "r = acc" by simp
      moreover from False have "generateOccurrences_loop t ex2 E gen2 now2 cur acc2 = Some (Inr acc2)"
        for ex2 gen2 now2 acc2
        by (subst generateOccurrences_loop.simps) simp
      ultimately show ?thesis by simp
    next
      case True
      define nxt where "nxt = recurrenceStep t cur"
      define emit where "emit = (if toISODate cur \<in> set ex then Inr acc
            else
              (case RecurringOccurrence_create (gen (length acc)) now
                      \<lparr>RecurringOccurrenceProps.id = None,
                       template_id = RecurringTransactionTemplate.id t,
                       due_date = cur,
                       status = None, transaction_id = None,
                       created_at = None, updated_at = None\<rparr> of
                 Inl e \<Rightarrow> Inl e
               | Inr created \<Rightarrow> Inr (acc @ [created])))"
      have body:
        "(case emit of Inl e \<Rightarrow> Some (Inl e)
          | Inr acc' \<Rightarrow> if pastTemplateEnd t nxt then Some (Inr acc') else f t ex E gen now nxt acc')
         = Some (Inr r)"
        using hyps unfolding emit_def nxt_def recurrenceStep_def y
        by (simp only: True if_True)
      then obtain acc' where emit: "emit = Inr acc'"
        by (cases emit) simp_all
      have acc': "\<exists>new. acc' = acc @ new \<and> (ex = [] \<longrightarrow>
          (\<exists>oc. new = [oc] \<and> RecurringOccurrence.due_date oc = cur))"
      proof (cases "toISODate cur \<in> set ex")
        case True
        with emit have "acc' = acc" by (simp add: emit_def)
        with True show ?thesis by auto
      next
        case False
        with emit obtain oc where c: "RecurringOccurrence_create (gen (length acc)) now
                      \<lparr>RecurringOccurrenceProps.id = None,
                       template_id = RecurringTransactionTemplate.id t,
                       due_date = cur,
                       status = None, transaction_id = None,
                       created_at = None, updated_at = None\<rparr> = Inr oc" and "acc' = acc @ [oc]"
          by (simp add: emit_def split: sum.splits)
        with RecurringOccurrence_create_due_date [OF c] show ?thesis by simp
      qed
      then obtain new where new: "acc' = acc @ new"
        and single: "ex = [] \<Longrightarrow> \<exists>oc. new = [oc] \<and> RecurringOccurrence.due_date oc = cur"
        by blast
      have second: "generateOccurrences_loop t ex2 E gen2 now2 cur acc2 =
          (if pastTemplateEnd t nxt then Some (Inr acc2)
           else generateOccurrences_loop t ex2 E gen2 now2 nxt acc2)"
        if "toISODate cur \<in> set ex2" for ex2 gen2 now2 acc2
        using True that
        by (subst generateOccurrences_loop.simps) (simp add: nxt_def recurrenceStep_def)
      have key: "toISODate cur \<in> set ex2"
        if "ex = []" "(\<lambda>oc. toISODate (RecurringOccurrence.due_date oc)) ` set (new @ more) \<subseteq> set ex2"
        for ex2 more
      proof -
        from single [OF that(1)] obtain oc where "new = [oc]" "RecurringOccurrence.due_date oc = cur"
          by blast
        with that(2) show ?thesis by simp
      qed
      show ?thesis
      proof (cases "pastTemplateEnd t nxt")
        case True
        with body emit have r: "r = acc @ (new @ [])" by (simp add: new)
        show ?thesis
        proof (intro exI conjI impI allI)
          show "r = acc @ (new @ [])" by (rule r)
        next
          fix ex2 gen2 now2 acc2
          assume "ex = []"
            "(\<lambda>oc. toISODate (RecurringOccurrence.due_date oc)) ` set (new @ []) \<subseteq> set ex2"
          from second [OF key [OF this]] True
          show "generateOccurrences_loop t ex2 E gen2 now2 cur acc2 = Some (Inr acc2)"
            by simp
        qed
      next
        case False
        with body emit have "f t ex E gen now nxt acc' = Some (Inr r)" by simp
        from IH [OF this] obtain rest where rest: "r = acc' @ rest"
          and again: "ex = [] \<longrightarrow> (\<forall>ex2 gen2 now2 acc2.
            (\<lambda>oc. toISODate (RecurringOccurrence.due_date oc)) ` set rest \<subseteq> set ex2 \<longrightarrow>
            generateOccurrences_loop t ex2 E gen2 now2 nxt acc2 = Some (Inr acc2))"
          by blast
        show ?thesis
        proof (intro exI conjI impI allI)
          show "r = acc @ (new @ rest)" by (simp add: rest new)
        next
          fix ex2 gen2 now2 acc2
          assume ex: "ex = []" and sub:
            "(\<lambda>oc. toISODate (RecurringOccurrence.due_date oc)) ` set (new @ rest) \<subseteq> set ex2"
          from sub have "(\<lambda>oc. toISODate (RecurringOccurrence.due_date oc)) ` set rest \<subseteq> set ex2"
            by (simp add: image_Un)
          with again ex have
            "generateOccurrences_loop t ex2 E gen2 now2 nxt acc2 = Some (Inr acc2)"
            by simp
          with second [OF key [OF ex sub]] False
          show "generateOccurrences_loop t ex2 E gen2 now2 cur acc2 = Some (Inr acc2)"
            by simp
        qed
      qed
    qed
  qed
qed

subsection \<open>Settled entries\<close>

lemma Installment_call_settled:
  "Installment.status i \<noteq> PENDING \<Longrightarrow> Installment_call i c = i"
  by (cases c)
    (simp_all add: Installment_call_def Installment_markAsPaid_def
      Installment_markAsSkipped_def Installment_isPending_def)

lemma Installment_calls_settled:
  "Installment.status i \<noteq> PENDING \<Longrightarrow> foldl Installment_call i cs = i"
  by (induction cs) (simp_all add: Installment_call_settled)

lemma RecurringOccurrence_call_settled:
  "RecurringOccurrence.status oc \<noteq> PENDING \<Longrightarrow> RecurringOccurrence_call oc c = oc"
  by (cases c)
    (simp_all add: RecurringOccurrence_call_def RecurringOccurrence_markAsPaid_def
      RecurringOccurrence_markAsSkipped_def RecurringOccurrence_isPending_def)

lemma RecurringOccurrence_calls_settled:
  "RecurringOccurrence.status oc \<noteq> PENDING \<Longrightarrow> foldl RecurringOccurrence_call oc cs = oc"
  by (induction cs) (simp_all add: RecurringOccurrence_call_settled)

subsection \<open>The installments generated\<close>

lemma generateInstallments_loop_run:
  assumes u: "uuid (InstallmentTemplate.id t)"
    and i: "1 \<le> i" "i \<le> InstallmentTemplate.total_installments t + 1"
    and len: "int (length acc) = i - 1"
  shows "generateInstallments_loop t gen now i acc =
      (if \<forall>j. i \<le> j \<and> j \<le> InstallmentTemplate.total_installments t
            \<longrightarrow> 0 < roundedAmount t j
       then Inr (acc @ map (nthInstallment t gen now)
         [length acc..<nat (InstallmentTemplate.total_installments t)])
       else Inl ZodError)"
  using i len
proof (induction "nat (InstallmentTemplate.total_installments t + 1 - i)"
    arbitrary: i acc)
  case 0
  then have "i = InstallmentTemplate.total_installments t + 1" by simp
  moreover from this "0.prems" have "length acc = nat (InstallmentTemplate.total_installments t)"
    by simp
  ultimately show ?case
    by (subst generateInstallments_loop.simps) simp
next
  case (Suc m)
  then have le: "i \<le> InstallmentTemplate.total_installments t" by simp
  have k: "i = int (length acc) + 1" using Suc.prems by simp
  have amount: "Number_divide
       (of_int (Math_round
          (Number_multiply
             (if i = InstallmentTemplate.total_installments t
              then Number_subtract (InstallmentTemplate.total_amount t)
                (Number_multiply (getInstallmentAmount t)
                   (of_int (InstallmentTemplate.total_installments t - 1)))
              else getInstallmentAmount t)
             100)))
       100 = roundedAmount t i"
    by (simp only: roundedAmount_def)
  have create: "Installment_create (gen (length acc)) now
       \<lparr>InstallmentProps.id = None,
        template_id = InstallmentTemplate.id t,
        installment_number = i,
        amount = roundedAmount t i,
        due_date = setMonth (InstallmentTemplate.first_due_date t)
          (getMonth (InstallmentTemplate.first_due_date t) + (i - 1)),
        status = None, transaction_id = None, created_at = None, updated_at = None\<rparr>
     = (if 0 < roundedAmount t i then Inr (nthInstallment t gen now (length acc))
        else Inl ZodError)"
    using u Suc.prems(1)
    by (simp add: Installment_create_def Installment_new_def Installment_validate_def
        optional_def nthInstallment_def k)
  have step: "generateInstallments_loop t gen now i acc =
      (if 0 < roundedAmount t i
       then generateInstallments_loop t gen now (i + 1)
         (acc @ [nthInstallment t gen now (length acc)])
       else Inl ZodError)"
    using le Suc.prems(1)
    by (subst generateInstallments_loop.simps)
      (simp only: amount calculateDueDate_def, simp, simp only: create, simp)
  have "m = nat (InstallmentTemplate.total_installments t + 1 - (i + 1))"
    using Suc.hyps(2) by simp
  from Suc.hyps(1) [OF this, of "acc @ [nthInstallment t gen now (length acc)]"] le Suc.prems
  have rest: "generateInstallments_loop t gen now (i + 1)
        (acc @ [nthInstallment t gen now (length acc)])
    = (if \<forall>j. i + 1 \<le> j \<and> j \<le> InstallmentTemplate.total_installments t
            \<longrightarrow> 0 < roundedAmount t j
       then Inr ((acc @ [nthInstallment t gen now (length acc)])
         @ map (nthInstallment t gen now)
             [Suc (length acc)..<nat (InstallmentTemplate.total_installments t)])
       else Inl ZodError)"
    by simp
  have split: "(\<forall>j. i \<le> j \<and> j \<le> InstallmentTemplate.total_installments t
            \<longrightarrow> 0 < roundedAmount t j)
      \<longleftrightarrow> 0 < roundedAmount t i
        \<and> (\<forall>j. i + 1 \<le> j \<and> j \<le> InstallmentTemplate.total_installments t
            \<longrightarrow> 0 < roundedAmount t j)"
  proof (intro iffI conjI allI impI)
    assume a: "\<forall>j. i \<le> j \<and> j \<le> InstallmentTemplate.total_installments t
            \<longrightarrow> 0 < roundedAmount t j"
    from a le show "0 < roundedAmount t i" by simp
    fix j
    assume "i + 1 \<le> j \<and> j \<le> InstallmentTemplate.total_installments t"
    then have "i \<le> j \<and> j \<le> InstallmentTemplate.total_installments t" by simp
    with a [rule_format, of j] show "0 < roundedAmount t j" by (simp only:)
  next
    fix j
    assume b: "0 < roundedAmount t i
        \<and> (\<forall>j. i + 1 \<le> j \<and> j \<le> InstallmentTemplate.total_installments t
            \<longrightarrow> 0 < roundedAmount t j)"
      and j: "i \<le> j \<and> j \<le> InstallmentTemplate.total_installments t"
    show "0 < roundedAmount t j"
    proof (cases "j = i")
      case True
      with b show ?thesis by simp
    next
      case False
      with j have "i + 1 \<le> j \<and> j \<le> InstallmentTemplate.total_installments t" by simp
      with b [THEN conjunct2, rule_format, of j] show ?thesis by (simp only:)
    qed
  qed
  have "length acc < nat (InstallmentTemplate.total_installments t)"
    using le k by simp
  then show ?case
    unfolding step rest split by (simp add: upt_conv_Cons)
qed

lemma roundedAmount_regular:
  assumes "j \<noteq> InstallmentTemplate.total_installments t"
  shows "roundedAmount t j
    = Number_divide (of_int (Math_round (Number_multiply (getInstallmentAmount t) 100))) 100"
  using assms by (simp add: roundedAmount_def)

lemma roundedAmount_all:
  assumes "2 \<le> InstallmentTemplate.total_installments t"
  shows "(\<forall>j. 1 \<le> j \<and> j \<le> InstallmentTemplate.total_installments t
            \<longrightarrow> 0 < roundedAmount t j)
    \<longleftrightarrow> 0 < roundedAmount t 1
        \<and> 0 < roundedAmount t (InstallmentTemplate.total_installments t)"
proof
  assume "\<forall>j. 1 \<le> j \<and> j \<le> InstallmentTemplate.total_installments t
            \<longrightarrow> 0 < roundedAmount t j"
  with assms show "0 < roundedAmount t 1
        \<and> 0 < roundedAmount t (InstallmentTemplate.total_installments t)"
    by simp
next
  assume a: "0 < roundedAmount t 1
        \<and> 0 < roundedAmount t (InstallmentTemplate.total_installments t)"
  show "\<forall>j. 1 \<le> j \<and> j \<le> InstallmentTemplate.total_installments t
            \<longrightarrow> 0 < roundedAmount t j"
  proof (intro allI impI)
    fix j
    assume "1 \<le> j \<and> j \<le> InstallmentTemplate.total_installments t"
    show "0 < roundedAmount t j"
    proof (cases "j = InstallmentTemplate.total_installments t")
      case True
      with a show ?thesis by simp
    next
      case False
      from assms have "1 \<noteq> InstallmentTemplate.total_installments t" by simp
      from roundedAmount_regular [OF this] roundedAmount_regular [OF False] a
      show ?thesis by simp
    qed
  qed
qed

lemma generateInstallments_run:
  assumes u: "uuid (InstallmentTemplate.id t)"
    and n: "2 \<le> InstallmentTemplate.total_installments t"
  shows "generateInstallments t gen now =
      (if 0 < roundedAmount t 1
          \<and> 0 < roundedAmount t (InstallmentTemplate.total_installments t)
       then Inr (map (nthInstallment t gen now)
         [0..<nat (InstallmentTemplate.total_installments t)])
       else Inl ZodError)"
  using generateInstallments_loop_run [OF u, of 1 "[]" gen now] n
  unfolding generateInstallments_def roundedAmount_all [OF n]
  by simp


subsection \<open>The examples\<close>

lemma example_template_uuid: "uuid example_template_id"
  by code_simp

lemma scenario_A_dates:
  "map (\<lambda>k. setMonth 1706745600000 (getMonth 1706745600000 + int k)) [0..<12] =
     [1706745600000, 1709251200000, 1711929600000, 1714521600000, 1717200000000,
      1719792000000, 1722470400000, 1725148800000, 1727740800000, 1730419200000,
      1733011200000, 1735689600000]"
  by code_simp

text \<open>The Numbers of the examples, and the amounts the loop rounds to.\<close>

lemma floor_numeral_divide:
  "\<lfloor>(numeral a :: rat) / numeral b\<rfloor> = numeral a div numeral b"
  using floor_divide_of_int_eq [of "numeral a" "numeral b", where ?'a = rat] by simp

lemmas NumberValue_eval =
  NumberValue_def binade.simps roundTiesToEven_def power_int_minus floor_numeral_divide

lemma NumberValue_examples:
  "NumberValue (1 / 10) = 3602879701896397 / 2 ^ 55"
  "NumberValue (2 / 10) = 3602879701896397 / 2 ^ 54"
  "NumberValue (NumberValue (1 / 10) + NumberValue (2 / 10)) = 1351079888211149 / 2 ^ 52"
  "NumberValue (3 / 10) = 5404319552844595 / 2 ^ 54"
  "NumberValue (2 ^ 53 + 1) = 2 ^ 53"
  "NumberValue (2 ^ 53 + 3) = 2 ^ 53 + 4"
  "NumberValue (1 / 2) = 1 / 2"
  "NumberValue 1200 = 1200"
  by (simp_all add: NumberValue_eval)


lemma example_numbers:
  "NumberValue (3333 / 100) = 2345390243441541 / 2 ^ 46"
  "NumberValue (3334 / 100) = 1173046965441659 / 2 ^ 45"
  "NumberValue (1 / 100) = 5764607523034235 / 2 ^ 59"
  "NumberValue (4 / 100) = 5764607523034235 / 2 ^ 57"
  by (simp_all add: NumberValue_eval)

lemma example_amounts:
  "roundedAmount (example_installment_template 100 3 d) 1 = NumberValue (3333 / 100)"
  "roundedAmount (example_installment_template 100 3 d) 3 = NumberValue (3333 / 100)"
  "roundedAmount (example_installment_template 1200 12 d) 1 = 100"
  "roundedAmount (example_installment_template 1200 12 d) 12 = 100"
  "roundedAmount (example_installment_template (NumberValue (1 / 100)) 3 d) 1 = 0"
  "roundedAmount (example_installment_template (NumberValue (4 / 100)) 8 d) 1
     = NumberValue (1 / 100)"
  "roundedAmount (example_installment_template (NumberValue (4 / 100)) 8 d) 8 = 0"
  by (simp_all add: roundedAmount_def getInstallmentAmount_def example_installment_template_def
      Number_divide_def Number_multiply_def Number_subtract_def Math_round_def NumberValue_eval)

text \<open>Totals whose last installment differs from the others: 10.05 in 10 gives nine
  times 1.01 and then 1.00; 2.01 in 2 gives 1.00 twice.\<close>

lemma example_amounts_last:
  "roundedAmount (example_installment_template (NumberValue (1005 / 100)) 10 d) 1
     = NumberValue (101 / 100)"
  "roundedAmount (example_installment_template (NumberValue (1005 / 100)) 10 d) 10 = 1"
  "roundedAmount (example_installment_template (NumberValue (201 / 100)) 2 d) 1 = 1"
  "roundedAmount (example_installment_template (NumberValue (201 / 100)) 2 d) 2 = 1"
  by (simp_all add: roundedAmount_def getInstallmentAmount_def example_installment_template_def
      Number_divide_def Number_multiply_def Number_subtract_def Math_round_def NumberValue_eval)

subsection \<open>The new occurrences\<close>

lemma calculateEndDate_min:
  "calculateEndDate now t m =
     (case RecurringTransactionTemplate.end_date t of
        None \<Rightarrow> setMonth now (getMonth now + m)
      | Some e \<Rightarrow> min (setMonth now (getMonth now + m)) e)"
  by (simp add: calculateEndDate_def min_def split: option.splits)

lemma calculateEndDate_le_end:
  "RecurringTransactionTemplate.end_date t = Some e \<Longrightarrow> calculateEndDate now t m \<le> e"
  by (simp add: calculateEndDate_def)

lemma recurrenceStep_cases:
  "recurrenceStep t d =
     (case RecurringTransactionTemplate.frequency t of
        DAILY \<Rightarrow> d + RecurringTransactionTemplate.interval t * msPerDay
      | WEEKLY \<Rightarrow> d + RecurringTransactionTemplate.interval t * 7 * msPerDay
      | MONTHLY \<Rightarrow> setMonth d (getMonth d + RecurringTransactionTemplate.interval t)
      | YEARLY \<Rightarrow> setFullYear d (getFullYear d + RecurringTransactionTemplate.interval t))"
  by (simp add: recurrenceStep_def calculateNextDate_def setDate_getDate
      split: RecurrenceFrequency.splits)

lemma generateNewOccurrences_total:
  assumes "1 \<le> RecurringTransactionTemplate.interval t"
    and "uuid (RecurringTransactionTemplate.id t)"
  shows "\<exists>n r. generateNewOccurrences t existing m gen now = Some (Inr r)
      \<and> map RecurringOccurrence.due_date r =
          filter (\<lambda>d. toISODate d
                    \<notin> (\<lambda>oc. toISODate (RecurringOccurrence.due_date oc)) ` set existing)
            (map (\<lambda>k. (recurrenceStep t ^^ k) (RecurringTransactionTemplate.next_occurrence t))
               [0..<n])
      \<and> (\<forall>k<n. (recurrenceStep t ^^ k) (RecurringTransactionTemplate.next_occurrence t)
                \<le> calculateEndDate now t m)
      \<and> calculateEndDate now t m
          < (recurrenceStep t ^^ n) (RecurringTransactionTemplate.next_occurrence t)"
proof -
  have e: "\<And>e. RecurringTransactionTemplate.end_date t = Some e
      \<Longrightarrow> calculateEndDate now t m \<le> e"
    by (rule calculateEndDate_le_end)
  show ?thesis
    using generateOccurrences_loop_total [OF assms e,
      where ex = "map (\<lambda>oc. toISODate (RecurringOccurrence.due_date oc)) existing"
        and cur = "RecurringTransactionTemplate.next_occurrence t" and acc = "[]"
        and gen = gen and now = now]
    by (simp add: generateNewOccurrences_def)
qed

lemma stop_unique:
  fixes f :: "nat \<Rightarrow> int"
  assumes "\<forall>k<n. f k \<le> E" "E < f n" "\<forall>k<N. f k \<le> E" "E < f N"
  shows "n = N"
proof (rule ccontr)
  assume "n \<noteq> N"
  then consider "n < N" | "N < n" by linarith
  then show False
  proof cases
    case 1
    with assms(3) have "f n \<le> E" by simp
    with assms(2) show False by simp
  next
    case 2
    with assms(1) have "f N \<le> E" by simp
    with assms(4) show False by simp
  qed
qed

lemma existing_keys:
  "set (map (\<lambda>oc. toISODate (RecurringOccurrence.due_date oc))
      (occurrenceRepository_findByTemplateId db (RecurringTransactionTemplate.id t)))
    = storedDates db t"
  by (simp add: occurrenceRepository_findByTemplateId_def storedDates_def)

lemma execute_found_active:
  assumes "templateRepository_findById db (GenerateRecurringOccurrencesInput.template_id input)
      = Some t"
    and "RecurringTransactionTemplate.is_active t"
    and "generateNewOccurrences t
           (occurrenceRepository_findByTemplateId db (RecurringTransactionTemplate.id t))
           (orThree (GenerateRecurringOccurrencesInput.months_ahead input)) gen now
         = Some (Inr new)"
  shows "GenerateRecurringOccurrencesUseCase_execute db gen now input =
      Some (Inr (\<lparr>GenerateRecurringOccurrencesOutput.template = t,
                  occurrences = (if new = [] then []
                    else fst (occurrenceRepository_createMany db new))\<rparr>,
                 db\<lparr>recurringOccurrence_rows := recurringOccurrence_rows db @ new\<rparr>))"
  using assms
  by (simp add: GenerateRecurringOccurrencesUseCase_execute_def
      occurrenceRepository_createMany_def)

lemma generationHorizon_eq: "calculateEndDate now t m = generationHorizon now t m"
  by (simp add: calculateEndDate_min generationHorizon_def)

lemma execute_dates:
  assumes found: "templateRepository_findById db
        (GenerateRecurringOccurrencesInput.template_id input) = Some t"
    and active: "RecurringTransactionTemplate.is_active t"
    and intv: "1 \<le> RecurringTransactionTemplate.interval t"
    and u: "uuid (RecurringTransactionTemplate.id t)"
  shows "\<exists>n new out.
      GenerateRecurringOccurrencesUseCase_execute db gen now input =
        Some (Inr (out, db\<lparr>recurringOccurrence_rows := recurringOccurrence_rows db @ new\<rparr>))
      \<and> GenerateRecurringOccurrencesOutput.template out = t
      \<and> map RecurringOccurrence.due_date new =
          filter (\<lambda>d. toISODate d \<notin> storedDates db t) (map (cursorAt t) [0..<n])
      \<and> (\<forall>k<n. cursorAt t k \<le> generationHorizon now t
            (orThree (GenerateRecurringOccurrencesInput.months_ahead input)))
      \<and> generationHorizon now t
            (orThree (GenerateRecurringOccurrencesInput.months_ahead input)) < cursorAt t n"
proof -
  from generateNewOccurrences_total [OF intv u,
      of "occurrenceRepository_findByTemplateId db (RecurringTransactionTemplate.id t)"
         "orThree (GenerateRecurringOccurrencesInput.months_ahead input)" gen now]
  obtain n new where run: "generateNewOccurrences t
           (occurrenceRepository_findByTemplateId db (RecurringTransactionTemplate.id t))
           (orThree (GenerateRecurringOccurrencesInput.months_ahead input)) gen now
         = Some (Inr new)"
    and dates: "map RecurringOccurrence.due_date new =
          filter (\<lambda>d. toISODate d \<notin> storedDates db t) (map (cursorAt t) [0..<n])"
    and below: "\<forall>k<n. cursorAt t k \<le> generationHorizon now t
            (orThree (GenerateRecurringOccurrencesInput.months_ahead input))"
    and stop: "generationHorizon now t
            (orThree (GenerateRecurringOccurrencesInput.months_ahead input)) < cursorAt t n"
    unfolding existing_keys [simplified] generationHorizon_eq cursorAt_def [symmetric]
    by (auto simp add: cursorAt_def [abs_def])
  show ?thesis
    by (intro exI [of _ n] exI [of _ new]
        exI [of _ "\<lparr>GenerateRecurringOccurrencesOutput.template = t,
                  occurrences = (if new = [] then []
                    else fst (occurrenceRepository_createMany db new))\<rparr>"])
      (simp add: execute_found_active [OF found active run] dates below stop)
qed

lemma generateOccurrences_loop_step:
  assumes "cur \<le> E" and "uuid (RecurringTransactionTemplate.id t)"
  shows "generateOccurrences_loop t ex E gen now cur acc =
      (if pastTemplateEnd t (recurrenceStep t cur)
       then Some (Inr (if toISODate cur \<in> set ex then acc
          else acc @ [\<lparr>RecurringOccurrence.id = gen (length acc),
            template_id = RecurringTransactionTemplate.id t, due_date = cur, status = PENDING,
            transaction_id = None, created_at = now, updated_at = now\<rparr>]))
       else generateOccurrences_loop t ex E gen now (recurrenceStep t cur)
         (if toISODate cur \<in> set ex then acc
          else acc @ [\<lparr>RecurringOccurrence.id = gen (length acc),
            template_id = RecurringTransactionTemplate.id t, due_date = cur, status = PENDING,
            transaction_id = None, created_at = now, updated_at = now\<rparr>]))"
  using assms(1)
  by (subst generateOccurrences_loop.simps)
    (simp add: RecurringOccurrence_create_ok [OF assms(2)] recurrenceStep_def)

lemma generateOccurrences_loop_stop:
  "E < cur \<Longrightarrow> generateOccurrences_loop t ex E gen now cur acc = Some (Inr acc)"
  by (subst generateOccurrences_loop.simps) simp

lemma scenario_C_steps:
  "recurrenceStep scenario_C_template 1705276800000 = 1707955200000"
  "recurrenceStep scenario_C_template 1707955200000 = 1710460800000"
  "recurrenceStep scenario_C_template 1710460800000 = 1713139200000"
  "calculateEndDate 1704067200000 scenario_C_template 3 = 1711929600000"
  by code_simp+

lemma scenario_C_new:
  "generateNewOccurrences scenario_C_template [] 3 gen 1704067200000 =
     Some (Inr [scenario_C_occurrence gen 0 1705276800000,
                scenario_C_occurrence gen 1 1707955200000,
                scenario_C_occurrence gen 2 1710460800000])"
proof -
  have u: "uuid (RecurringTransactionTemplate.id scenario_C_template)"
    using example_template_uuid
    by (simp add: scenario_C_template_def example_recurring_template_def)
  have p: "\<not> pastTemplateEnd scenario_C_template d" for d
    by (simp add: pastTemplateEnd_def scenario_C_template_def example_recurring_template_def)
  have f: "RecurringTransactionTemplate.next_occurrence scenario_C_template = 1705276800000"
    "RecurringTransactionTemplate.id scenario_C_template = example_template_id"
    by (simp_all add: scenario_C_template_def example_recurring_template_def)
  show ?thesis
    unfolding generateNewOccurrences_def scenario_C_steps f(1)
    by (simp add: generateOccurrences_loop_step [OF _ u] generateOccurrences_loop_stop
        scenario_C_steps p f(2) scenario_C_occurrence_def numeral_2_eq_2)
qed

lemma scenario_C_execute:
  "GenerateRecurringOccurrencesUseCase_execute (example_database [scenario_C_template] [])
      gen 1704067200000
      \<lparr>GenerateRecurringOccurrencesInput.template_id = example_template_id,
       months_ahead = Some 3\<rparr>
    = Some (Inr
       (\<lparr>GenerateRecurringOccurrencesOutput.template = scenario_C_template,
         occurrences =
           [scenario_C_occurrence gen 0 1705276800000,
            scenario_C_occurrence gen 1 1707955200000,
            scenario_C_occurrence gen 2 1710460800000]\<rparr>,
        example_database [scenario_C_template]
           [scenario_C_occurrence gen 0 1705276800000,
            scenario_C_occurrence gen 1 1707955200000,
            scenario_C_occurrence gen 2 1710460800000]))"
proof -
  let ?db = "example_database [scenario_C_template] []"
  let ?input = "\<lparr>GenerateRecurringOccurrencesInput.template_id = example_template_id,
       months_ahead = Some 3\<rparr>"
  have found: "templateRepository_findById ?db
      (GenerateRecurringOccurrencesInput.template_id ?input) = Some scenario_C_template"
    by (simp add: templateRepository_findById_def example_database_def
        scenario_C_template_def example_recurring_template_def)
  have active: "RecurringTransactionTemplate.is_active scenario_C_template"
    by (simp add: scenario_C_template_def example_recurring_template_def)
  have none: "occurrenceRepository_findByTemplateId ?db
      (RecurringTransactionTemplate.id scenario_C_template) = []"
    by (simp add: occurrenceRepository_findByTemplateId_def example_database_def)
  have run: "generateNewOccurrences scenario_C_template
      (occurrenceRepository_findByTemplateId ?db
         (RecurringTransactionTemplate.id scenario_C_template))
      (orThree (GenerateRecurringOccurrencesInput.months_ahead ?input)) gen 1704067200000
    = Some (Inr [scenario_C_occurrence gen 0 1705276800000,
                scenario_C_occurrence gen 1 1707955200000,
                scenario_C_occurrence gen 2 1710460800000])"
    by (simp add: none orThree_def scenario_C_new)
  show ?thesis
    unfolding execute_found_active [OF found active run]
    by (simp add: occurrenceRepository_createMany_def example_database_def
        scenario_C_occurrence_def)
qed


subsection \<open>Settlement\<close>

lemma find_map_same:
  assumes "\<And>x. P (f x) = P x"
  shows "find P (map f xs) = map_option f (find P xs)"
  using assms by (induction xs) simp_all

lemma find_Some_D: "find P xs = Some x \<Longrightarrow> P x \<and> x \<in> set xs"
  by (induction xs) (auto split: if_splits)

lemma Installment_not_canBePaid:
  "\<not> Installment_canBePaid now inst \<Longrightarrow>
     Installment.status inst = PAID \<or> Installment.status inst = SKIPPED
     \<or> (Installment.status inst = PENDING \<and> Installment_isOverdue now inst)"
  by (cases "Installment.status inst")
    (simp_all add: Installment_canBePaid_def Installment_isPending_def)

lemma PayInstallment_refused:
  assumes found: "installmentRepository_findById db (installment_id input) = Some inst"
    and no: "\<not> Installment_canBePaid now inst"
  shows "PayInstallmentUseCase_execute db txid now input =
     Inl (Error
       (if Installment.status inst = PAID then ''Installment is already paid''
        else if Installment.status inst = SKIPPED then ''Cannot pay skipped installment''
        else ''Cannot pay overdue installment (>30 days past due)''))"
  using Installment_not_canBePaid [OF no] no
  by (auto simp add: PayInstallmentUseCase_execute_def found Installment_isPaid_def
      Installment_isSkipped_def)

lemma PayInstallment_paid:
  assumes found: "installmentRepository_findById db (installment_id input) = Some inst"
    and can: "Installment_canBePaid now inst"
    and template:
      "installmentTemplateRepository_findById db (Installment.template_id inst) = Some t"
    and txid: "txid \<noteq> []"
  shows "\<exists>tx db'.
     PayInstallmentUseCase_execute db txid now input =
       Inr (\<lparr>installment = inst\<lparr>Installment.status := PAID,
                                  Installment.transaction_id := Some txid\<rparr>,
             transaction = tx\<rparr>, db')
     \<and> Transaction.id tx = txid
     \<and> Transaction.transaction_date tx =
         (case PayInstallmentInput.transaction_date input of
            Some d \<Rightarrow> d | None \<Rightarrow> Installment.due_date inst)
     \<and> Transaction.amount tx = Installment.amount inst
     \<and> installmentRepository_findById db' (installment_id input) =
         Some (inst\<lparr>Installment.status := PAID,
                    Installment.transaction_id := Some txid\<rparr>)
     \<and> tx \<in> set (transaction_rows db')"
proof -
  from find_Some_D [OF found [unfolded installmentRepository_findById_def]]
  have idi: "Installment.id inst = installment_id input"
    and mem: "inst \<in> set (installment_rows db)"
    by simp_all
  have pending: "Installment_isPending inst"
    using can by (simp add: Installment_canBePaid_def)
  have mem': "installment_id input \<in> Installment.id ` set (installment_rows db)"
    using mem idi by force
  have stored: "find (\<lambda>row. Installment.id row = installment_id input)
      (map (\<lambda>row. if Installment.id row = installment_id input
                 then row\<lparr>Installment.status := PAID,
                          Installment.transaction_id := Some txid\<rparr>
                 else row) (installment_rows db))
     = Some (inst\<lparr>Installment.status := PAID, Installment.transaction_id := Some txid\<rparr>)"
    using found idi
    by (subst find_map_same) (simp_all add: installmentRepository_findById_def)
  define tx where "tx = fst (createTransactionFromInstallment db txid t inst
      (case PayInstallmentInput.transaction_date input of
         Some d \<Rightarrow> d | None \<Rightarrow> Installment.due_date inst))"
  define db' where "db' = db\<lparr>transaction_rows := transaction_rows db @ [tx],
      installment_rows :=
        map (\<lambda>row. if Installment.id row = installment_id input
                 then row\<lparr>Installment.status := PAID,
                          Installment.transaction_id := Some txid\<rparr>
                 else row) (installment_rows db)\<rparr>"
  have txi: "Transaction.id tx = txid"
    by (simp add: tx_def createTransactionFromInstallment_def
        transactionRepository_create_def)
  have exec: "PayInstallmentUseCase_execute db txid now input =
       Inr (\<lparr>installment = inst\<lparr>Installment.status := PAID,
                                  Installment.transaction_id := Some txid\<rparr>,
             transaction = tx\<rparr>, db')"
    using pending txid mem' idi
    by (simp add: PayInstallmentUseCase_execute_def found can template tx_def db'_def
        createTransactionFromInstallment_def transactionRepository_create_def
        Installment_markAsPaid_def installmentRepository_markAsPaid_def)
  have "Transaction.transaction_date tx =
         (case PayInstallmentInput.transaction_date input of
            Some d \<Rightarrow> d | None \<Rightarrow> Installment.due_date inst)"
    and "Transaction.amount tx = Installment.amount inst"
    by (simp_all add: tx_def createTransactionFromInstallment_def
        transactionRepository_create_def)
  moreover have "installmentRepository_findById db' (installment_id input) =
         Some (inst\<lparr>Installment.status := PAID,
                    Installment.transaction_id := Some txid\<rparr>)"
    using stored by (simp add: installmentRepository_findById_def db'_def)
  moreover have "tx \<in> set (transaction_rows db')"
    by (simp add: db'_def)
  ultimately show ?thesis
    using exec txi by blast
qed

lemma PayInstallment_success_only:
  assumes found: "installmentRepository_findById db (installment_id input) = Some inst"
    and run: "PayInstallmentUseCase_execute db txid now input = Inr (out, db')"
  shows "Installment_canBePaid now inst \<and> txid \<noteq> []
     \<and> (\<exists>t. installmentTemplateRepository_findById db (Installment.template_id inst) = Some t)"
  using run
  by (auto simp add: PayInstallmentUseCase_execute_def found Installment_markAsPaid_def
      createTransactionFromInstallment_def transactionRepository_create_def
      split: if_splits option.splits sum.splits prod.splits)

lemma RecurringOccurrence_not_canBePaid:
  "\<not> RecurringOccurrence_canBePaid now inst \<Longrightarrow>
     RecurringOccurrence.status inst = PAID \<or> RecurringOccurrence.status inst = SKIPPED
     \<or> (RecurringOccurrence.status inst = PENDING \<and> RecurringOccurrence_isOverdue now inst)"
  by (cases "RecurringOccurrence.status inst")
    (simp_all add: RecurringOccurrence_canBePaid_def RecurringOccurrence_isPending_def)

lemma PayRecurringOccurrence_refused:
  assumes found: "occurrenceRepository_findById db (occurrence_id input) = Some inst"
    and no: "\<not> RecurringOccurrence_canBePaid now inst"
  shows "PayRecurringOccurrenceUseCase_execute fmt db txid now input =
     Inl (Error
       (if RecurringOccurrence.status inst = PAID then ''Occurrence is already paid''
        else if RecurringOccurrence.status inst = SKIPPED then ''Cannot pay skipped occurrence''
        else ''Cannot pay overdue occurrence (>30 days past due)''))"
  using RecurringOccurrence_not_canBePaid [OF no] no
  by (auto simp add: PayRecurringOccurrenceUseCase_execute_def found RecurringOccurrence_isPaid_def
      RecurringOccurrence_isSkipped_def)

lemma PayRecurringOccurrence_paid:
  assumes found: "occurrenceRepository_findById db (occurrence_id input) = Some inst"
    and can: "RecurringOccurrence_canBePaid now inst"
    and template:
      "templateRepository_findById db (RecurringOccurrence.template_id inst) = Some t"
    and txid: "txid \<noteq> []"
  shows "\<exists>tx db'.
     PayRecurringOccurrenceUseCase_execute fmt db txid now input =
       Inr (\<lparr>occurrence = inst\<lparr>RecurringOccurrence.status := PAID,
                                  RecurringOccurrence.transaction_id := Some txid\<rparr>,
             PayRecurringOccurrenceOutput.transaction = tx\<rparr>, db')
     \<and> Transaction.id tx = txid
     \<and> Transaction.transaction_date tx =
         (case PayRecurringOccurrenceInput.transaction_date input of
            Some d \<Rightarrow> d | None \<Rightarrow> RecurringOccurrence.due_date inst)
     \<and> Transaction.amount tx = RecurringTransactionTemplate.amount t
     \<and> occurrenceRepository_findById db' (occurrence_id input) =
         Some (inst\<lparr>RecurringOccurrence.status := PAID,
                    RecurringOccurrence.transaction_id := Some txid\<rparr>)
     \<and> tx \<in> set (transaction_rows db')"
proof -
  from find_Some_D [OF found [unfolded occurrenceRepository_findById_def]]
  have idi: "RecurringOccurrence.id inst = occurrence_id input"
    and mem: "inst \<in> set (recurringOccurrence_rows db)"
    by simp_all
  have pending: "RecurringOccurrence_isPending inst"
    using can by (simp add: RecurringOccurrence_canBePaid_def)
  have mem': "occurrence_id input \<in> RecurringOccurrence.id ` set (recurringOccurrence_rows db)"
    using mem idi by force
  have stored: "find (\<lambda>row. RecurringOccurrence.id row = occurrence_id input)
      (map (\<lambda>row. if RecurringOccurrence.id row = occurrence_id input
                 then row\<lparr>RecurringOccurrence.status := PAID,
                          RecurringOccurrence.transaction_id := Some txid\<rparr>
                 else row) (recurringOccurrence_rows db))
     = Some (inst\<lparr>RecurringOccurrence.status := PAID, RecurringOccurrence.transaction_id := Some txid\<rparr>)"
    using found idi
    by (subst find_map_same) (simp_all add: occurrenceRepository_findById_def)
  define tx where "tx = fst (createTransactionFromTemplate fmt db txid t inst
      (case PayRecurringOccurrenceInput.transaction_date input of
         Some d \<Rightarrow> d | None \<Rightarrow> RecurringOccurrence.due_date inst))"
  define db' where "db' = db\<lparr>transaction_rows := transaction_rows db @ [tx],
      recurringOccurrence_rows :=
        map (\<lambda>row. if RecurringOccurrence.id row = occurrence_id input
                 then row\<lparr>RecurringOccurrence.status := PAID,
                          RecurringOccurrence.transaction_id := Some txid\<rparr>
                 else row) (recurringOccurrence_rows db)\<rparr>"
  have txi: "Transaction.id tx = txid"
    by (simp add: tx_def createTransactionFromTemplate_def
        transactionRepository_create_def)
  have exec: "PayRecurringOccurrenceUseCase_execute fmt db txid now input =
       Inr (\<lparr>occurrence = inst\<lparr>RecurringOccurrence.status := PAID,
                                  RecurringOccurrence.transaction_id := Some txid\<rparr>,
             PayRecurringOccurrenceOutput.transaction = tx\<rparr>, db')"
    using pending txid mem' idi
    by (simp add: PayRecurringOccurrenceUseCase_execute_def found can template tx_def db'_def
        createTransactionFromTemplate_def transactionRepository_create_def
        RecurringOccurrence_markAsPaid_def occurrenceRepository_markAsPaid_def)
  have "Transaction.transaction_date tx =
         (case PayRecurringOccurrenceInput.transaction_date input of
            Some d \<Rightarrow> d | None \<Rightarrow> RecurringOccurrence.due_date inst)"
    and "Transaction.amount tx = RecurringTransactionTemplate.amount t"
    by (simp_all add: tx_def createTransactionFromTemplate_def
        transactionRepository_create_def)
  moreover have "occurrenceRepository_findById db' (occurrence_id input) =
         Some (inst\<lparr>RecurringOccurrence.status := PAID,
                    RecurringOccurrence.transaction_id := Some txid\<rparr>)"
    using stored by (simp add: occurrenceRepository_findById_def db'_def)
  moreover have "tx \<in> set (transaction_rows db')"
    by (simp add: db'_def)
  ultimately show ?thesis
    using exec txi by blast
qed

lemma PayRecurringOccurrence_success_only:
  assumes found: "occurrenceRepository_findById db (occurrence_id input) = Some inst"
    and run: "PayRecurringOccurrenceUseCase_execute fmt db txid now input = Inr (out, db')"
  shows "RecurringOccurrence_canBePaid now inst \<and> txid \<noteq> []
     \<and> (\<exists>t. templateRepository_findById db (RecurringOccurrence.template_id inst) = Some t)"
  using run
  by (auto simp add: PayRecurringOccurrenceUseCase_execute_def found RecurringOccurrence_markAsPaid_def
      createTransactionFromTemplate_def transactionRepository_create_def
      split: if_splits option.splits sum.splits prod.splits)




subsection \<open>The template through a generation run\<close>

lemma execute_keeps_template:
  assumes run: "GenerateRecurringOccurrencesUseCase_execute db gen now input
      = Some (Inr (out, db'))"
  shows "recurringTemplate_rows db' = recurringTemplate_rows db
    \<and> templateRepository_findById db (GenerateRecurringOccurrencesInput.template_id input)
        = Some (GenerateRecurringOccurrencesOutput.template out)
    \<and> templateRepository_findById db' (GenerateRecurringOccurrencesInput.template_id input)
        = Some (GenerateRecurringOccurrencesOutput.template out)"
  using run
  by (auto simp add: GenerateRecurringOccurrencesUseCase_execute_def
      occurrenceRepository_createMany_def templateRepository_findById_def
      split: option.splits if_splits sum.splits)

lemma CreateRecurring_payFirst_template:
  assumes "CreateRecurring_payFirst fmt txid t (ocs, db1) = Inr (cout, db2)"
  shows "CreateRecurringTransactionOutput.template cout = t
    \<and> recurringTemplate_rows db2 = recurringTemplate_rows db1"
  using assms
  by (cases ocs)
    (auto simp add: CreateRecurring_payFirst_def CreateRecurring_createFirstTransaction_def
      transactionRepository_create_def occurrenceRepository_markAsPaid_def
      split: sum.splits if_splits)

lemma CreateRecurring_generateOccurrences_template:
  assumes "CreateRecurring_generateOccurrences db1 gen now t m = Some (Inr (ocs, db2))"
  shows "recurringTemplate_rows db2 = recurringTemplate_rows db1"
  using assms
  by (auto simp add: CreateRecurring_generateOccurrences_def
      occurrenceRepository_createMany_def split: option.splits sum.splits if_splits)

lemma create_keeps_next_occurrence:
  assumes run: "CreateRecurringTransactionUseCase_execute fmt db gen txid now cinput
      = Some (Inr (cout, db'))"
  shows "RecurringTransactionTemplate.next_occurrence
        (CreateRecurringTransactionOutput.template cout)
      = CreateRecurringTransactionInput.start_date cinput
    \<and> recurringTemplate_rows db'
      = recurringTemplate_rows db @ [CreateRecurringTransactionOutput.template cout]"
proof -
  from run obtain u account rc where
    acc: "accountRepository_findById db (CreateRecurringTransactionInput.account_id cinput)
      = Some account"
    and rc: "RecurrenceConfig_create
             (CreateRecurringTransactionInput.frequency cinput)
             (CreateRecurringTransactionInput.interval cinput)
             (CreateRecurringTransactionInput.start_date cinput)
             (CreateRecurringTransactionInput.end_date cinput) = Inr rc"
    and v: "CreateRecurring_validateInput cinput = Inr u"
    by (auto simp add: CreateRecurringTransactionUseCase_execute_def
        split: sum.splits option.splits)
  define t where "t = CreateRecurring_createTemplate (gen 0) cinput rc
     (case CreateRecurringTransactionInput.visibility cinput of
        Some v \<Rightarrow> v
      | None \<Rightarrow>
          (case Account.owner_id account of
             None \<Rightarrow> SHARED
           | Some owner \<Rightarrow> if owner = [] then SHARED else PRIVATE))"
  define db1 where "db1 = db\<lparr>recurringTemplate_rows := recurringTemplate_rows db @ [t]\<rparr>"
  have start: "RecurrenceConfig.startDate rc = CreateRecurringTransactionInput.start_date cinput"
    using rc by (auto simp add: RecurrenceConfig_create_def split: if_splits)
  have nx: "RecurringTransactionTemplate.next_occurrence t
      = CreateRecurringTransactionInput.start_date cinput"
    by (simp add: t_def CreateRecurring_createTemplate_def start)
  from run obtain generated where
    g: "CreateRecurring_generateOccurrences db1 (\<lambda>k. gen (Suc k)) now t
          (orThree (CreateRecurringTransactionInput.months_ahead cinput))
        = Some (Inr generated)"
    and fin: "(if CreateRecurringTransactionInput.create_first_transaction cinput
          then CreateRecurring_payFirst fmt txid t generated
          else Inr (\<lparr>template = t, occurrences = fst generated,
                 first_transaction = None\<rparr>, snd generated)) = Inr (cout, db')"
    by (auto simp add: CreateRecurringTransactionUseCase_execute_def acc rc v
        templateRepository_create_def t_def db1_def
        split: sum.splits option.splits if_splits)
  obtain ocs db2 where gen_eq: "generated = (ocs, db2)"
    by (cases generated)
  have r2: "recurringTemplate_rows db2 = recurringTemplate_rows db1"
    using CreateRecurring_generateOccurrences_template g gen_eq by blast
  have "CreateRecurringTransactionOutput.template cout = t
      \<and> recurringTemplate_rows db' = recurringTemplate_rows db2"
  proof (cases "CreateRecurringTransactionInput.create_first_transaction cinput")
    case True
    with fin gen_eq show ?thesis
      using CreateRecurring_payFirst_template [of fmt txid t ocs db2 cout db'] by simp
  next
    case False
    with fin gen_eq show ?thesis
      by auto
  qed
  with r2 nx show ?thesis
    by (simp add: db1_def)
qed

lemma CreateRecurring_generateOccurrences_loop_step:
  assumes "cur \<le> E" and "uuid (RecurringTransactionTemplate.id t)"
  shows "CreateRecurring_generateOccurrences_loop t E gen now cur acc =
      (if pastTemplateEnd t (recurrenceStep t cur)
       then Some (Inr (acc @ [\<lparr>RecurringOccurrence.id = gen (length acc),
            template_id = RecurringTransactionTemplate.id t, due_date = cur, status = PENDING,
            transaction_id = None, created_at = now, updated_at = now\<rparr>]))
       else CreateRecurring_generateOccurrences_loop t E gen now (recurrenceStep t cur)
         (acc @ [\<lparr>RecurringOccurrence.id = gen (length acc),
            template_id = RecurringTransactionTemplate.id t, due_date = cur, status = PENDING,
            transaction_id = None, created_at = now, updated_at = now\<rparr>]))"
  using assms(1)
  by (subst CreateRecurring_generateOccurrences_loop.simps)
    (simp add: RecurringOccurrence_create_ok [OF assms(2)] recurrenceStep_def)

lemma CreateRecurring_generateOccurrences_loop_stop:
  "E < cur \<Longrightarrow> CreateRecurring_generateOccurrences_loop t E gen now cur acc = Some (Inr acc)"
  by (subst CreateRecurring_generateOccurrences_loop.simps) simp


lemma example_uuids_0_3:
  "example_uuids 0 = ''123e4567-e89b-12d3-a456-426614110000''"
  "example_uuids 1 = ''123e4567-e89b-12d3-a456-426614110001''"
  "example_uuids 2 = ''123e4567-e89b-12d3-a456-426614110002''"
  "example_uuids 3 = ''123e4567-e89b-12d3-a456-426614110003''"
  by (simp_all add: example_uuids_def decimal.simps char_of_def bit_0)

lemma example_uuids_0_uuid: "uuid (example_uuids 0)"
  unfolding example_uuids_0_3 by code_simp

lemma scenario_C_created_steps:
  "recurrenceStep scenario_C_created 1705276800000 = 1707955200000"
  "recurrenceStep scenario_C_created 1707955200000 = 1710460800000"
  "recurrenceStep scenario_C_created 1710460800000 = 1713139200000"
  "calculateEndDate 1704067200000 scenario_C_created 3 = 1711929600000"
proof -
  have "recurrenceStep scenario_C_created d = recurrenceStep scenario_C_template d" for d
    by (simp add: recurrenceStep_def scenario_C_created_def)
  moreover have "calculateEndDate n scenario_C_created m
      = calculateEndDate n scenario_C_template m" for n m
    by (simp add: calculateEndDate_def scenario_C_created_def)
  ultimately show
    "recurrenceStep scenario_C_created 1705276800000 = 1707955200000"
    "recurrenceStep scenario_C_created 1707955200000 = 1710460800000"
    "recurrenceStep scenario_C_created 1710460800000 = 1713139200000"
    "calculateEndDate 1704067200000 scenario_C_created 3 = 1711929600000"
    by (simp_all add: scenario_C_steps)
qed

lemma scenario_C_create:
  "\<exists>ocs db'.
     CreateRecurringTransactionUseCase_execute fmt (example_database [] []) example_uuids
       txid 1704067200000 scenario_C_input
     = Some (Inr (\<lparr>template = scenario_C_created, occurrences = ocs,
                   first_transaction = None\<rparr>, db'))
     \<and> map RecurringOccurrence.due_date ocs = [1705276800000, 1707955200000, 1710460800000]"
proof -
  let ?db1 = "(example_database [] [])\<lparr>recurringTemplate_rows := [scenario_C_created]\<rparr>"
  let ?new = "[\<lparr>RecurringOccurrence.id = example_uuids 1, template_id = example_uuids 0,
       due_date = 1705276800000, status = PENDING, transaction_id = None,
       created_at = 1704067200000, updated_at = 1704067200000\<rparr>,
     \<lparr>RecurringOccurrence.id = example_uuids 2, template_id = example_uuids 0,
       due_date = 1707955200000, status = PENDING, transaction_id = None,
       created_at = 1704067200000, updated_at = 1704067200000\<rparr>,
     \<lparr>RecurringOccurrence.id = example_uuids 3, template_id = example_uuids 0,
       due_date = 1710460800000, status = PENDING, transaction_id = None,
       created_at = 1704067200000, updated_at = 1704067200000\<rparr>]"
  have u: "uuid (RecurringTransactionTemplate.id scenario_C_created)"
    using example_uuids_0_uuid by (simp add: scenario_C_created_def)
  have p: "\<not> pastTemplateEnd scenario_C_created d" for d
    by (simp add: pastTemplateEnd_def scenario_C_created_def scenario_C_template_def
        example_recurring_template_def)
  have f: "RecurringTransactionTemplate.next_occurrence scenario_C_created = 1705276800000"
    "RecurringTransactionTemplate.id scenario_C_created = example_uuids 0"
    by (simp_all add: scenario_C_created_def scenario_C_template_def
        example_recurring_template_def)
  have loop: "CreateRecurring_generateOccurrences_loop scenario_C_created
      (calculateEndDate 1704067200000 scenario_C_created 3)
      (\<lambda>k. example_uuids (Suc k)) 1704067200000
      (RecurringTransactionTemplate.next_occurrence scenario_C_created) [] = Some (Inr ?new)"
    unfolding scenario_C_created_steps f(1)
    by (simp add: CreateRecurring_generateOccurrences_loop_step [OF _ u]
        CreateRecurring_generateOccurrences_loop_stop
        scenario_C_created_steps p f(2) numeral_2_eq_2 numeral_3_eq_3)
  have g: "CreateRecurring_generateOccurrences ?db1 (\<lambda>k. example_uuids (Suc k))
      1704067200000 scenario_C_created 3
    = Some (Inr (?new, ?db1\<lparr>recurringOccurrence_rows := ?new\<rparr>))"
    unfolding CreateRecurring_generateOccurrences_def loop
    by (simp add: occurrenceRepository_createMany_def example_database_def)
  have t: "CreateRecurring_createTemplate (example_uuids 0) scenario_C_input
      \<lparr>RecurrenceConfig.frequency = MONTHLY, interval = 1, startDate = 1705276800000,
        endDate = None\<rparr> SHARED = scenario_C_created"
    by (simp add: CreateRecurring_createTemplate_def scenario_C_input_def
        scenario_C_created_def scenario_C_template_def example_recurring_template_def)
  have "CreateRecurringTransactionUseCase_execute fmt (example_database [] []) example_uuids
       txid 1704067200000 scenario_C_input
     = Some (Inr (\<lparr>template = scenario_C_created, occurrences = ?new,
                   first_transaction = None\<rparr>, ?db1\<lparr>recurringOccurrence_rows := ?new\<rparr>))"
    unfolding CreateRecurringTransactionUseCase_execute_def
    by (simp add: CreateRecurring_validateInput_def accountRepository_findById_def
        RecurrenceConfig_create_def templateRepository_create_def orThree_def
        scenario_C_input_def [THEN arg_cong, of CreateRecurringTransactionInput.months_ahead]
        scenario_C_input_def [THEN arg_cong, of CreateRecurringTransactionInput.amount]
        scenario_C_input_def [THEN arg_cong, of CreateRecurringTransactionInput.interval]
        scenario_C_input_def [THEN arg_cong, of CreateRecurringTransactionInput.end_date]
        scenario_C_input_def [THEN arg_cong, of CreateRecurringTransactionInput.start_date]
        scenario_C_input_def [THEN arg_cong, of CreateRecurringTransactionInput.frequency]
        scenario_C_input_def [THEN arg_cong, of CreateRecurringTransactionInput.account_id]
        scenario_C_input_def [THEN arg_cong, of CreateRecurringTransactionInput.visibility]
        scenario_C_input_def [THEN arg_cong,
          of CreateRecurringTransactionInput.create_first_transaction]
        example_database_def [THEN arg_cong, of account_rows]
        example_database_def [THEN arg_cong, of recurringTemplate_rows]
        t g)
  then show ?thesis
    by simp
qed



section \<open>The claims\<close>

subsection \<open>C3: paying and skipping an entry\<close>

text \<open>
  C3, as the code has it. \<open>markAsPaid\<close> succeeds exactly when the entry is PENDING and
  the transaction identifier is not empty, whether or not the entry is overdue (the
  overdue rule is applied by the settlement use cases, through \<open>canBePaid\<close>); it then
  sets the status to PAID and stores the identifier. On an entry that is not PENDING it
  fails with one error, the same for a paid and for a skipped entry; on a PENDING entry
  with an empty identifier it fails with the error of the missing identifier.
  \<open>markAsSkipped\<close> succeeds exactly when the entry is PENDING, and sets the status to
  SKIPPED. No sequence of calls of the two methods changes an entry that is PAID or
  SKIPPED. The same holds of installments and of occurrences.
\<close>

theorem markAsPaid_markAsSkipped_from_pending_only:
  "((\<exists>i'. Installment_markAsPaid i tid = Inr i')
      \<longleftrightarrow> Installment.status i = PENDING \<and> tid \<noteq> [])
   \<and> (Installment.status i = PENDING \<and> tid \<noteq> [] \<longrightarrow>
        Installment_markAsPaid i tid
          = Inr (i\<lparr>Installment.status := PAID, Installment.transaction_id := Some tid\<rparr>))
   \<and> (Installment.status i \<noteq> PENDING \<longrightarrow>
        Installment_markAsPaid i tid
          = Inl (Error ''Only pending installments can be marked as paid''))
   \<and> (Installment.status i = PENDING \<and> tid = [] \<longrightarrow>
        Installment_markAsPaid i tid
          = Inl (Error ''Transaction ID is required to mark as paid''))
   \<and> (Installment.status i = PENDING \<longrightarrow>
        Installment_markAsSkipped i = Inr (i\<lparr>Installment.status := SKIPPED\<rparr>))
   \<and> (Installment.status i \<noteq> PENDING \<longrightarrow>
        Installment_markAsSkipped i = Inl (Error ''Only pending installments can be skipped'')
        \<and> foldl Installment_call i calls = i)
   \<and> ((\<exists>oc'. RecurringOccurrence_markAsPaid oc tid = Inr oc')
      \<longleftrightarrow> RecurringOccurrence.status oc = PENDING \<and> tid \<noteq> [])
   \<and> (RecurringOccurrence.status oc = PENDING \<and> tid \<noteq> [] \<longrightarrow>
        RecurringOccurrence_markAsPaid oc tid
          = Inr (oc\<lparr>RecurringOccurrence.status := PAID,
                     RecurringOccurrence.transaction_id := Some tid\<rparr>))
   \<and> (RecurringOccurrence.status oc \<noteq> PENDING \<longrightarrow>
        RecurringOccurrence_markAsPaid oc tid
          = Inl (Error ''Only pending occurrences can be marked as paid''))
   \<and> (RecurringOccurrence.status oc = PENDING \<and> tid = [] \<longrightarrow>
        RecurringOccurrence_markAsPaid oc tid
          = Inl (Error ''Transaction ID is required to mark as paid''))
   \<and> (RecurringOccurrence.status oc = PENDING \<longrightarrow>
        RecurringOccurrence_markAsSkipped oc
          = Inr (oc\<lparr>RecurringOccurrence.status := SKIPPED\<rparr>))
   \<and> (RecurringOccurrence.status oc \<noteq> PENDING \<longrightarrow>
        RecurringOccurrence_markAsSkipped oc
          = Inl (Error ''Only pending occurrences can be skipped'')
        \<and> foldl RecurringOccurrence_call oc calls = oc)"
proof -
  have inst: "Installment.status i \<noteq> PENDING \<Longrightarrow> foldl Installment_call i calls = i"
    by (rule Installment_calls_settled)
  have occ: "RecurringOccurrence.status oc \<noteq> PENDING
      \<Longrightarrow> foldl RecurringOccurrence_call oc calls = oc"
    by (rule RecurringOccurrence_calls_settled)
  show ?thesis
    using inst occ
    by (simp add: Installment_markAsPaid_def Installment_markAsSkipped_def
        Installment_isPending_def RecurringOccurrence_markAsPaid_def
        RecurringOccurrence_markAsSkipped_def RecurringOccurrence_isPending_def)
qed

text \<open>The theorem of C3 on the entries of the examples.\<close>

theorem markAsPaid_markAsSkipped_from_pending_only_witness:
  "Installment_markAsPaid (example_installment 1706616000000 PENDING None)
       example_transaction_id
     = Inr (example_installment 1706616000000 PAID (Some example_transaction_id))
   \<and> Installment_markAsSkipped (example_installment 1706616000000 PENDING None)
     = Inr (example_installment 1706616000000 SKIPPED None)
   \<and> Installment_markAsPaid (example_installment 1706616000000 SKIPPED None)
       example_transaction_id
     = Inl (Error ''Only pending installments can be marked as paid'')
   \<and> Installment_markAsPaid (example_installment 1706616000000 PENDING None) []
     = Inl (Error ''Transaction ID is required to mark as paid'')
   \<and> foldl Installment_call
        (example_installment 1706616000000 PAID (Some example_transaction_id))
        [CallMarkAsSkipped, CallMarkAsPaid example_transaction_id]
     = example_installment 1706616000000 PAID (Some example_transaction_id)
   \<and> RecurringOccurrence_markAsPaid (example_occurrence 1706616000000 PENDING None)
       example_transaction_id
     = Inr (example_occurrence 1706616000000 PAID (Some example_transaction_id))
   \<and> RecurringOccurrence_markAsSkipped (example_occurrence 1706616000000 PAID
        (Some example_transaction_id))
     = Inl (Error ''Only pending occurrences can be skipped'')"
  using markAsPaid_markAsSkipped_from_pending_only
    [where i = "example_installment 1706616000000 PENDING None" and tid = example_transaction_id
       and oc = "example_occurrence 1706616000000 PENDING None" and calls = "[]"]
    markAsPaid_markAsSkipped_from_pending_only
    [where i = "example_installment 1706616000000 SKIPPED None" and tid = example_transaction_id
       and oc = "example_occurrence 1706616000000 PAID (Some example_transaction_id)" and calls = "[]"]
    markAsPaid_markAsSkipped_from_pending_only
    [where i = "example_installment 1706616000000 PENDING None" and tid = "[]"
       and oc = "example_occurrence 1706616000000 PENDING None" and calls = "[]"]
    markAsPaid_markAsSkipped_from_pending_only
    [where i = "example_installment 1706616000000 PAID (Some example_transaction_id)" and tid = "[]"
       and oc = "example_occurrence 1706616000000 PENDING None" and calls = "[CallMarkAsSkipped, CallMarkAsPaid example_transaction_id]"]
  by (simp add: example_installment_def example_occurrence_def example_transaction_id_def)

text \<open>
  C3 as stated fails: an installment due 31 days before the current date is PENDING and
  overdue, and \<open>markAsPaid\<close> pays it.
\<close>

theorem markAsPaid_ignores_overdue:
  "\<not> ((\<exists>i'. Installment_markAsPaid (example_installment 1706616000000 PENDING None)
              example_transaction_id = Inr i')
       \<longleftrightarrow> Installment.status (example_installment 1706616000000 PENDING None) = PENDING
           \<and> \<not> Installment_isOverdue example_now
                 (example_installment 1706616000000 PENDING None)
           \<and> example_transaction_id \<noteq> [])"
proof -
  have "Installment_isOverdue example_now (example_installment 1706616000000 PENDING None)"
    by code_simp
  moreover have "\<exists>i'. Installment_markAsPaid (example_installment 1706616000000 PENDING None)
              example_transaction_id = Inr i'"
    by (simp add: Installment_markAsPaid_def Installment_isPending_def
        example_installment_def example_transaction_id_def)
  ultimately show ?thesis by simp
qed

subsection \<open>C4: the overdue rule\<close>

text \<open>
  C4. \<open>isOverdue\<close> holds exactly when the start of the day of the due date is more
  than 30 days before the start of the current day; \<open>canBePaid\<close> is PENDING and not
  overdue. An entry due 31 days before now (\<open>setDate(getDate() - 31)\<close>, as the tests
  build it) is overdue and cannot be paid; a PENDING entry due 29 days before now can be
  paid. The same holds of installments and of occurrences.
\<close>

theorem isOverdue_more_than_30_days:
  "(Installment_isOverdue now i
      \<longleftrightarrow> 30 * msPerDay < setHours0 now - setHours0 (Installment.due_date i))
   \<and> (RecurringOccurrence_isOverdue now oc
      \<longleftrightarrow> 30 * msPerDay < setHours0 now - setHours0 (RecurringOccurrence.due_date oc))
   \<and> (Installment_canBePaid now i
      \<longleftrightarrow> Installment.status i = PENDING \<and> \<not> Installment_isOverdue now i)
   \<and> (RecurringOccurrence_canBePaid now oc
      \<longleftrightarrow> RecurringOccurrence.status oc = PENDING \<and> \<not> RecurringOccurrence_isOverdue now oc)
   \<and> (Installment.due_date i = setDate now (getDate now - 31)
      \<longrightarrow> Installment_isOverdue now i \<and> \<not> Installment_canBePaid now i)
   \<and> (RecurringOccurrence.due_date oc = setDate now (getDate now - 31)
      \<longrightarrow> RecurringOccurrence_isOverdue now oc \<and> \<not> RecurringOccurrence_canBePaid now oc)
   \<and> (Installment.due_date i = setDate now (getDate now - 29)
        \<and> Installment.status i = PENDING
      \<longrightarrow> Installment_canBePaid now i)
   \<and> (RecurringOccurrence.due_date oc = setDate now (getDate now - 29)
        \<and> RecurringOccurrence.status oc = PENDING
      \<longrightarrow> RecurringOccurrence_canBePaid now oc)"
proof -
  have d31: "(30 * msPerDay < setHours0 now - setHours0 (setDate now (getDate now - 31)))"
    unfolding daysAgo by (simp add: msPerDay_def)
  have d29: "\<not> (30 * msPerDay < setHours0 now - setHours0 (setDate now (getDate now - 29)))"
    unfolding daysAgo by (simp add: msPerDay_def)
  show ?thesis
    using d31 d29
    by (simp add: Installment_isOverdue_iff RecurringOccurrence_isOverdue_iff
        Installment_canBePaid_def RecurringOccurrence_canBePaid_def
        Installment_isPending_def RecurringOccurrence_isPending_def)
qed

text \<open>The theorem of C4 at noon of 2024-03-01, for entries due on 2024-01-30 and on
  2024-02-01.\<close>

theorem isOverdue_more_than_30_days_witness:
  "Installment_isOverdue example_now (example_installment 1706616000000 PENDING None)
   \<and> \<not> Installment_canBePaid example_now (example_installment 1706616000000 PENDING None)
   \<and> Installment_canBePaid example_now (example_installment 1706788800000 PENDING None)
   \<and> RecurringOccurrence_isOverdue example_now
        (example_occurrence 1706616000000 PENDING None)
   \<and> \<not> RecurringOccurrence_canBePaid example_now
        (example_occurrence 1706616000000 PENDING None)
   \<and> RecurringOccurrence_canBePaid example_now
        (example_occurrence 1706788800000 PENDING None)"
proof -
  have d31: "setDate example_now (getDate example_now - 31) = 1706616000000"
    by code_simp
  have d29: "setDate example_now (getDate example_now - 29) = 1706788800000"
    by code_simp
  have i31: "Installment.due_date (example_installment 1706616000000 PENDING None)
      = setDate example_now (getDate example_now - 31)"
    and o31: "RecurringOccurrence.due_date (example_occurrence 1706616000000 PENDING None)
      = setDate example_now (getDate example_now - 31)"
    by (simp_all add: d31 example_installment_def example_occurrence_def)
  have i29: "Installment.due_date (example_installment 1706788800000 PENDING None)
      = setDate example_now (getDate example_now - 29)
      \<and> Installment.status (example_installment 1706788800000 PENDING None) = PENDING"
    and o29: "RecurringOccurrence.due_date (example_occurrence 1706788800000 PENDING None)
      = setDate example_now (getDate example_now - 29)
      \<and> RecurringOccurrence.status (example_occurrence 1706788800000 PENDING None) = PENDING"
    by (simp_all add: d29 example_installment_def example_occurrence_def)
  show ?thesis
    using isOverdue_more_than_30_days
      [where now = example_now and i = "example_installment 1706616000000 PENDING None"
         and oc = "example_occurrence 1706616000000 PENDING None"]
      isOverdue_more_than_30_days
      [where now = example_now and i = "example_installment 1706788800000 PENDING None"
         and oc = "example_occurrence 1706788800000 PENDING None"]
      i31 o31 i29 o29
    by blast
qed

subsection \<open>C1: the amounts of the installments\<close>

text \<open>
  C1 does not hold of the code. The loop takes the unrounded quotient
  \<open>total / count\<close> for the first installments and
  \<open>total - quotient * (count - 1)\<close>, computed from the same unrounded quotient, for the
  last, and rounds each of them to two decimals: the last installment absorbs nothing
  of what the rounding of the others leaves. For a total of 100.00 in 3 installments
  the three amounts are the Number 33.33, not 33.33, 33.33 and 33.34, and their sum is
  99.99 (within \<open>10 ^ -13\<close>), not 100.
\<close>

theorem generateInstallments_100_by_3:
  "\<exists>is. generateInstallments (example_installment_template 100 3 1706745600000)
            example_uuids 1704067200000 = Inr is
     \<and> map Installment.amount is
         = [NumberValue (3333 / 100), NumberValue (3333 / 100), NumberValue (3333 / 100)]
     \<and> map Installment.amount is
         \<noteq> [NumberValue (3333 / 100), NumberValue (3333 / 100), NumberValue (3334 / 100)]
     \<and> \<bar>sum_list (map Installment.amount is) - 9999 / 100\<bar> < 1 / 10 ^ 13
     \<and> sum_list (map Installment.amount is) \<noteq> 100"
proof -
  let ?t = "example_installment_template 100 3 1706745600000"
  have f: "InstallmentTemplate.total_installments ?t = 3"
    "InstallmentTemplate.id ?t = example_template_id"
    by (simp_all add: example_installment_template_def)
  have r: "roundedAmount ?t 2 = NumberValue (3333 / 100)"
    using roundedAmount_regular [of 2 ?t] roundedAmount_regular [of 1 ?t] example_amounts(1)
    by (simp add: f)
  let ?is = "map (nthInstallment ?t example_uuids 1704067200000) [0..<3]"
  have run: "generateInstallments ?t example_uuids 1704067200000 = Inr ?is"
    using generateInstallments_run [of ?t example_uuids 1704067200000] example_template_uuid
    by (simp add: f example_amounts example_numbers)
  have amounts: "map Installment.amount ?is
      = [NumberValue (3333 / 100), NumberValue (3333 / 100), NumberValue (3333 / 100)]"
    by (simp add: nthInstallment_def upt_conv_Cons example_amounts r)
  have "map Installment.amount ?is
         \<noteq> [NumberValue (3333 / 100), NumberValue (3333 / 100), NumberValue (3334 / 100)]"
    "\<bar>sum_list (map Installment.amount ?is) - 9999 / 100\<bar> < 1 / 10 ^ 13"
    "sum_list (map Installment.amount ?is) \<noteq> 100"
    unfolding amounts example_numbers by simp_all
  with run amounts show ?thesis
    by (intro exI [of _ ?is] conjI)
qed


subsection \<open>C8: the installments of a template\<close>

text \<open>
  C8, as the code has it. Take an installment template whose identifier is a UUID,
  with 2 to 120 installments, a positive total below \<open>2 ^ 1000\<close> and due dates that
  are valid Dates. The installments 1 to \<open>count - 1\<close> all get the amount
  \<open>roundedAmount t 1\<close>, the quotient \<open>total / count\<close> rounded to two decimals; the last
  gets \<open>roundedAmount t count\<close>, the rounded \<open>total - quotient * (count - 1)\<close>; all in
  the arithmetic of Numbers. When both amounts are positive, \<open>generateInstallments\<close>
  returns exactly \<open>total_installments\<close> entries; the entry at place \<open>k\<close> (from 0) has
  \<open>installment_number = k + 1\<close>, its rounded amount, is due \<open>k\<close> calendar months after
  \<open>first_due_date\<close> (\<open>setMonth(getMonth() + k)\<close>), is PENDING and has no transaction.
  When one of the two amounts is not positive, the constructor of that installment
  refuses it and the generation fails. For a total of 1200.00 in 12 installments from
  2024-02-01, the 12 amounts are 100.00 and the due dates are the first of each month
  from 2024-02-01 to 2025-01-01. For a total of 0.04 in 8 installments the first seven
  amounts are 0.01, the last rounds to 0.00, and the generation fails.
\<close>

theorem generateInstallments_entries:
  assumes u: "uuid (InstallmentTemplate.id t)"
    and n: "2 \<le> InstallmentTemplate.total_installments t"
      "InstallmentTemplate.total_installments t \<le> 120"
    and a: "0 < InstallmentTemplate.total_amount t"
      "InstallmentTemplate.total_amount t < 2 ^ 1000"
    and d: "Date_isValid (InstallmentTemplate.first_due_date t)"
      "\<forall>k < nat (InstallmentTemplate.total_installments t).
         Date_isValid (setMonth (InstallmentTemplate.first_due_date t)
           (getMonth (InstallmentTemplate.first_due_date t) + int k))"
  shows "(0 < roundedAmount t 1
        \<and> 0 < roundedAmount t (InstallmentTemplate.total_installments t) \<longrightarrow>
      (\<exists>is. generateInstallments t gen now = Inr is
        \<and> int (length is) = InstallmentTemplate.total_installments t
        \<and> (\<forall>k < length is.
              Installment.installment_number (is ! k) = int k + 1
              \<and> Installment.amount (is ! k) = roundedAmount t (int k + 1)
              \<and> Installment.due_date (is ! k) =
                  setMonth (InstallmentTemplate.first_due_date t)
                    (getMonth (InstallmentTemplate.first_due_date t) + int k)
              \<and> Installment.status (is ! k) = PENDING
              \<and> Installment.transaction_id (is ! k) = None)))
    \<and> (roundedAmount t 1 \<le> 0
        \<or> roundedAmount t (InstallmentTemplate.total_installments t) \<le> 0 \<longrightarrow>
          generateInstallments t gen now = Inl ZodError)
    \<and> (\<forall>j. 1 \<le> j \<and> j < InstallmentTemplate.total_installments t \<longrightarrow>
          roundedAmount t j = roundedAmount t 1)
    \<and> (\<exists>is. generateInstallments (example_installment_template 1200 12 1706745600000)
                gen now = Inr is
          \<and> map Installment.amount is = replicate 12 100
          \<and> map Installment.installment_number is = [1, 2, 3, 4, 5, 6, 7, 8, 9, 10, 11, 12]
          \<and> map Installment.due_date is =
              [1706745600000, 1709251200000, 1711929600000, 1714521600000, 1717200000000,
               1719792000000, 1722470400000, 1725148800000, 1727740800000, 1730419200000,
               1733011200000, 1735689600000]
          \<and> list_all (\<lambda>i. Installment.status i = PENDING) is)
    \<and> 0 < roundedAmount
          (example_installment_template (NumberValue (4 / 100)) 8 1706745600000) 1
    \<and> generateInstallments
          (example_installment_template (NumberValue (4 / 100)) 8 1706745600000) gen now
        = Inl ZodError"
proof (intro conjI impI allI)
  assume pos: "0 < roundedAmount t 1
        \<and> 0 < roundedAmount t (InstallmentTemplate.total_installments t)"
  from n have n0: "0 \<le> InstallmentTemplate.total_installments t" by simp
  let ?is = "map (nthInstallment t gen now) [0..<nat (InstallmentTemplate.total_installments t)]"
  have "generateInstallments t gen now = Inr ?is"
    using generateInstallments_run [OF u n(1), of gen now] pos by simp
  moreover have "int (length ?is) = InstallmentTemplate.total_installments t"
    using n0 by simp
  moreover have "\<forall>k < length ?is.
      Installment.installment_number (?is ! k) = int k + 1
      \<and> Installment.amount (?is ! k) = roundedAmount t (int k + 1)
      \<and> Installment.due_date (?is ! k) =
          setMonth (InstallmentTemplate.first_due_date t)
            (getMonth (InstallmentTemplate.first_due_date t) + int k)
      \<and> Installment.status (?is ! k) = PENDING
      \<and> Installment.transaction_id (?is ! k) = None"
    by (simp add: nthInstallment_def)
  ultimately show "\<exists>is. generateInstallments t gen now = Inr is
        \<and> int (length is) = InstallmentTemplate.total_installments t
        \<and> (\<forall>k < length is.
              Installment.installment_number (is ! k) = int k + 1
              \<and> Installment.amount (is ! k) = roundedAmount t (int k + 1)
              \<and> Installment.due_date (is ! k) =
                  setMonth (InstallmentTemplate.first_due_date t)
                    (getMonth (InstallmentTemplate.first_due_date t) + int k)
              \<and> Installment.status (is ! k) = PENDING
              \<and> Installment.transaction_id (is ! k) = None)"
    by blast
next
  assume "roundedAmount t 1 \<le> 0
        \<or> roundedAmount t (InstallmentTemplate.total_installments t) \<le> 0"
  then have "\<not> (0 < roundedAmount t 1
        \<and> 0 < roundedAmount t (InstallmentTemplate.total_installments t))"
    by auto
  then show "generateInstallments t gen now = Inl ZodError"
    using generateInstallments_run [OF u n(1), of gen now] by simp
next
  fix j
  assume j: "1 \<le> j \<and> j < InstallmentTemplate.total_installments t"
  then have "j \<noteq> InstallmentTemplate.total_installments t" by simp
  moreover from n have "1 \<noteq> InstallmentTemplate.total_installments t" by simp
  ultimately show "roundedAmount t j = roundedAmount t 1"
    by (simp add: roundedAmount_regular)
next
  let ?t = "example_installment_template 1200 12 1706745600000"
  have f: "InstallmentTemplate.first_due_date ?t = 1706745600000"
    "InstallmentTemplate.total_installments ?t = 12"
    "InstallmentTemplate.id ?t = example_template_id"
    by (simp_all add: example_installment_template_def)
  have r: "roundedAmount ?t (int k + 1) = 100" for k
    using roundedAmount_regular [of "int k + 1" ?t] roundedAmount_regular [of 1 ?t]
      example_amounts(3,4) [of 1706745600000]
    by (cases "int k + 1 = 12") (simp_all add: f)
  have run: "generateInstallments ?t gen now = Inr (map (nthInstallment ?t gen now) [0..<12])"
    using generateInstallments_run [of ?t gen now] example_template_uuid
    by (simp add: f example_amounts)
  have dates: "map Installment.due_date (map (nthInstallment ?t gen now) [0..<12]) =
      map (\<lambda>k. setMonth 1706745600000 (getMonth 1706745600000 + int k)) [0..<12]"
    by (simp add: nthInstallment_def f comp_def del: upt_Suc)
  have numbers: "map Installment.installment_number (map (nthInstallment ?t gen now) [0..<12])
      = [1, 2, 3, 4, 5, 6, 7, 8, 9, 10, 11, 12]"
    by (simp add: nthInstallment_def upt_conv_Cons)
  have "map Installment.amount (map (nthInstallment ?t gen now) [0..<12])
      = map (\<lambda>k. 100) [0..<12]"
    by (simp add: nthInstallment_def r comp_def del: upt_Suc)
  then have amounts: "map Installment.amount (map (nthInstallment ?t gen now) [0..<12])
      = replicate 12 100"
    by (simp add: map_replicate_const)
  have pending: "list_all (\<lambda>i. Installment.status i = PENDING)
      (map (nthInstallment ?t gen now) [0..<12])"
    by (simp add: nthInstallment_def list_all_iff)
  show "\<exists>is. generateInstallments ?t gen now = Inr is
          \<and> map Installment.amount is = replicate 12 100
          \<and> map Installment.installment_number is = [1, 2, 3, 4, 5, 6, 7, 8, 9, 10, 11, 12]
          \<and> map Installment.due_date is =
              [1706745600000, 1709251200000, 1711929600000, 1714521600000, 1717200000000,
               1719792000000, 1722470400000, 1725148800000, 1727740800000, 1730419200000,
               1733011200000, 1735689600000]
          \<and> list_all (\<lambda>i. Installment.status i = PENDING) is"
    by (intro exI [of _ "map (nthInstallment ?t gen now) [0..<12]"] conjI
        run amounts numbers pending dates [unfolded scenario_A_dates])
next
  let ?t = "example_installment_template (NumberValue (4 / 100)) 8 1706745600000"
  show "0 < roundedAmount ?t 1"
    unfolding example_amounts by (simp add: example_numbers)
  have f: "InstallmentTemplate.total_installments ?t = 8"
    "InstallmentTemplate.id ?t = example_template_id"
    by (simp_all add: example_installment_template_def)
  have u8: "uuid (InstallmentTemplate.id ?t)" and n8: "2 \<le> InstallmentTemplate.total_installments ?t"
    using example_template_uuid by (simp_all only: f)
  show "generateInstallments ?t gen now = Inl ZodError"
    unfolding generateInstallments_run [OF u8 n8] f(1) example_amounts by simp
qed


text \<open>
  The theorem of C8 for 100.00 in 3 installments from 2024-01-31: the second is due on
  2024-03-02 and the third on 2024-03-31, as \<open>setMonth\<close> carries the 31st of a shorter
  month over.
\<close>

theorem generateInstallments_entries_witness:
  "\<exists>is. generateInstallments (example_installment_template 100 3 1706659200000)
            example_uuids 1704067200000 = Inr is
     \<and> int (length is) = 3
     \<and> map Installment.installment_number is = [1, 2, 3]
     \<and> map Installment.amount is
         = [NumberValue (3333 / 100), NumberValue (3333 / 100), NumberValue (3333 / 100)]
     \<and> map Installment.due_date is = [1706659200000, 1709337600000, 1711843200000]
     \<and> map Installment.status is = [PENDING, PENDING, PENDING]"
proof -
  let ?t = "example_installment_template 100 3 1706659200000"
  have f: "InstallmentTemplate.first_due_date ?t = 1706659200000"
    "InstallmentTemplate.total_installments ?t = 3"
    "InstallmentTemplate.total_amount ?t = 100"
    "InstallmentTemplate.id ?t = example_template_id"
    by (simp_all add: example_installment_template_def)
  have d: "setMonth 1706659200000 (getMonth 1706659200000 + int 0) = 1706659200000"
    "setMonth 1706659200000 (getMonth 1706659200000 + int 1) = 1709337600000"
    "setMonth 1706659200000 (getMonth 1706659200000 + int 2) = 1711843200000"
    by code_simp+
  have valid: "\<forall>k < nat (InstallmentTemplate.total_installments ?t).
         Date_isValid (setMonth (InstallmentTemplate.first_due_date ?t)
           (getMonth (InstallmentTemplate.first_due_date ?t) + int k))"
  proof (intro allI impI)
    fix k :: nat
    assume "k < nat (InstallmentTemplate.total_installments ?t)"
    then have "k = 0 \<or> k = 1 \<or> k = 2" by (simp add: f) arith
    then show "Date_isValid (setMonth (InstallmentTemplate.first_due_date ?t)
           (getMonth (InstallmentTemplate.first_due_date ?t) + int k))"
      unfolding f using d by (auto simp add: Date_isValid_def)
  qed
  have pos: "0 < roundedAmount ?t 1 \<and> 0 < roundedAmount ?t (InstallmentTemplate.total_installments ?t)"
    unfolding f example_amounts example_numbers by simp
  have r: "roundedAmount ?t (int k + 1) = NumberValue (3333 / 100)" if "k < 3" for k
  proof -
    from that have "k = 0 \<or> k = 1 \<or> k = 2" by arith
    moreover have "roundedAmount ?t 2 = roundedAmount ?t 1"
      by (simp add: roundedAmount_regular f)
    ultimately show ?thesis
      using example_amounts(1,2) [of 1706659200000] by auto
  qed
  from generateInstallments_entries [of ?t example_uuids 1704067200000, THEN conjunct1, THEN mp,
      OF _ _ _ _ _ _ valid pos]
    example_template_uuid
  obtain "is" where run: "generateInstallments ?t example_uuids 1704067200000 = Inr is"
    and len: "length is = 3"
    and each: "\<forall>k < length is.
              Installment.installment_number (is ! k) = int k + 1
              \<and> Installment.amount (is ! k) = roundedAmount ?t (int k + 1)
              \<and> Installment.due_date (is ! k) =
                  setMonth 1706659200000 (getMonth 1706659200000 + int k)
              \<and> Installment.status (is ! k) = PENDING
              \<and> Installment.transaction_id (is ! k) = None"
    by (auto simp add: f Date_isValid_def)
  from len obtain a b c where abc: "is = [a, b, c]"
    by (auto simp add: length_Suc_conv numeral_3_eq_3)
  from each [rule_format, of 0] each [rule_format, of 1] each [rule_format, of 2] d
    r [of 0] r [of 1] r [of 2]
  have "map Installment.installment_number is = [1, 2, 3]
     \<and> map Installment.amount is
         = [NumberValue (3333 / 100), NumberValue (3333 / 100), NumberValue (3333 / 100)]
     \<and> map Installment.due_date is = [1706659200000, 1709337600000, 1711843200000]
     \<and> map Installment.status is = [PENDING, PENDING, PENDING]"
    by (simp add: abc)
  with run len show ?thesis by simp
qed

text \<open>
  C8 as stated fails for a template of 0.01 in 3 installments: the amount of an
  installment rounds to 0.00, which \<open>Installment.create\<close> refuses.
\<close>

theorem generateInstallments_one_cent_by_3:
  "0 < InstallmentTemplate.total_amount
         (example_installment_template (NumberValue (1 / 100)) 3 1706745600000)
   \<and> InstallmentTemplate.total_installments
        (example_installment_template (NumberValue (1 / 100)) 3 1706745600000) = 3
   \<and> generateInstallments
        (example_installment_template (NumberValue (1 / 100)) 3 1706745600000)
        example_uuids 1704067200000 = Inl ZodError
   \<and> \<not> (\<exists>is. generateInstallments
              (example_installment_template (NumberValue (1 / 100)) 3 1706745600000)
              example_uuids 1704067200000 = Inr is \<and> length is = 3)"
proof -
  let ?t = "example_installment_template (NumberValue (1 / 100)) 3 1706745600000"
  have f: "InstallmentTemplate.total_installments ?t = 3"
    "InstallmentTemplate.id ?t = example_template_id"
    "InstallmentTemplate.total_amount ?t = NumberValue (1 / 100)"
    by (simp_all add: example_installment_template_def)
  have u3: "uuid (InstallmentTemplate.id ?t)"
    and n3: "2 \<le> InstallmentTemplate.total_installments ?t"
    using example_template_uuid by (simp_all only: f)
  have "generateInstallments ?t example_uuids 1704067200000 = Inl ZodError"
    unfolding generateInstallments_run [OF u3 n3] f(1) example_amounts by simp
  moreover have "0 < InstallmentTemplate.total_amount ?t"
    unfolding f by (simp add: example_numbers)
  ultimately show ?thesis
    by (simp only: f) simp
qed

subsection \<open>C7: the due dates generated and the horizon\<close>

text \<open>
  C7. For an active template of the store (its interval at least 1, its identifier a
  UUID), \<open>execute\<close> returns, and saves new occurrences whose due dates are the cursors
  \<open>cursorAt t 0, cursorAt t 1, \<dots>\<close> up to the last one not after the horizon, without
  those whose day already has a stored occurrence: the first cursor is
  \<open>next_occurrence\<close>, each next one is a recurrence step later (DAILY: \<open>interval\<close>
  days, WEEKLY: \<open>interval * 7\<close> days, MONTHLY: \<open>setMonth(getMonth() + interval)\<close>,
  YEARLY: \<open>setFullYear(getFullYear() + interval)\<close>); every due date generated is at
  most the horizon \<open>min(now + monthsAhead months, end_date)\<close>, and the first cursor
  not used is after the horizon. For the monthly template from 2024-01-15 with no end
  date, three months ahead on 2024-01-01, the occurrences are due on 2024-01-15,
  2024-02-15 and 2024-03-15.
\<close>

theorem generation_dates_within_horizon:
  assumes found: "templateRepository_findById db
        (GenerateRecurringOccurrencesInput.template_id input) = Some t"
    and active: "RecurringTransactionTemplate.is_active t"
    and intv: "1 \<le> RecurringTransactionTemplate.interval t"
    and u: "uuid (RecurringTransactionTemplate.id t)"
  shows "(\<exists>n new out.
        GenerateRecurringOccurrencesUseCase_execute db gen now input =
          Some (Inr (out, db\<lparr>recurringOccurrence_rows := recurringOccurrence_rows db @ new\<rparr>))
        \<and> map RecurringOccurrence.due_date new =
            filter (\<lambda>d. toISODate d \<notin> storedDates db t) (map (cursorAt t) [0..<n])
        \<and> (\<forall>k<n. cursorAt t k \<le> generationHorizon now t
              (orThree (GenerateRecurringOccurrencesInput.months_ahead input)))
        \<and> generationHorizon now t
              (orThree (GenerateRecurringOccurrencesInput.months_ahead input)) < cursorAt t n
        \<and> (\<forall>oc \<in> set new. RecurringOccurrence.due_date oc \<le> generationHorizon now t
              (orThree (GenerateRecurringOccurrencesInput.months_ahead input))))
    \<and> cursorAt t 0 = RecurringTransactionTemplate.next_occurrence t
    \<and> (\<forall>k. cursorAt t (Suc k) =
          (case RecurringTransactionTemplate.frequency t of
             DAILY \<Rightarrow> cursorAt t k + RecurringTransactionTemplate.interval t * msPerDay
           | WEEKLY \<Rightarrow> cursorAt t k + RecurringTransactionTemplate.interval t * 7 * msPerDay
           | MONTHLY \<Rightarrow> setMonth (cursorAt t k)
               (getMonth (cursorAt t k) + RecurringTransactionTemplate.interval t)
           | YEARLY \<Rightarrow> setFullYear (cursorAt t k)
               (getFullYear (cursorAt t k) + RecurringTransactionTemplate.interval t)))
    \<and> GenerateRecurringOccurrencesUseCase_execute (example_database [scenario_C_template] [])
          gen 1704067200000
          \<lparr>GenerateRecurringOccurrencesInput.template_id = example_template_id,
           months_ahead = Some 3\<rparr>
        = Some (Inr
           (\<lparr>GenerateRecurringOccurrencesOutput.template = scenario_C_template,
             occurrences =
               [scenario_C_occurrence gen 0 1705276800000,
                scenario_C_occurrence gen 1 1707955200000,
                scenario_C_occurrence gen 2 1710460800000]\<rparr>,
            example_database [scenario_C_template]
               [scenario_C_occurrence gen 0 1705276800000,
                scenario_C_occurrence gen 1 1707955200000,
                scenario_C_occurrence gen 2 1710460800000]))"
proof (intro conjI)
  let ?H = "generationHorizon now t (orThree (GenerateRecurringOccurrencesInput.months_ahead input))"
  from execute_dates [OF found active intv u, of gen now]
  obtain n new out where
    run: "GenerateRecurringOccurrencesUseCase_execute db gen now input =
        Some (Inr (out, db\<lparr>recurringOccurrence_rows := recurringOccurrence_rows db @ new\<rparr>))"
    and dates: "map RecurringOccurrence.due_date new =
          filter (\<lambda>d. toISODate d \<notin> storedDates db t) (map (cursorAt t) [0..<n])"
    and below: "\<forall>k<n. cursorAt t k \<le> ?H" and stop: "?H < cursorAt t n"
    by blast
  have "\<forall>oc \<in> set new. RecurringOccurrence.due_date oc \<le> ?H"
  proof
    fix oc assume "oc \<in> set new"
    then have "RecurringOccurrence.due_date oc \<in> set (map RecurringOccurrence.due_date new)"
      by simp
    then have "RecurringOccurrence.due_date oc \<in> set (map (cursorAt t) [0..<n])"
      unfolding dates by simp
    with below show "RecurringOccurrence.due_date oc \<le> ?H" by auto
  qed
  with run dates below stop
  show "\<exists>n new out.
        GenerateRecurringOccurrencesUseCase_execute db gen now input =
          Some (Inr (out, db\<lparr>recurringOccurrence_rows := recurringOccurrence_rows db @ new\<rparr>))
        \<and> map RecurringOccurrence.due_date new =
            filter (\<lambda>d. toISODate d \<notin> storedDates db t) (map (cursorAt t) [0..<n])
        \<and> (\<forall>k<n. cursorAt t k \<le> ?H) \<and> ?H < cursorAt t n
        \<and> (\<forall>oc \<in> set new. RecurringOccurrence.due_date oc \<le> ?H)"
    by blast
next
  show "cursorAt t 0 = RecurringTransactionTemplate.next_occurrence t"
    by (simp add: cursorAt_def)
next
  show "\<forall>k. cursorAt t (Suc k) =
          (case RecurringTransactionTemplate.frequency t of
             DAILY \<Rightarrow> cursorAt t k + RecurringTransactionTemplate.interval t * msPerDay
           | WEEKLY \<Rightarrow> cursorAt t k + RecurringTransactionTemplate.interval t * 7 * msPerDay
           | MONTHLY \<Rightarrow> setMonth (cursorAt t k)
               (getMonth (cursorAt t k) + RecurringTransactionTemplate.interval t)
           | YEARLY \<Rightarrow> setFullYear (cursorAt t k)
               (getFullYear (cursorAt t k) + RecurringTransactionTemplate.interval t))"
  proof
    fix k
    have "cursorAt t (Suc k) = recurrenceStep t (cursorAt t k)"
      by (simp add: cursorAt_def)
    then show "cursorAt t (Suc k) =
          (case RecurringTransactionTemplate.frequency t of
             DAILY \<Rightarrow> cursorAt t k + RecurringTransactionTemplate.interval t * msPerDay
           | WEEKLY \<Rightarrow> cursorAt t k + RecurringTransactionTemplate.interval t * 7 * msPerDay
           | MONTHLY \<Rightarrow> setMonth (cursorAt t k)
               (getMonth (cursorAt t k) + RecurringTransactionTemplate.interval t)
           | YEARLY \<Rightarrow> setFullYear (cursorAt t k)
               (getFullYear (cursorAt t k) + RecurringTransactionTemplate.interval t))"
      by (simp only: recurrenceStep_cases)
  qed
next
  show "GenerateRecurringOccurrencesUseCase_execute (example_database [scenario_C_template] [])
          gen 1704067200000
          \<lparr>GenerateRecurringOccurrencesInput.template_id = example_template_id,
           months_ahead = Some 3\<rparr>
        = Some (Inr
           (\<lparr>GenerateRecurringOccurrencesOutput.template = scenario_C_template,
             occurrences =
               [scenario_C_occurrence gen 0 1705276800000,
                scenario_C_occurrence gen 1 1707955200000,
                scenario_C_occurrence gen 2 1710460800000]\<rparr>,
            example_database [scenario_C_template]
               [scenario_C_occurrence gen 0 1705276800000,
                scenario_C_occurrence gen 1 1707955200000,
                scenario_C_occurrence gen 2 1710460800000]))"
    by (rule scenario_C_execute)
qed

text \<open>The general part of the theorem of C7 on scenario C: the horizon is 2024-04-01.\<close>

theorem generation_dates_within_horizon_witness:
  "\<exists>n new out.
      GenerateRecurringOccurrencesUseCase_execute (example_database [scenario_C_template] [])
          example_uuids 1704067200000
          \<lparr>GenerateRecurringOccurrencesInput.template_id = example_template_id,
           months_ahead = Some 3\<rparr> =
        Some (Inr (out, example_database [scenario_C_template] new))
      \<and> map RecurringOccurrence.due_date new = map (cursorAt scenario_C_template) [0..<n]
      \<and> (\<forall>k<n. cursorAt scenario_C_template k \<le> 1711929600000)
      \<and> 1711929600000 < cursorAt scenario_C_template n
      \<and> (\<forall>oc \<in> set new. RecurringOccurrence.due_date oc \<le> 1711929600000)"
proof -
  let ?db = "example_database [scenario_C_template] []"
  let ?input = "\<lparr>GenerateRecurringOccurrencesInput.template_id = example_template_id,
       months_ahead = Some 3\<rparr>"
  have found: "templateRepository_findById ?db
      (GenerateRecurringOccurrencesInput.template_id ?input) = Some scenario_C_template"
    by (simp add: templateRepository_findById_def example_database_def
        scenario_C_template_def example_recurring_template_def)
  have active: "RecurringTransactionTemplate.is_active scenario_C_template"
    and intv: "1 \<le> RecurringTransactionTemplate.interval scenario_C_template"
    and u: "uuid (RecurringTransactionTemplate.id scenario_C_template)"
    using example_template_uuid
    by (simp_all add: scenario_C_template_def example_recurring_template_def)
  have h: "generationHorizon 1704067200000 scenario_C_template
      (orThree (GenerateRecurringOccurrencesInput.months_ahead ?input)) = 1711929600000"
    using scenario_C_steps(4) by (simp add: generationHorizon_eq orThree_def)
  have none: "storedDates ?db scenario_C_template = {}"
    by (simp add: storedDates_def example_database_def)
  have db: "?db\<lparr>recurringOccurrence_rows := recurringOccurrence_rows ?db @ new\<rparr>
      = example_database [scenario_C_template] new" for new
    by (simp add: example_database_def)
  from generation_dates_within_horizon
    [OF found active intv u, of example_uuids 1704067200000, THEN conjunct1]
  show ?thesis
    unfolding h none db by simp
qed

subsection \<open>C2: running the generation again\<close>

text \<open>
  C2. Generation is idempotent. If \<open>generateNewOccurrences\<close> is run for a template
  with no existing occurrence and returns the occurrences \<open>out\<close>, then a second run
  for the same template, the same number of months ahead and the same current date,
  with \<open>out\<close> as the existing occurrences, returns and emits no occurrence at all
  (whatever identifiers it would draw). The first run does return for every template
  whose interval is at least 1 and whose identifier is a UUID.
\<close>

theorem generation_rerun_emits_nothing:
  "(generateNewOccurrences t [] m gen now = Some (Inr out)
      \<longrightarrow> generateNewOccurrences t out m gen2 now = Some (Inr []))
   \<and> (1 \<le> RecurringTransactionTemplate.interval t \<and> uuid (RecurringTransactionTemplate.id t)
      \<longrightarrow> (\<exists>out. generateNewOccurrences t [] m gen now = Some (Inr out)))"
proof (intro conjI impI)
  assume first: "generateNewOccurrences t [] m gen now = Some (Inr out)"
  then have "generateOccurrences_loop t [] (calculateEndDate now t m) gen now
      (RecurringTransactionTemplate.next_occurrence t) [] = Some (Inr out)"
    by (simp add: generateNewOccurrences_def)
  from generateOccurrences_loop_rerun [OF this]
  have "generateOccurrences_loop t
      (map (\<lambda>oc. toISODate (RecurringOccurrence.due_date oc)) out)
      (calculateEndDate now t m) gen2 now
      (RecurringTransactionTemplate.next_occurrence t) [] = Some (Inr [])"
    by simp
  then show "generateNewOccurrences t out m gen2 now = Some (Inr [])"
    by (simp add: generateNewOccurrences_def)
next
  assume "1 \<le> RecurringTransactionTemplate.interval t
    \<and> uuid (RecurringTransactionTemplate.id t)"
  then show "\<exists>out. generateNewOccurrences t [] m gen now = Some (Inr out)"
    using generateNewOccurrences_total [of t "[]" m gen now] by blast
qed

text \<open>The theorem of C2 on scenario C: the three occurrences, then none.\<close>

theorem generation_rerun_emits_nothing_witness:
  "generateNewOccurrences scenario_C_template [] 3 example_uuids 1704067200000 =
     Some (Inr [scenario_C_occurrence example_uuids 0 1705276800000,
                scenario_C_occurrence example_uuids 1 1707955200000,
                scenario_C_occurrence example_uuids 2 1710460800000])
   \<and> generateNewOccurrences scenario_C_template
       [scenario_C_occurrence example_uuids 0 1705276800000,
        scenario_C_occurrence example_uuids 1 1707955200000,
        scenario_C_occurrence example_uuids 2 1710460800000]
       3 example_uuids 1704067200000 = Some (Inr [])"
  using generation_rerun_emits_nothing
    [of scenario_C_template 3 example_uuids 1704067200000
        "[scenario_C_occurrence example_uuids 0 1705276800000,
          scenario_C_occurrence example_uuids 1 1707955200000,
          scenario_C_occurrence example_uuids 2 1710460800000]" example_uuids]
    scenario_C_new [of example_uuids]
  by simp

subsection \<open>C5: settling an entry\<close>

text \<open>
  C5. Settling a stored entry (\<open>PayInstallmentUseCase.execute\<close> for an installment,
  \<open>PayRecurringOccurrenceUseCase.execute\<close> for an occurrence). When \<open>canBePaid()\<close> is
  false the call fails with the message of the reason: already paid, skipped, or
  overdue; one of the three holds, so the generic message is never the answer. When
  the entry can be paid, its template is found and the ledger gives the transaction a
  non-empty identifier, the call succeeds. Whenever the call succeeds, the entry could
  be paid, the date of the transaction created is the \<open>transaction_date\<close> supplied, or
  the \<open>due_date\<close> of the entry when none is supplied, its amount is the amount of the
  installment (for an occurrence, the amount of its template), and the entry returned
  and the entry stored are the entry with status PAID and \<open>transaction_id\<close> the
  identifier of the new transaction.
\<close>

theorem settlement_refusal_and_result:
  "(installmentRepository_findById db (installment_id input) = Some inst \<longrightarrow>
      (\<not> Installment_canBePaid now inst \<longrightarrow>
         PayInstallmentUseCase_execute db txid now input =
           Inl (Error
             (if Installment.status inst = PAID then ''Installment is already paid''
              else if Installment.status inst = SKIPPED
                then ''Cannot pay skipped installment''
              else ''Cannot pay overdue installment (>30 days past due)''))
         \<and> (Installment.status inst = PAID \<or> Installment.status inst = SKIPPED
              \<or> Installment_isOverdue now inst))
    \<and> (Installment_canBePaid now inst \<and> txid \<noteq> []
         \<and> installmentTemplateRepository_findById db (Installment.template_id inst) = Some t
         \<longrightarrow> (\<exists>out db'. PayInstallmentUseCase_execute db txid now input = Inr (out, db')))
    \<and> (\<forall>out db'. PayInstallmentUseCase_execute db txid now input = Inr (out, db') \<longrightarrow>
          Installment_canBePaid now inst
          \<and> Transaction.transaction_date (PayInstallmentOutput.transaction out) =
              (case PayInstallmentInput.transaction_date input of
                 Some d \<Rightarrow> d | None \<Rightarrow> Installment.due_date inst)
          \<and> Transaction.amount (PayInstallmentOutput.transaction out) = Installment.amount inst
          \<and> installment out =
              inst\<lparr>Installment.status := PAID,
                   Installment.transaction_id :=
                     Some (Transaction.id (PayInstallmentOutput.transaction out))\<rparr>
          \<and> installmentRepository_findById db' (installment_id input) =
              Some (installment out)))
   \<and> (occurrenceRepository_findById db (occurrence_id oinput) = Some oc \<longrightarrow>
      (\<not> RecurringOccurrence_canBePaid now oc \<longrightarrow>
         PayRecurringOccurrenceUseCase_execute fmt db txid now oinput =
           Inl (Error
             (if RecurringOccurrence.status oc = PAID then ''Occurrence is already paid''
              else if RecurringOccurrence.status oc = SKIPPED
                then ''Cannot pay skipped occurrence''
              else ''Cannot pay overdue occurrence (>30 days past due)''))
         \<and> (RecurringOccurrence.status oc = PAID \<or> RecurringOccurrence.status oc = SKIPPED
              \<or> RecurringOccurrence_isOverdue now oc))
    \<and> (RecurringOccurrence_canBePaid now oc \<and> txid \<noteq> []
         \<and> templateRepository_findById db (RecurringOccurrence.template_id oc) = Some rt
         \<longrightarrow> (\<exists>out db'.
               PayRecurringOccurrenceUseCase_execute fmt db txid now oinput = Inr (out, db')))
    \<and> (\<forall>out db'.
          PayRecurringOccurrenceUseCase_execute fmt db txid now oinput = Inr (out, db') \<longrightarrow>
          RecurringOccurrence_canBePaid now oc
          \<and> Transaction.transaction_date (PayRecurringOccurrenceOutput.transaction out) =
              (case PayRecurringOccurrenceInput.transaction_date oinput of
                 Some d \<Rightarrow> d | None \<Rightarrow> RecurringOccurrence.due_date oc)
          \<and> (\<exists>rt'. templateRepository_findById db (RecurringOccurrence.template_id oc)
                     = Some rt'
                \<and> Transaction.amount (PayRecurringOccurrenceOutput.transaction out) =
                    RecurringTransactionTemplate.amount rt')
          \<and> occurrence out =
              oc\<lparr>RecurringOccurrence.status := PAID,
                 RecurringOccurrence.transaction_id :=
                   Some (Transaction.id (PayRecurringOccurrenceOutput.transaction out))\<rparr>
          \<and> occurrenceRepository_findById db' (occurrence_id oinput) = Some (occurrence out)))"
proof (intro conjI impI allI)
  assume found: "installmentRepository_findById db (installment_id input) = Some inst"
    and no: "\<not> Installment_canBePaid now inst"
  show "PayInstallmentUseCase_execute db txid now input =
           Inl (Error
             (if Installment.status inst = PAID then ''Installment is already paid''
              else if Installment.status inst = SKIPPED
                then ''Cannot pay skipped installment''
              else ''Cannot pay overdue installment (>30 days past due)''))"
    by (rule PayInstallment_refused [OF found no])
  show "Installment.status inst = PAID \<or> Installment.status inst = SKIPPED
          \<or> Installment_isOverdue now inst"
    using Installment_not_canBePaid [OF no] by blast
next
  assume found: "installmentRepository_findById db (installment_id input) = Some inst"
    and ok: "Installment_canBePaid now inst \<and> txid \<noteq> []
       \<and> installmentTemplateRepository_findById db (Installment.template_id inst) = Some t"
  from ok PayInstallment_paid [OF found, of now t txid]
  show "\<exists>out db'. PayInstallmentUseCase_execute db txid now input = Inr (out, db')"
    by blast
next
  fix out db'
  assume found: "installmentRepository_findById db (installment_id input) = Some inst"
    and run: "PayInstallmentUseCase_execute db txid now input = Inr (out, db')"
  from PayInstallment_success_only [OF found run]
  obtain t where can: "Installment_canBePaid now inst" and txid: "txid \<noteq> []"
    and t: "installmentTemplateRepository_findById db (Installment.template_id inst) = Some t"
    by blast
  from PayInstallment_paid [OF found can t txid] run
  have "Transaction.transaction_date (PayInstallmentOutput.transaction out) =
              (case PayInstallmentInput.transaction_date input of
                 Some d \<Rightarrow> d | None \<Rightarrow> Installment.due_date inst)
      \<and> Transaction.amount (PayInstallmentOutput.transaction out) = Installment.amount inst
      \<and> installment out =
              inst\<lparr>Installment.status := PAID,
                   Installment.transaction_id :=
                     Some (Transaction.id (PayInstallmentOutput.transaction out))\<rparr>
      \<and> installmentRepository_findById db' (installment_id input) =
              Some (installment out)"
    by auto
  with can show "Installment_canBePaid now inst"
    and "Transaction.transaction_date (PayInstallmentOutput.transaction out) =
              (case PayInstallmentInput.transaction_date input of
                 Some d \<Rightarrow> d | None \<Rightarrow> Installment.due_date inst)"
    and "Transaction.amount (PayInstallmentOutput.transaction out) = Installment.amount inst"
    and "installment out =
              inst\<lparr>Installment.status := PAID,
                   Installment.transaction_id :=
                     Some (Transaction.id (PayInstallmentOutput.transaction out))\<rparr>"
    and "installmentRepository_findById db' (installment_id input) =
              Some (installment out)"
    by simp_all
next
  assume found: "occurrenceRepository_findById db (occurrence_id oinput) = Some oc"
    and no: "\<not> RecurringOccurrence_canBePaid now oc"
  show "PayRecurringOccurrenceUseCase_execute fmt db txid now oinput =
           Inl (Error
             (if RecurringOccurrence.status oc = PAID then ''Occurrence is already paid''
              else if RecurringOccurrence.status oc = SKIPPED
                then ''Cannot pay skipped occurrence''
              else ''Cannot pay overdue occurrence (>30 days past due)''))"
    by (rule PayRecurringOccurrence_refused [OF found no])
  show "RecurringOccurrence.status oc = PAID \<or> RecurringOccurrence.status oc = SKIPPED
          \<or> RecurringOccurrence_isOverdue now oc"
    using RecurringOccurrence_not_canBePaid [OF no] by blast
next
  assume found: "occurrenceRepository_findById db (occurrence_id oinput) = Some oc"
    and ok: "RecurringOccurrence_canBePaid now oc \<and> txid \<noteq> []
       \<and> templateRepository_findById db (RecurringOccurrence.template_id oc) = Some rt"
  from ok PayRecurringOccurrence_paid [OF found, of now rt txid fmt]
  show "\<exists>out db'.
      PayRecurringOccurrenceUseCase_execute fmt db txid now oinput = Inr (out, db')"
    by blast
next
  fix out db'
  assume found: "occurrenceRepository_findById db (occurrence_id oinput) = Some oc"
    and run: "PayRecurringOccurrenceUseCase_execute fmt db txid now oinput = Inr (out, db')"
  from PayRecurringOccurrence_success_only [OF found run]
  obtain t where can: "RecurringOccurrence_canBePaid now oc" and txid: "txid \<noteq> []"
    and t: "templateRepository_findById db (RecurringOccurrence.template_id oc) = Some t"
    by blast
  from PayRecurringOccurrence_paid [OF found can t txid, of fmt] run
  have "Transaction.transaction_date (PayRecurringOccurrenceOutput.transaction out) =
              (case PayRecurringOccurrenceInput.transaction_date oinput of
                 Some d \<Rightarrow> d | None \<Rightarrow> RecurringOccurrence.due_date oc)
      \<and> Transaction.amount (PayRecurringOccurrenceOutput.transaction out) =
                    RecurringTransactionTemplate.amount t
      \<and> occurrence out =
              oc\<lparr>RecurringOccurrence.status := PAID,
                 RecurringOccurrence.transaction_id :=
                   Some (Transaction.id (PayRecurringOccurrenceOutput.transaction out))\<rparr>
      \<and> occurrenceRepository_findById db' (occurrence_id oinput) = Some (occurrence out)"
    by auto
  with can t show "RecurringOccurrence_canBePaid now oc"
    and "Transaction.transaction_date (PayRecurringOccurrenceOutput.transaction out) =
              (case PayRecurringOccurrenceInput.transaction_date oinput of
                 Some d \<Rightarrow> d | None \<Rightarrow> RecurringOccurrence.due_date oc)"
    and "\<exists>rt'. templateRepository_findById db (RecurringOccurrence.template_id oc)
                     = Some rt'
                \<and> Transaction.amount (PayRecurringOccurrenceOutput.transaction out) =
                    RecurringTransactionTemplate.amount rt'"
    and "occurrence out =
              oc\<lparr>RecurringOccurrence.status := PAID,
                 RecurringOccurrence.transaction_id :=
                   Some (Transaction.id (PayRecurringOccurrenceOutput.transaction out))\<rparr>"
    and "occurrenceRepository_findById db' (occurrence_id oinput) = Some (occurrence out)"
    by simp_all
qed


text \<open>The theorem of C5 on scenario D: the installment settled with no date given, the
  occurrence settled with the date 2024-03-01, and an installment due on 2024-01-01
  refused as overdue on 2024-03-01.\<close>

theorem settlement_refusal_and_result_witness:
  "(\<exists>out db'.
      PayInstallmentUseCase_execute scenario_D_database example_transaction_id example_now
        \<lparr>installment_id = example_entry_id, transaction_date = None\<rparr> = Inr (out, db')
      \<and> Transaction.transaction_date (PayInstallmentOutput.transaction out) = 1709337600000
      \<and> Transaction.amount (PayInstallmentOutput.transaction out) = 201 / 2
      \<and> Installment.status (installment out) = PAID
      \<and> Installment.transaction_id (installment out) =
          Some (Transaction.id (PayInstallmentOutput.transaction out))
      \<and> installmentRepository_findById db' example_entry_id = Some (installment out))
   \<and> (\<exists>out db'.
      PayRecurringOccurrenceUseCase_execute (\<lambda>d. ''2024'') scenario_D_database
        example_transaction_id example_now
        \<lparr>occurrence_id = example_entry_id, transaction_date = Some 1709294400000\<rparr>
        = Inr (out, db')
      \<and> Transaction.transaction_date (PayRecurringOccurrenceOutput.transaction out)
          = 1709294400000
      \<and> Transaction.amount (PayRecurringOccurrenceOutput.transaction out) = 1500
      \<and> RecurringOccurrence.status (occurrence out) = PAID
      \<and> RecurringOccurrence.transaction_id (occurrence out) =
          Some (Transaction.id (PayRecurringOccurrenceOutput.transaction out))
      \<and> occurrenceRepository_findById db' example_entry_id = Some (occurrence out))
   \<and> PayInstallmentUseCase_execute
        (scenario_D_database
           \<lparr>installment_rows := [example_installment 1704067200000 PENDING None]\<rparr>)
        example_transaction_id example_now
        \<lparr>installment_id = example_entry_id, transaction_date = None\<rparr>
      = Inl (Error ''Cannot pay overdue installment (>30 days past due)'')"
proof (intro conjI)
  let ?input = "\<lparr>installment_id = example_entry_id, transaction_date = None\<rparr>"
  let ?oinput = "\<lparr>occurrence_id = example_entry_id,
    transaction_date = Some (1709294400000 :: int)\<rparr>"
  let ?inst = "example_installment 1709337600000 PENDING None"
  let ?late = "example_installment 1704067200000 PENDING None"
  let ?oc = "example_occurrence 1710460800000 PENDING None"
  let ?t = "example_installment_template 1206 12 1709337600000"
  have found: "installmentRepository_findById scenario_D_database (installment_id ?input)
      = Some ?inst"
    by (simp add: installmentRepository_findById_def scenario_D_database_def
        example_installment_def)
  have ofound: "occurrenceRepository_findById scenario_D_database (occurrence_id ?oinput)
      = Some ?oc"
    by (simp add: occurrenceRepository_findById_def scenario_D_database_def
        example_database_def example_occurrence_def)
  have lfound: "installmentRepository_findById
      (scenario_D_database\<lparr>installment_rows := [?late]\<rparr>) (installment_id ?input)
      = Some ?late"
    by (simp add: installmentRepository_findById_def example_installment_def)
  have can: "Installment_canBePaid example_now ?inst"
    by code_simp
  have ocan: "RecurringOccurrence_canBePaid example_now ?oc"
    by code_simp
  have late: "\<not> Installment_canBePaid example_now ?late"
    by code_simp
  have st: "Installment.status ?late = PENDING"
    by (simp add: example_installment_def)
  have txid: "example_transaction_id \<noteq> []"
    by (simp add: example_transaction_id_def)
  have t: "installmentTemplateRepository_findById scenario_D_database
      (Installment.template_id ?inst) = Some ?t"
    by (simp add: installmentTemplateRepository_findById_def scenario_D_database_def
        example_database_def example_installment_def example_installment_template_def)
  have rt: "templateRepository_findById scenario_D_database
      (RecurringOccurrence.template_id ?oc) = Some scenario_C_template"
    by (simp add: templateRepository_findById_def scenario_D_database_def
        example_database_def example_occurrence_def scenario_C_template_def
        example_recurring_template_def)
  note T = settlement_refusal_and_result
    [where db = scenario_D_database and input = ?input and inst = ?inst
       and now = example_now and txid = example_transaction_id and t = ?t
       and oinput = ?oinput and oc = ?oc and fmt = "\<lambda>d. ''2024''"
       and rt = scenario_C_template]
  note L = settlement_refusal_and_result
    [where db = "scenario_D_database\<lparr>installment_rows := [?late]\<rparr>"
       and input = ?input and inst = ?late
       and now = example_now and txid = example_transaction_id, THEN conjunct1,
     THEN mp, OF lfound, THEN conjunct1, THEN mp, OF late, THEN conjunct1]
  from T [THEN conjunct1, THEN mp, OF found] can txid t
  obtain out db' where
    run: "PayInstallmentUseCase_execute scenario_D_database example_transaction_id
       example_now ?input = Inr (out, db')"
    by blast
  from T [THEN conjunct1, THEN mp, OF found, THEN conjunct2, THEN conjunct2,
      THEN spec, THEN spec, THEN mp, OF run]
  have "Transaction.transaction_date (PayInstallmentOutput.transaction out) = 1709337600000
      \<and> Transaction.amount (PayInstallmentOutput.transaction out) = 201 / 2
      \<and> Installment.status (installment out) = PAID
      \<and> Installment.transaction_id (installment out) =
          Some (Transaction.id (PayInstallmentOutput.transaction out))
      \<and> installmentRepository_findById db' example_entry_id = Some (installment out)"
    by (simp add: example_installment_def)
  with run show "\<exists>out db'.
      PayInstallmentUseCase_execute scenario_D_database example_transaction_id example_now
        ?input = Inr (out, db')
      \<and> Transaction.transaction_date (PayInstallmentOutput.transaction out) = 1709337600000
      \<and> Transaction.amount (PayInstallmentOutput.transaction out) = 201 / 2
      \<and> Installment.status (installment out) = PAID
      \<and> Installment.transaction_id (installment out) =
          Some (Transaction.id (PayInstallmentOutput.transaction out))
      \<and> installmentRepository_findById db' example_entry_id = Some (installment out)"
    by blast
  from T [THEN conjunct2, THEN mp, OF ofound] ocan txid rt
  obtain out db' where
    run: "PayRecurringOccurrenceUseCase_execute (\<lambda>d. ''2024'') scenario_D_database
       example_transaction_id example_now ?oinput = Inr (out, db')"
    by blast
  from T [THEN conjunct2, THEN mp, OF ofound, THEN conjunct2, THEN conjunct2,
      THEN spec, THEN spec, THEN mp, OF run] rt
  have "Transaction.transaction_date (PayRecurringOccurrenceOutput.transaction out)
          = 1709294400000
      \<and> Transaction.amount (PayRecurringOccurrenceOutput.transaction out) = 1500
      \<and> RecurringOccurrence.status (occurrence out) = PAID
      \<and> RecurringOccurrence.transaction_id (occurrence out) =
          Some (Transaction.id (PayRecurringOccurrenceOutput.transaction out))
      \<and> occurrenceRepository_findById db' example_entry_id = Some (occurrence out)"
    by (simp add: example_occurrence_def scenario_C_template_def
        example_recurring_template_def)
  with run show "\<exists>out db'.
      PayRecurringOccurrenceUseCase_execute (\<lambda>d. ''2024'') scenario_D_database
        example_transaction_id example_now ?oinput = Inr (out, db')
      \<and> Transaction.transaction_date (PayRecurringOccurrenceOutput.transaction out)
          = 1709294400000
      \<and> Transaction.amount (PayRecurringOccurrenceOutput.transaction out) = 1500
      \<and> RecurringOccurrence.status (occurrence out) = PAID
      \<and> RecurringOccurrence.transaction_id (occurrence out) =
          Some (Transaction.id (PayRecurringOccurrenceOutput.transaction out))
      \<and> occurrenceRepository_findById db' example_entry_id = Some (occurrence out)"
    by blast
  from L st show "PayInstallmentUseCase_execute
        (scenario_D_database\<lparr>installment_rows := [?late]\<rparr>)
        example_transaction_id example_now ?input
      = Inl (Error ''Cannot pay overdue installment (>30 days past due)'')"
    by simp
qed

subsection \<open>C10: \<open>months_ahead = 0\<close>\<close>

text \<open>
  C10. A request with \<open>months_ahead = 0\<close> is served as one with \<open>months_ahead = 3\<close>:
  \<open>months_ahead || 3\<close> replaces 0 by the default. Both
  \<open>GenerateRecurringOccurrencesUseCase.execute\<close> and
  \<open>CreateRecurringTransactionUseCase.execute\<close> give with 0 what they give with 3, the
  horizon is the one of three months ahead, and on scenario C the run with 0 creates the
  three occurrences of January to March rather than none.
\<close>

theorem months_ahead_zero_is_three:
  "GenerateRecurringOccurrencesUseCase_execute db gen now
       (input\<lparr>GenerateRecurringOccurrencesInput.months_ahead := Some 0\<rparr>)
     = GenerateRecurringOccurrencesUseCase_execute db gen now
         (input\<lparr>GenerateRecurringOccurrencesInput.months_ahead := Some 3\<rparr>)
   \<and> CreateRecurringTransactionUseCase_execute fmt db gen txid now
       (cinput\<lparr>CreateRecurringTransactionInput.months_ahead := Some 0\<rparr>)
     = CreateRecurringTransactionUseCase_execute fmt db gen txid now
         (cinput\<lparr>CreateRecurringTransactionInput.months_ahead := Some 3\<rparr>)
   \<and> calculateEndDate now t (orThree (Some 0)) = generationHorizon now t 3
   \<and> GenerateRecurringOccurrencesUseCase_execute
       (example_database [scenario_C_template] []) gen 1704067200000
       \<lparr>GenerateRecurringOccurrencesInput.template_id = example_template_id,
        months_ahead = Some 0\<rparr>
     = Some (Inr
       (\<lparr>GenerateRecurringOccurrencesOutput.template = scenario_C_template,
         occurrences =
           [scenario_C_occurrence gen 0 1705276800000,
            scenario_C_occurrence gen 1 1707955200000,
            scenario_C_occurrence gen 2 1710460800000]\<rparr>,
        example_database [scenario_C_template]
           [scenario_C_occurrence gen 0 1705276800000,
            scenario_C_occurrence gen 1 1707955200000,
            scenario_C_occurrence gen 2 1710460800000]))"
proof (intro conjI)
  have eq: "GenerateRecurringOccurrencesUseCase_execute d gen now
       (i\<lparr>GenerateRecurringOccurrencesInput.months_ahead := Some 0\<rparr>)
     = GenerateRecurringOccurrencesUseCase_execute d gen now
         (i\<lparr>GenerateRecurringOccurrencesInput.months_ahead := Some 3\<rparr>)" for d i now
    by (simp add: GenerateRecurringOccurrencesUseCase_execute_def orThree_def
        cong: option.case_cong if_cong sum.case_cong)
  show "GenerateRecurringOccurrencesUseCase_execute db gen now
       (input\<lparr>GenerateRecurringOccurrencesInput.months_ahead := Some 0\<rparr>)
     = GenerateRecurringOccurrencesUseCase_execute db gen now
         (input\<lparr>GenerateRecurringOccurrencesInput.months_ahead := Some 3\<rparr>)"
    by (rule eq)
  have v: "CreateRecurring_validateInput
        (cinput\<lparr>CreateRecurringTransactionInput.months_ahead := m\<rparr>)
      = CreateRecurring_validateInput cinput" for m
    by (simp add: CreateRecurring_validateInput_def cong: option.case_cong)
  have c: "CreateRecurring_createTemplate u
        (cinput\<lparr>CreateRecurringTransactionInput.months_ahead := m\<rparr>) rc vis
      = CreateRecurring_createTemplate u cinput rc vis" for m u rc vis
    by (simp add: CreateRecurring_createTemplate_def)
  show "CreateRecurringTransactionUseCase_execute fmt db gen txid now
       (cinput\<lparr>CreateRecurringTransactionInput.months_ahead := Some 0\<rparr>)
     = CreateRecurringTransactionUseCase_execute fmt db gen txid now
         (cinput\<lparr>CreateRecurringTransactionInput.months_ahead := Some 3\<rparr>)"
    unfolding CreateRecurringTransactionUseCase_execute_def v c
    by (simp add: orThree_def cong: option.case_cong if_cong sum.case_cong prod.case_cong)
  show "calculateEndDate now t (orThree (Some 0)) = generationHorizon now t 3"
    by (simp add: generationHorizon_eq orThree_def)
  show "GenerateRecurringOccurrencesUseCase_execute
       (example_database [scenario_C_template] []) gen 1704067200000
       \<lparr>GenerateRecurringOccurrencesInput.template_id = example_template_id,
        months_ahead = Some 0\<rparr>
     = Some (Inr
       (\<lparr>GenerateRecurringOccurrencesOutput.template = scenario_C_template,
         occurrences =
           [scenario_C_occurrence gen 0 1705276800000,
            scenario_C_occurrence gen 1 1707955200000,
            scenario_C_occurrence gen 2 1710460800000]\<rparr>,
        example_database [scenario_C_template]
           [scenario_C_occurrence gen 0 1705276800000,
            scenario_C_occurrence gen 1 1707955200000,
            scenario_C_occurrence gen 2 1710460800000]))"
    using eq [of "example_database [scenario_C_template] []" 1704067200000
        "\<lparr>GenerateRecurringOccurrencesInput.template_id = example_template_id,
          months_ahead = None\<rparr>"]
      orThree_def
      scenario_C_execute [of gen]
    by simp
qed

subsection \<open>C9: the cursor \<open>next_occurrence\<close>\<close>

text \<open>
  C9, as the code has it. No generation run moves \<open>next_occurrence\<close>. A run of
  \<open>GenerateRecurringOccurrencesUseCase.execute\<close> that returns leaves the stored
  templates as they were and returns the stored template unchanged; a run of
  \<open>CreateRecurringTransactionUseCase.execute\<close> that returns adds one template, the one
  it returns, whose \<open>next_occurrence\<close> is the \<open>start_date\<close> of the request, whatever
  occurrences it generated. Every run starts again from that cursor, and the dates
  generated before are left out by the check on the stored due dates.
\<close>

theorem generation_never_moves_next_occurrence:
  "(GenerateRecurringOccurrencesUseCase_execute db gen now input = Some (Inr (out, db'))
      \<longrightarrow> recurringTemplate_rows db' = recurringTemplate_rows db
        \<and> templateRepository_findById db
            (GenerateRecurringOccurrencesInput.template_id input)
            = Some (GenerateRecurringOccurrencesOutput.template out)
        \<and> templateRepository_findById db'
            (GenerateRecurringOccurrencesInput.template_id input)
            = Some (GenerateRecurringOccurrencesOutput.template out))
   \<and> (CreateRecurringTransactionUseCase_execute fmt db gen txid now cinput
        = Some (Inr (cout, db''))
      \<longrightarrow> RecurringTransactionTemplate.next_occurrence
            (CreateRecurringTransactionOutput.template cout)
          = CreateRecurringTransactionInput.start_date cinput
        \<and> recurringTemplate_rows db''
          = recurringTemplate_rows db @ [CreateRecurringTransactionOutput.template cout])"
  using execute_keeps_template [of db gen now input out db']
    create_keeps_next_occurrence [of fmt db gen txid now cinput cout db'']
  by blast

text \<open>The theorem of C9 on scenario C: the run of 2024-01-01 for the stored template,
  and the creation of the template with its first three occurrences.\<close>

theorem generation_never_moves_next_occurrence_witness:
  "(\<exists>out db'.
      GenerateRecurringOccurrencesUseCase_execute (example_database [scenario_C_template] [])
        example_uuids 1704067200000
        \<lparr>GenerateRecurringOccurrencesInput.template_id = example_template_id,
         months_ahead = Some 3\<rparr> = Some (Inr (out, db'))
      \<and> length (GenerateRecurringOccurrencesOutput.occurrences out) = 3
      \<and> recurringTemplate_rows db' = [scenario_C_template]
      \<and> templateRepository_findById db' example_template_id
          = Some (GenerateRecurringOccurrencesOutput.template out))
   \<and> (\<exists>cout db''.
      CreateRecurringTransactionUseCase_execute (\<lambda>d. ''2024'') (example_database [] [])
        example_uuids example_transaction_id 1704067200000 scenario_C_input
        = Some (Inr (cout, db''))
      \<and> map RecurringOccurrence.due_date (CreateRecurringTransactionOutput.occurrences cout)
          = [1705276800000, 1707955200000, 1710460800000]
      \<and> RecurringTransactionTemplate.next_occurrence
            (CreateRecurringTransactionOutput.template cout) = 1705276800000
      \<and> recurringTemplate_rows db'' = [CreateRecurringTransactionOutput.template cout])"
proof (intro conjI)
  let ?db = "example_database [scenario_C_template] []"
  let ?input = "\<lparr>GenerateRecurringOccurrencesInput.template_id = example_template_id,
         months_ahead = Some 3\<rparr>"
  obtain out db' where
    run: "GenerateRecurringOccurrencesUseCase_execute ?db example_uuids 1704067200000 ?input
      = Some (Inr (out, db'))"
    and n: "length (GenerateRecurringOccurrencesOutput.occurrences out) = 3"
    using scenario_C_execute [of example_uuids] by simp
  from generation_never_moves_next_occurrence
    [where db = ?db and gen = example_uuids and now = 1704067200000 and input = ?input
       and out = out and db' = db', THEN conjunct1, THEN mp, OF run]
  have "recurringTemplate_rows db' = [scenario_C_template]
      \<and> templateRepository_findById db' example_template_id
          = Some (GenerateRecurringOccurrencesOutput.template out)"
    by (simp add: example_database_def)
  with run n show "\<exists>out db'.
      GenerateRecurringOccurrencesUseCase_execute ?db example_uuids 1704067200000 ?input
        = Some (Inr (out, db'))
      \<and> length (GenerateRecurringOccurrencesOutput.occurrences out) = 3
      \<and> recurringTemplate_rows db' = [scenario_C_template]
      \<and> templateRepository_findById db' example_template_id
          = Some (GenerateRecurringOccurrencesOutput.template out)"
    by blast
  from scenario_C_create [of "\<lambda>d. ''2024''" example_transaction_id]
  obtain cout db'' where
    crun: "CreateRecurringTransactionUseCase_execute (\<lambda>d. ''2024'') (example_database [] [])
        example_uuids example_transaction_id 1704067200000 scenario_C_input
        = Some (Inr (cout, db''))"
    and dates: "map RecurringOccurrence.due_date
        (CreateRecurringTransactionOutput.occurrences cout)
          = [1705276800000, 1707955200000, 1710460800000]"
    by force
  from generation_never_moves_next_occurrence
    [where db = "example_database [] []" and gen = example_uuids and now = 1704067200000
       and fmt = "\<lambda>d. ''2024''" and txid = example_transaction_id
       and cinput = scenario_C_input and cout = cout and db'' = db'',
     THEN conjunct2, THEN mp, OF crun]
  have "RecurringTransactionTemplate.next_occurrence
            (CreateRecurringTransactionOutput.template cout) = 1705276800000
      \<and> recurringTemplate_rows db'' = [CreateRecurringTransactionOutput.template cout]"
    by (simp add: example_database_def scenario_C_input_def)
  with crun dates show "\<exists>cout db''.
      CreateRecurringTransactionUseCase_execute (\<lambda>d. ''2024'') (example_database [] [])
        example_uuids example_transaction_id 1704067200000 scenario_C_input
        = Some (Inr (cout, db''))
      \<and> map RecurringOccurrence.due_date (CreateRecurringTransactionOutput.occurrences cout)
          = [1705276800000, 1707955200000, 1710460800000]
      \<and> RecurringTransactionTemplate.next_occurrence
            (CreateRecurringTransactionOutput.template cout) = 1705276800000
      \<and> recurringTemplate_rows db'' = [CreateRecurringTransactionOutput.template cout]"
    by (intro exI [of _ cout] exI [of _ db''] conjI) simp_all
qed

text \<open>
  C9 as stated fails on scenario C: the run creates the occurrences of 2024-01-15,
  2024-02-15 and 2024-03-15, and \<open>next_occurrence\<close> of the template, returned and
  stored, is still 2024-01-15, the due date of the first of them.
\<close>

theorem generation_run_leaves_cursor:
  "GenerateRecurringOccurrencesUseCase_execute (example_database [scenario_C_template] [])
      example_uuids 1704067200000
      \<lparr>GenerateRecurringOccurrencesInput.template_id = example_template_id,
       months_ahead = Some 3\<rparr>
    = Some (Inr
       (\<lparr>GenerateRecurringOccurrencesOutput.template = scenario_C_template,
         occurrences =
           [scenario_C_occurrence example_uuids 0 1705276800000,
            scenario_C_occurrence example_uuids 1 1707955200000,
            scenario_C_occurrence example_uuids 2 1710460800000]\<rparr>,
        example_database [scenario_C_template]
           [scenario_C_occurrence example_uuids 0 1705276800000,
            scenario_C_occurrence example_uuids 1 1707955200000,
            scenario_C_occurrence example_uuids 2 1710460800000]))
   \<and> RecurringTransactionTemplate.next_occurrence scenario_C_template = 1705276800000
   \<and> map RecurringTransactionTemplate.next_occurrence
        (recurringTemplate_rows
           (example_database [scenario_C_template]
              [scenario_C_occurrence example_uuids 0 1705276800000,
               scenario_C_occurrence example_uuids 1 1707955200000,
               scenario_C_occurrence example_uuids 2 1710460800000]))
      = [1705276800000]
   \<and> map RecurringOccurrence.due_date
        [scenario_C_occurrence example_uuids 0 1705276800000,
         scenario_C_occurrence example_uuids 1 1707955200000,
         scenario_C_occurrence example_uuids 2 1710460800000]
      = [1705276800000, 1707955200000, 1710460800000]"
  using scenario_C_execute [of example_uuids]
  by (simp add: scenario_C_template_def example_recurring_template_def
      example_database_def scenario_C_occurrence_def)

subsection \<open>C6: \<open>transaction_id\<close> and the status PAID\<close>

text \<open>
  C6 fails in the code. The skip operations of the controllers write the status
  SKIPPED for any stored entry, with no look at its status: for a stored installment
  (or occurrence) that is PAID with a transaction, \<open>POST :id/skip\<close> succeeds and leaves
  the entry SKIPPED with its \<open>transaction_id\<close> still set, where \<open>markAsSkipped()\<close> of
  the entity refuses an entry that is not PENDING. The constructor does not relate the
  two fields either: it accepts the status PAID with no \<open>transaction_id\<close>.
\<close>

theorem skip_of_paid_entry_keeps_transaction_id:
  "InstallmentController_skipInstallment
      (scenario_D_database
         \<lparr>installment_rows :=
            [example_installment 1709337600000 PAID (Some example_transaction_id)]\<rparr>)
      example_entry_id
    = Inr (''Installment skipped successfully'',
        scenario_D_database
          \<lparr>installment_rows :=
             [example_installment 1709337600000 SKIPPED (Some example_transaction_id)]\<rparr>)
   \<and> RecurringOccurrenceController_skipOccurrence
      (scenario_D_database
         \<lparr>recurringOccurrence_rows :=
            [example_occurrence 1710460800000 PAID (Some example_transaction_id)]\<rparr>)
      example_entry_id
    = Inr (''Occurrence skipped successfully'',
        scenario_D_database
          \<lparr>recurringOccurrence_rows :=
             [example_occurrence 1710460800000 SKIPPED (Some example_transaction_id)]\<rparr>)
   \<and> Installment_markAsSkipped
        (example_installment 1709337600000 PAID (Some example_transaction_id))
      = Inl (Error ''Only pending installments can be skipped'')
   \<and> RecurringOccurrence_markAsSkipped
        (example_occurrence 1710460800000 PAID (Some example_transaction_id))
      = Inl (Error ''Only pending occurrences can be skipped'')
   \<and> Installment_new example_entry_id example_now
        \<lparr>InstallmentProps.id = Some example_entry_id,
         template_id = example_template_id,
         installment_number = 1, amount = 201 / 2, due_date = 1709337600000,
         status = Some PAID, transaction_id = None,
         created_at = Some 1704067200000, updated_at = Some 1704067200000\<rparr>
      = Inr (example_installment 1709337600000 PAID None)"
proof (intro conjI)
  have u: "uuid example_entry_id" "uuid example_template_id"
    by code_simp+
  show "InstallmentController_skipInstallment
      (scenario_D_database
         \<lparr>installment_rows :=
            [example_installment 1709337600000 PAID (Some example_transaction_id)]\<rparr>)
      example_entry_id
    = Inr (''Installment skipped successfully'',
        scenario_D_database
          \<lparr>installment_rows :=
             [example_installment 1709337600000 SKIPPED (Some example_transaction_id)]\<rparr>)"
    by (simp add: InstallmentController_skipInstallment_def
        installmentRepository_markAsSkipped_def example_installment_def)
  show "RecurringOccurrenceController_skipOccurrence
      (scenario_D_database
         \<lparr>recurringOccurrence_rows :=
            [example_occurrence 1710460800000 PAID (Some example_transaction_id)]\<rparr>)
      example_entry_id
    = Inr (''Occurrence skipped successfully'',
        scenario_D_database
          \<lparr>recurringOccurrence_rows :=
             [example_occurrence 1710460800000 SKIPPED (Some example_transaction_id)]\<rparr>)"
    by (simp add: RecurringOccurrenceController_skipOccurrence_def
        occurrenceRepository_markAsSkipped_def example_occurrence_def)
  show "Installment_markAsSkipped
        (example_installment 1709337600000 PAID (Some example_transaction_id))
      = Inl (Error ''Only pending installments can be skipped'')"
    by (simp add: Installment_markAsSkipped_def Installment_isPending_def
        example_installment_def)
  show "RecurringOccurrence_markAsSkipped
        (example_occurrence 1710460800000 PAID (Some example_transaction_id))
      = Inl (Error ''Only pending occurrences can be skipped'')"
    by (simp add: RecurringOccurrence_markAsSkipped_def RecurringOccurrence_isPending_def
        example_occurrence_def)
  show "Installment_new example_entry_id example_now
        \<lparr>InstallmentProps.id = Some example_entry_id,
         template_id = example_template_id,
         installment_number = 1, amount = 201 / 2, due_date = 1709337600000,
         status = Some PAID, transaction_id = None,
         created_at = Some 1704067200000, updated_at = Some 1704067200000\<rparr>
      = Inr (example_installment 1709337600000 PAID None)"
    using u
    by (simp add: Installment_new_def Installment_validate_def optional_def
        example_installment_def)
qed


end
